theory Spec2Isabelle
  imports Complex_Main "HOL-Library.AList"
begin

section \<open>Python values, option sets and errors\<close>

text \<open>
  The values an option set of \<^verbatim>\<open>net.py\<close> holds: flags, dimensions, type names and
  floating-point settings such as the clipping threshold.  A Python float is carried as
  the rational it denotes; no arithmetic is done on it here.
\<close>

datatype pyval = PNone | PBool bool | PInt int | PFloat rat | PStr string

text \<open>Python truthiness, as used by \<^verbatim>\<open>if not self._options[...]\<close> and \<^verbatim>\<open>or\<close>.\<close>

fun truthy :: "pyval \<Rightarrow> bool" where
  "truthy PNone = False"
| "truthy (PBool b) = b"
| "truthy (PInt i) = (i \<noteq> 0)"
| "truthy (PFloat r) = (r \<noteq> 0)"
| "truthy (PStr s) = (s \<noteq> [])"

text \<open>Python \<^verbatim>\<open>==\<close> on these values: numbers (bools included) compare by value.\<close>

fun num_of :: "pyval \<Rightarrow> rat option" where
  "num_of (PBool b) = Some (if b then 1 else 0)"
| "num_of (PInt i) = Some (of_int i)"
| "num_of (PFloat r) = Some r"
| "num_of _ = None"

definition py_eq :: "pyval \<Rightarrow> pyval \<Rightarrow> bool" where
  "py_eq a b = (case (num_of a, num_of b) of
                  (Some x, Some y) \<Rightarrow> x = y
                | (None, None) \<Rightarrow> a = b
                | _ \<Rightarrow> False)"

datatype error =
    AssertionError
  | KeyError string
  | IOError string
  | TypeError
  | NameError string
  | UnpicklingError
  | AttributeError string
  | IndexError
  | DisconnectedInputError
  | MissingInputError string
  | UnusedInputError string
  | DuplicateUpdateError
  | RuntimeError

text \<open>
  An \<^verbatim>\<open>OrderedDict\<close> is an association list in insertion order with distinct keys.
  \<^verbatim>\<open>d[k]\<close> raises \<^verbatim>\<open>KeyError\<close> on a missing key; \<^verbatim>\<open>d[k] = v\<close> replaces in place or
  appends (\<^const>\<open>AList.update\<close>); \<^verbatim>\<open>k in d\<close> tests membership.
\<close>

type_synonym 'v odict = "(string \<times> 'v) list"

type_synonym options = "pyval odict"

definition od_get :: "'v odict \<Rightarrow> string \<Rightarrow> error + 'v" where
  "od_get d k = (case map_of d k of None \<Rightarrow> Inl (KeyError k) | Some v \<Rightarrow> Inr v)"

definition od_in :: "string \<Rightarrow> 'v odict \<Rightarrow> bool" where
  "od_in k d = (map_of d k \<noteq> None)"

definition od_set :: "'v odict \<Rightarrow> string \<Rightarrow> 'v \<Rightarrow> 'v odict" where
  "od_set d k v = AList.update k v d"

text \<open>Equality of two \<^verbatim>\<open>OrderedDict\<close>s is sensitive to order: item by item.\<close>

fun od_eq :: "options \<Rightarrow> options \<Rightarrow> bool" where
  "od_eq [] [] = True"
| "od_eq ((k, v) # d) ((k', v') # d') = (k = k' \<and> py_eq v v' \<and> od_eq d d')"
| "od_eq _ _ = False"

text \<open>An option read as a Python int (a bool is an int in Python).\<close>

definition opt_int :: "options \<Rightarrow> string \<Rightarrow> error + int" where
  "opt_int d k = (case od_get d k of
                    Inl e \<Rightarrow> Inl e
                  | Inr (PInt i) \<Rightarrow> Inr i
                  | Inr (PBool b) \<Rightarrow> Inr (if b then 1 else 0)
                  | Inr _ \<Rightarrow> Inl TypeError)"

definition opt_str :: "options \<Rightarrow> string \<Rightarrow> error + string" where
  "opt_str d k = (case od_get d k of
                    Inl e \<Rightarrow> Inl e
                  | Inr (PStr s) \<Rightarrow> Inr s
                  | Inr _ \<Rightarrow> Inl TypeError)"

section \<open>Tensors\<close>

text \<open>
  A numpy array or the value of a shared variable: nested lists of elements.  \<open>'a\<close> is the
  type of float32 elements, left abstract; \<open>Int32\<close> carries the elements of the integer
  ports (taps, identity indices).
\<close>

datatype 'a tensor = Flt 'a | Int32 int | Arr "'a tensor list"

text \<open>\<^verbatim>\<open>tt.zeros_like(v)\<close>: same shape and dtype, every element zero.\<close>

fun zeros_like :: "'a::zero tensor \<Rightarrow> 'a tensor" where
  "zeros_like (Flt x) = Flt 0"
| "zeros_like (Int32 i) = Int32 0"
| "zeros_like (Arr xs) = Arr (map zeros_like xs)"

text \<open>\<^verbatim>\<open>v.get_value() * 0.\<close>: every element multiplied by the float zero.\<close>

fun times_zero :: "'a::mult_zero tensor \<Rightarrow> 'a tensor" where
  "times_zero (Flt x) = Flt (x * 0)"
| "times_zero (Int32 i) = Flt 0"
| "times_zero (Arr xs) = Arr (map times_zero xs)"

text \<open>
  \<^verbatim>\<open>tt.tile(x, (n, 1))\<close>: \<open>x\<close> is promoted to two dimensions (a scalar to \<open>1 \<times> 1\<close>, a
  vector to one row) and its rows are repeated \<open>n\<close> times; a matrix has its block of rows
  repeated.  A negative \<open>n\<close> is rejected by the backend.  Tensors of more than two
  dimensions do not occur as operands here and are rejected.
\<close>

fun is_vector :: "'a tensor \<Rightarrow> bool" where
  "is_vector (Arr xs) = list_all (\<lambda>x. case x of Arr _ \<Rightarrow> False | _ \<Rightarrow> True) xs"
| "is_vector _ = False"

fun is_matrix :: "'a tensor \<Rightarrow> bool" where
  "is_matrix (Arr rows) = (rows \<noteq> [] \<and> list_all is_vector rows)"
| "is_matrix _ = False"

definition tile_rows :: "'a tensor \<Rightarrow> int \<Rightarrow> 'a tensor option" where
  "tile_rows x n =
     (if n < 0 then None
      else case x of
        Flt a \<Rightarrow> Some (Arr (replicate (nat n) (Arr [Flt a])))
      | Int32 i \<Rightarrow> Some (Arr (replicate (nat n) (Arr [Int32 i])))
      | Arr xs \<Rightarrow>
          if is_vector x then Some (Arr (replicate (nat n) x))
          else if is_matrix x then Some (Arr (concat (replicate (nat n) xs)))
          else None)"

text \<open>
  Python's \<^verbatim>\<open>xs[k:]\<close> along the first axis: a negative \<open>k\<close> counts from the end, and a
  start outside the range is clamped.  Slicing a scalar is an error.
\<close>

definition slice_start :: "int \<Rightarrow> nat \<Rightarrow> nat" where
  "slice_start k n = (if k < 0 then nat (max 0 (int n + k)) else min (nat k) n)"

definition slice_from :: "'a tensor \<Rightarrow> int \<Rightarrow> 'a tensor option" where
  "slice_from x k = (case x of
                       Arr xs \<Rightarrow> Some (Arr (drop (slice_start k (length xs)) xs))
                     | _ \<Rightarrow> None)"

section \<open>The file system and the other effects of construction\<close>

text \<open>
  Two kinds of file are written and read: the pickled option set (\<^verbatim>\<open>options.pkl\<close>) and
  parameter archives (\<^verbatim>\<open>*.npz\<close>, arrays keyed by name).  Every file access and every
  printed line is appended to a log, so that the order of effects can be stated.
  \<^verbatim>\<open>get_random_string\<close> draws from a supply of strings held by the world.
\<close>

datatype 'a file_content = OptionsPkl options | ParamsNpz "'a tensor odict"

datatype event = OpenRead string | OpenWrite string | Remove string | Print string

record 'a world =
  files :: "string \<Rightarrow> 'a file_content option"
  writable :: "string \<Rightarrow> bool"
  log :: "event list"
  rand_strings :: "nat \<Rightarrow> string"
  rand_pos :: nat

definition logged :: "event \<Rightarrow> 'a world \<Rightarrow> 'a world" where
  "logged e w = w\<lparr>log := log w @ [e]\<rparr>"

text \<open>\<^verbatim>\<open>pk.load(open(path, 'rb'))\<close>\<close>

definition pk_load :: "'a world \<Rightarrow> string \<Rightarrow> (error + options) \<times> 'a world" where
  "pk_load w path =
     (case files w path of
        None \<Rightarrow> (Inl (IOError path), w)
      | Some (OptionsPkl d) \<Rightarrow> (Inr d, logged (OpenRead path) w)
      | Some (ParamsNpz _) \<Rightarrow> (Inl UnpicklingError, logged (OpenRead path) w))"

text \<open>\<^verbatim>\<open>pk.dump(d, open(path, 'wb'))\<close>\<close>

definition pk_dump :: "'a world \<Rightarrow> string \<Rightarrow> options \<Rightarrow> (error + unit) \<times> 'a world" where
  "pk_dump w path d =
     (if writable w path
      then (Inr (), logged (OpenWrite path) (w\<lparr>files := (files w)(path \<mapsto> OptionsPkl d)\<rparr>))
      else (Inl (IOError path), w))"

text \<open>\<^verbatim>\<open>np.load(path)\<close> of an archive\<close>

definition np_load :: "'a world \<Rightarrow> string \<Rightarrow> (error + 'a tensor odict) \<times> 'a world" where
  "np_load w path =
     (case files w path of
        None \<Rightarrow> (Inl (IOError path), w)
      | Some (ParamsNpz d) \<Rightarrow> (Inr d, logged (OpenRead path) w)
      | Some (OptionsPkl _) \<Rightarrow> (Inl (IOError path), logged (OpenRead path) w))"

text \<open>
  \<^verbatim>\<open>np.savez(file, **d)\<close>: the extension \<^verbatim>\<open>.npz\<close> is appended to a name that lacks it, and an
  array keyed \<^verbatim>\<open>file\<close> collides with the first argument of \<^verbatim>\<open>savez\<close>.
\<close>

definition npz_name :: "string \<Rightarrow> string" where
  "npz_name path = (if drop (length path - 4) path = ''.npz'' then path else path @ ''.npz'')"

definition np_savez :: "'a world \<Rightarrow> string \<Rightarrow> 'a tensor odict \<Rightarrow> (error + unit) \<times> 'a world" where
  "np_savez w path d =
     (if od_in ''file'' d then (Inl TypeError, w)
      else if writable w (npz_name path)
      then (Inr (), logged (OpenWrite (npz_name path))
                      (w\<lparr>files := (files w)(npz_name path \<mapsto> ParamsNpz d)\<rparr>))
      else (Inl (IOError (npz_name path)), w))"

text \<open>\<^verbatim>\<open>os.remove(path)\<close>\<close>

definition os_remove :: "'a world \<Rightarrow> string \<Rightarrow> (error + unit) \<times> 'a world" where
  "os_remove w path =
     (case files w path of
        None \<Rightarrow> (Inl (IOError path), w)
      | Some _ \<Rightarrow> (Inr (), logged (Remove path) (w\<lparr>files := (files w)(path := None)\<rparr>)))"

definition get_random_string :: "'a world \<Rightarrow> string \<times> 'a world" where
  "get_random_string w = (rand_strings w (rand_pos w), w\<lparr>rand_pos := Suc (rand_pos w)\<rparr>)"

section \<open>Configuration\<close>

text \<open>What \<^verbatim>\<open>_configure\<close> stores on the object.\<close>

record config =
  is_training :: bool
  cfg_options :: options
  save_to :: "string option"
  pfx :: string

text \<open>
  \<^verbatim>\<open>Net._configure(options, save_to, load_from)\<close>.  Training mode is chosen by a
  \<^verbatim>\<open>save_to\<close> path; on resume the persisted options are compared with the supplied ones
  before the supplied ones are written.  Inference mode draws the name prefix, loads the
  options and overrides \<^verbatim>\<open>batch_size\<close>; \<^verbatim>\<open>'batch_size' in None\<close> is a \<^verbatim>\<open>TypeError\<close>.
\<close>

definition check_loaded_options ::
  "'a world \<Rightarrow> options \<Rightarrow> string option \<Rightarrow> (error + unit) \<times> 'a world"
where
  "check_loaded_options w d load_from =
     (case load_from of
        None \<Rightarrow> (Inr (), w)
      | Some l \<Rightarrow>
          (case pk_load w (l @ ''/options.pkl'') of
             (Inl e, w') \<Rightarrow> (Inl e, w')
           | (Inr loaded, w') \<Rightarrow>
               if \<not> od_eq d loaded
               then (Inl AssertionError,
                     logged (Print ''[Error] Mismatching options in loaded model'') w')
               else (Inr (), w')))"

definition configure ::
  "'a world \<Rightarrow> options option \<Rightarrow> string option \<Rightarrow> string option \<Rightarrow> (error + config) \<times> 'a world"
where
  "configure w opts save load_from =
     (case save of
        Some s \<Rightarrow>
          (case opts of
             None \<Rightarrow> (Inl AssertionError, w)
           | Some d \<Rightarrow>
               (case check_loaded_options w d load_from of
                  (Inl e, w1) \<Rightarrow> (Inl e, w1)
                | (Inr _, w1) \<Rightarrow>
                    (case pk_dump w1 (s @ ''/options.pkl'') d of
                       (Inl e, w2) \<Rightarrow> (Inl e, w2)
                     | (Inr _, w2) \<Rightarrow>
                         (Inr \<lparr>is_training = True, cfg_options = d,
                               save_to = Some s, pfx = []\<rparr>, w2))))
      | None \<Rightarrow>
          (case get_random_string w of
             (rs, w1) \<Rightarrow>
               (case load_from of
                  None \<Rightarrow> (Inl AssertionError, w1)
                | Some l \<Rightarrow>
                    (case pk_load w1 (l @ ''/options.pkl'') of
                       (Inl e, w2) \<Rightarrow> (Inl e, w2)
                     | (Inr loaded, w2) \<Rightarrow>
                         (case opts of
                            None \<Rightarrow> (Inl TypeError, w2)
                          | Some d \<Rightarrow>
                              (case map_of d ''batch_size'' of
                                 None \<Rightarrow> (Inl AssertionError, w2)
                               | Some b \<Rightarrow>
                                   (Inr \<lparr>is_training = False,
                                         cfg_options = od_set loaded ''batch_size'' b,
                                         save_to = None, pfx = rs @ ''_''\<rparr>, w2)))))))"

section \<open>Shared variables and symbolic graphs\<close>

text \<open>
  A shared variable is named by the dictionary or list that holds it and its key there:
  \<open>VParam k\<close> is \<^verbatim>\<open>_v_params[k]\<close> (and, being the same object, \<^verbatim>\<open>_v_params_wo_init[k]\<close>
  or \<^verbatim>\<open>_v_params_for_init[k]\<close>), \<open>VPrev k\<close> is \<^verbatim>\<open>_v_prev_states[k]\<close>, \<open>VGrad k\<close> is the
  element of \<^verbatim>\<open>_v_grads\<close> created for parameter \<open>k\<close>, \<open>VGradInit k\<close> the element of
  \<^verbatim>\<open>_v_grads_for_init\<close> created for previous state \<open>k\<close>, and \<open>VOptim s\<close> a state variable
  allocated by an optimizer.  The store maps each allocated variable to its value.
\<close>

datatype vref = VParam string | VPrev string | VGrad string | VGradInit string | VOptim string

type_synonym 'a store = "vref \<Rightarrow> 'a tensor option"

text \<open>
  The symbolic expressions \<^verbatim>\<open>net.py\<close> builds itself, and \<open>SExt\<close> for the nodes that the
  layers and optimizers build.
\<close>

datatype sym =
    SShared vref
  | SPort string
  | SLastIndex sym
  | SZerosLike sym
  | STileRows sym int
  | STileTime sym sym
  | SToOneHot sym pyval
  | SConcat2 sym sym
  | SSliceFrom sym sym
  | SMSE sym sym
  | SGrad sym vref
  | SClipNorm sym pyval
  | SMean0 sym
  | SExt string "sym list"

text \<open>The shared variables and the input ports an expression is connected to.\<close>

fun svars :: "sym \<Rightarrow> vref list" where
  "svars (SShared v) = [v]"
| "svars (SPort p) = []"
| "svars (SLastIndex e) = svars e"
| "svars (SZerosLike e) = svars e"
| "svars (STileRows e n) = svars e"
| "svars (STileTime e t) = svars e @ svars t"
| "svars (SToOneHot e c) = svars e"
| "svars (SConcat2 a b) = svars a @ svars b"
| "svars (SSliceFrom e k) = svars e @ svars k"
| "svars (SMSE a b) = svars a @ svars b"
| "svars (SGrad e v) = svars e"
| "svars (SClipNorm e c) = svars e"
| "svars (SMean0 e) = svars e"
| "svars (SExt f es) = concat (map svars es)"

fun sports :: "sym \<Rightarrow> string list" where
  "sports (SShared v) = []"
| "sports (SPort p) = [p]"
| "sports (SLastIndex e) = sports e"
| "sports (SZerosLike e) = sports e"
| "sports (STileRows e n) = sports e"
| "sports (STileTime e t) = sports e @ sports t"
| "sports (SToOneHot e c) = sports e"
| "sports (SConcat2 a b) = sports a @ sports b"
| "sports (SSliceFrom e k) = sports e @ sports k"
| "sports (SMSE a b) = sports a @ sports b"
| "sports (SGrad e v) = sports e"
| "sports (SClipNorm e c) = sports e"
| "sports (SMean0 e) = sports e"
| "sports (SExt f es) = concat (map sports es)"

type_synonym update = "vref \<times> sym"

text \<open>
  What the numeric backend computes for the nodes whose arithmetic is not fixed by
  \<^verbatim>\<open>net.py\<close>: the external nodes, the gradient of an expression with respect to a shared
  variable at the current store and inputs, norm clipping, the mean over the first axis,
  the squared-error loss, one-hot encoding and concatenation.  \<open>None\<close> is a run-time error.
\<close>

record 'a sem =
  ext_op :: "string \<Rightarrow> 'a tensor list \<Rightarrow> 'a tensor option"
  grad_op :: "sym \<Rightarrow> vref \<Rightarrow> 'a store \<Rightarrow> (string \<Rightarrow> 'a tensor option) \<Rightarrow> 'a tensor option"
  clip_norm :: "'a tensor \<Rightarrow> pyval \<Rightarrow> 'a tensor option"
  mean0 :: "'a tensor \<Rightarrow> 'a tensor option"
  MSE_loss :: "'a tensor \<Rightarrow> 'a tensor \<Rightarrow> 'a tensor option"
  to_one_hot :: "'a tensor \<Rightarrow> pyval \<Rightarrow> 'a tensor option"
  concat2 :: "'a tensor \<Rightarrow> 'a tensor \<Rightarrow> 'a tensor option"

text \<open>\<^verbatim>\<open>x.shape[0] - 1\<close>\<close>

definition last_index :: "'a tensor \<Rightarrow> 'a tensor option" where
  "last_index x = (case x of Arr xs \<Rightarrow> Some (Int32 (int (length xs) - 1)) | _ \<Rightarrow> None)"

text \<open>\<^verbatim>\<open>tt.tile(x, (t.shape[0], 1, 1))\<close> of a matrix \<open>x\<close>: one copy per time step of \<open>t\<close>.\<close>

definition tile_time :: "'a tensor \<Rightarrow> 'a tensor \<Rightarrow> 'a tensor option" where
  "tile_time x t = (case t of
                      Arr ts \<Rightarrow> if is_matrix x then Some (Arr (replicate (length ts) x)) else None
                    | _ \<Rightarrow> None)"

definition those2 :: "'b option \<Rightarrow> 'c option \<Rightarrow> ('b \<Rightarrow> 'c \<Rightarrow> 'd option) \<Rightarrow> 'd option" where
  "those2 a b f = (case a of None \<Rightarrow> None | Some x \<Rightarrow> (case b of None \<Rightarrow> None | Some y \<Rightarrow> f x y))"

text \<open>The value of an expression at a store and an assignment of the input ports.\<close>

fun eval :: "'a::zero sem \<Rightarrow> 'a store \<Rightarrow> (string \<Rightarrow> 'a tensor option) \<Rightarrow> sym \<Rightarrow> 'a tensor option" where
  "eval S st inp (SShared v) = st v"
| "eval S st inp (SPort p) = inp p"
| "eval S st inp (SLastIndex e) = Option.bind (eval S st inp e) last_index"
| "eval S st inp (SZerosLike e) = map_option zeros_like (eval S st inp e)"
| "eval S st inp (STileRows e n) = Option.bind (eval S st inp e) (\<lambda>x. tile_rows x n)"
| "eval S st inp (STileTime e t) = those2 (eval S st inp e) (eval S st inp t) tile_time"
| "eval S st inp (SToOneHot e c) = Option.bind (eval S st inp e) (\<lambda>x. to_one_hot S x c)"
| "eval S st inp (SConcat2 a b) = those2 (eval S st inp a) (eval S st inp b) (concat2 S)"
| "eval S st inp (SSliceFrom e k) =
     those2 (eval S st inp e) (eval S st inp k)
       (\<lambda>x i. case i of Int32 j \<Rightarrow> slice_from x j | _ \<Rightarrow> None)"
| "eval S st inp (SMSE a b) = those2 (eval S st inp a) (eval S st inp b) (MSE_loss S)"
| "eval S st inp (SGrad e v) = grad_op S e v st inp"
| "eval S st inp (SClipNorm e c) = Option.bind (eval S st inp e) (\<lambda>x. clip_norm S x c)"
| "eval S st inp (SMean0 e) = Option.bind (eval S st inp e) (mean0 S)"
| "eval S st inp (SExt f es) = Option.bind (those (map (eval S st inp) es)) (ext_op S f)"

section \<open>Compiled functions\<close>

datatype unused_policy = Raise | Ignore

record fn =
  f_inputs :: "string list"
  f_outputs :: "sym list"
  f_updates :: "update list"
  on_unused_input :: unused_policy

text \<open>
  \<^verbatim>\<open>th.function(inputs, outputs, updates, on_unused_input)\<close>.  Compilation rejects a graph
  that needs a port which is not among the inputs, two updates of one shared variable,
  and, under the policy \<^verbatim>\<open>'raise'\<close>, a declared input that the graph does not use.
\<close>

definition graph_ports :: "sym list \<Rightarrow> update list \<Rightarrow> string list" where
  "graph_ports outs ups = concat (map sports outs) @ concat (map (sports \<circ> snd) ups)"

definition th_function ::
  "string list \<Rightarrow> sym list \<Rightarrow> update list \<Rightarrow> unused_policy \<Rightarrow> error + fn"
where
  "th_function ins outs ups pol =
     (case filter (\<lambda>p. p \<notin> set ins) (graph_ports outs ups) of
        p # _ \<Rightarrow> Inl (MissingInputError p)
      | [] \<Rightarrow>
          if \<not> distinct (map fst ups)
          then Inl DuplicateUpdateError
          else (case filter (\<lambda>p. p \<notin> set (graph_ports outs ups)) ins of
                  p # _ \<Rightarrow> if pol = Raise then Inl (UnusedInputError p)
                            else Inr \<lparr>f_inputs = ins, f_outputs = outs, f_updates = ups,
                                      on_unused_input = pol\<rparr>
                | [] \<Rightarrow> Inr \<lparr>f_inputs = ins, f_outputs = outs, f_updates = ups,
                             on_unused_input = pol\<rparr>))"

text \<open>
  Calling a compiled function: every declared input needs an argument; the outputs and
  the new values of all updated variables are computed at the store as it is before the
  call, and the updates are then written together.
\<close>

fun write_all :: "'a store \<Rightarrow> (vref \<times> 'a tensor) list \<Rightarrow> 'a store" where
  "write_all st [] = st"
| "write_all st ((v, x) # ws) = write_all (st(v \<mapsto> x)) ws"

definition call ::
  "'a::zero sem \<Rightarrow> fn \<Rightarrow> 'a store \<Rightarrow> (string \<Rightarrow> 'a tensor option)
     \<Rightarrow> error + ('a tensor list \<times> 'a store)"
where
  "call S f st args =
     (if \<exists>p \<in> set (f_inputs f). args p = None then Inl TypeError
      else
        let inp = (\<lambda>p. if p \<in> set (f_inputs f) then args p else None) in
        (case (those (map (eval S st inp) (f_outputs f)),
               those (map (\<lambda>(v, e). map_option (Pair v) (eval S st inp e)) (f_updates f))) of
           (Some outs, Some ws) \<Rightarrow> Inr (outs, write_all st ws)
         | _ \<Rightarrow> Inl RuntimeError))"

section \<open>Layers and optimizers: the external collaborators\<close>

text \<open>
  \<^verbatim>\<open>layers.py\<close>, \<^verbatim>\<open>optimizers.py\<close> and \<^verbatim>\<open>utils.py\<close> are separate modules of the repository.
  A layer object is its class, its name and the arguments \<^verbatim>\<open>add_param\<close> received.
\<close>

datatype layer_class = FCLayer | LSTMLayer | GRULayer

record layer =
  l_class :: layer_class
  l_name :: string
  l_n_in :: pyval
  l_n_out :: pyval
  l_act :: "string option"

text \<open>
  The methods of the layers and the optimizer functions are parameters of the model:
  \<^item> \<open>add_param\<close> is handed the parameter dictionary and returns it with its entries added;
  \<^item> \<open>add_v_prev_state\<close> does the same for the dictionary of previous-state variables
    (each entry the initial value of a fresh shared variable);
  \<^item> \<open>setup_graph\<close> is handed the input from below, the time port or \<open>None\<close>, the tap, and
    the keys of the two dictionaries of shared variables, and returns the output with an
    optional state-feedback update;
  \<^item> \<open>force\<close> (\<^verbatim>\<open>vanilla_force\<close>, ...) is handed the learning rate and the gradients and
    returns the state variables it allocates, their initialisations, their updates and
    one force per gradient;
  \<^item> \<open>update\<close> (\<^verbatim>\<open>sgd_update\<close>, ...) is handed the parameter variables and the forces and
    returns the state variables it allocates, their initialisations and the updates.
\<close>

record 'a ext =
  add_param :: "layer \<Rightarrow> options \<Rightarrow> 'a tensor odict \<Rightarrow> 'a tensor odict"
  add_v_prev_state :: "layer \<Rightarrow> options \<Rightarrow> 'a tensor odict \<Rightarrow> 'a tensor odict"
  setup_graph :: "layer \<Rightarrow> options \<Rightarrow> sym \<Rightarrow> sym option \<Rightarrow> sym \<Rightarrow> string list \<Rightarrow> string list
                    \<Rightarrow> sym \<times> update option"
  force :: "string \<Rightarrow> options \<Rightarrow> 'a store \<Rightarrow> sym \<Rightarrow> sym list
              \<Rightarrow> (vref \<times> 'a tensor) list \<times> update list \<times> update list \<times> sym list"
  update :: "string \<Rightarrow> options \<Rightarrow> 'a store \<Rightarrow> vref list \<Rightarrow> sym list
               \<Rightarrow> (vref \<times> 'a tensor) list \<times> update list \<times> update list"

text \<open>\<^verbatim>\<open>eval(name + 'Layer')\<close>, \<^verbatim>\<open>eval(name + '_force')\<close> and \<^verbatim>\<open>eval(name + '_update')\<close> over
  the names the module imports.\<close>

definition layer_class_of :: "string \<Rightarrow> error + layer_class" where
  "layer_class_of u =
     (if u = ''FC'' then Inr FCLayer
      else if u = ''LSTM'' then Inr LSTMLayer
      else if u = ''GRU'' then Inr GRULayer
      else Inl (NameError (u @ ''Layer'')))"

definition force_names :: "string list" where
  "force_names = [''vanilla'', ''adadelta'', ''rmsprop'', ''adam'']"

definition update_names :: "string list" where
  "update_names = [''sgd'', ''momentum'', ''nesterov'']"

text \<open>\<^verbatim>\<open>str(i)\<close> of a loop index.\<close>

definition digit_char :: "nat \<Rightarrow> char" where
  "digit_char d = ''0123456789'' ! d"

fun str_nat :: "nat \<Rightarrow> string" where
  "str_nat n = (if n < 10 then [digit_char n] else str_nat (n div 10) @ [digit_char (n mod 10)])"

declare str_nat.simps [simp del]

section \<open>The object\<close>

text \<open>
  The fields of a \<^verbatim>\<open>Net\<close>.  The dictionaries of shared variables are kept as their keys in
  order (the variable under key \<open>k\<close> of \<^verbatim>\<open>_v_params\<close> is \<open>VParam k\<close>), the two lists of
  accumulators as the variables they hold.  A field that \<^verbatim>\<open>__init__\<close> does not set in the
  mode at hand is empty; every method that reads one asserts the mode first.
\<close>

record 'a net = config +
  params :: "'a tensor odict"
  id_embedder :: "layer option"
  layers :: "layer list"
  v_params :: "string list"
  v_params_wo_init :: "string list"
  v_prev_states :: "string list"
  v_grads :: "vref list"
  v_params_for_init :: "string list"
  v_grads_for_init :: "vref list"
  port_o_output :: "sym option"
  port_o_loss :: "sym option"
  prev_state_updates :: "update list"
  grad_updates :: "update list"
  optim_state_inits :: "update list"
  param_updates :: "update list"
  grad_updates_for_init :: "update list"
  param_updates_for_init :: "update list"

text \<open>The input ports, by the names \<^verbatim>\<open>net.py\<close> gives them.\<close>

abbreviation "port_i_input \<equiv> ''port_i_input''"
abbreviation "port_i_target \<equiv> ''port_i_target''"
abbreviation "port_i_time \<equiv> ''port_i_time''"
abbreviation "port_i_id_idx \<equiv> ''port_i_id_idx''"
abbreviation "port_i_last_tap \<equiv> ''port_i_last_tap''"
abbreviation "port_i_loss_tap \<equiv> ''port_i_loss_tap''"
abbreviation "port_i_lr \<equiv> ''port_i_lr''"

text \<open>\<^verbatim>\<open>k[-4:]\<close> and \<^verbatim>\<open>k[:-4] + 'init'\<close>\<close>

definition last4 :: "string \<Rightarrow> string" where
  "last4 k = drop (length k - 4) k"

definition to_init :: "string \<Rightarrow> string" where
  "to_init k = take (length k - 4) k @ ''init''"

subsection \<open>\<^verbatim>\<open>_init_params\<close>\<close>

definition new_layer ::
  "layer_class \<Rightarrow> string \<Rightarrow> pyval \<Rightarrow> pyval \<Rightarrow> string option \<Rightarrow> layer"
where
  "new_layer c nm n_in n_out act =
     \<lparr>l_class = c, l_name = nm, l_n_in = n_in, l_n_out = n_out, l_act = act\<rparr>"

text \<open>The loop \<^verbatim>\<open>for i in range(D)\<close>, from index \<open>i\<close> with \<open>m\<close> iterations left.\<close>

fun stack_layers ::
  "'a ext \<Rightarrow> options \<Rightarrow> string \<Rightarrow> int \<Rightarrow> nat \<Rightarrow> nat \<Rightarrow> layer list \<Rightarrow> 'a tensor odict
     \<Rightarrow> error + (layer list \<times> 'a tensor odict)"
where
  "stack_layers X opts px add i 0 ls ps = Inr (ls, ps)"
| "stack_layers X opts px add i (Suc m) ls ps =
     (case opt_str opts ''unit_type'' of
        Inl e \<Rightarrow> Inl e
      | Inr u \<Rightarrow>
          (case layer_class_of u of
             Inl e \<Rightarrow> Inl e
           | Inr c \<Rightarrow>
               (case opt_int opts (if 0 < i then ''net_width'' else ''input_dim'') of
                  Inl e \<Rightarrow> Inl e
                | Inr w \<Rightarrow>
                    (case od_get opts ''net_width'' of
                       Inl e \<Rightarrow> Inl e
                     | Inr n_out \<Rightarrow>
                         let l = new_layer c (px @ u @ ''_'' @ str_nat i) (PInt (add + w)) n_out None
                         in stack_layers X opts px add (Suc i) m (ls @ [l])
                              (add_param X l opts ps)))))"

text \<open>Overlaying the loaded archive: \<^verbatim>\<open>self._params[k] = params[k[len_pfx:]]\<close> for each key.\<close>

fun overlay :: "nat \<Rightarrow> 'a tensor odict \<Rightarrow> string list \<Rightarrow> 'a tensor odict \<Rightarrow> error + 'a tensor odict" where
  "overlay len_pfx loaded [] ps = Inr ps"
| "overlay len_pfx loaded (k # ks) ps =
     (case od_get loaded (drop len_pfx k) of
        Inl e \<Rightarrow> Inl e
      | Inr v \<Rightarrow> overlay len_pfx loaded ks (od_set ps k v))"

definition init_params ::
  "'a ext \<Rightarrow> 'a world \<Rightarrow> config \<Rightarrow> string option
     \<Rightarrow> (error + (layer option \<times> layer list \<times> 'a tensor odict)) \<times> 'a world"
where
  "init_params X w c load_from =
     (let opts = cfg_options c; px = pfx c in
      case od_get opts ''learn_id_embedding'' of
        Inl e \<Rightarrow> (Inl e, w)
      | Inr flag \<Rightarrow>
          (case (if \<not> truthy flag then Inr (None, 0, [])
                 else (case od_get opts ''id_count'' of
                         Inl e \<Rightarrow> Inl e
                       | Inr cnt \<Rightarrow>
                           (case opt_int opts ''id_embedding_dim'' of
                              Inl e \<Rightarrow> Inl e
                            | Inr edim \<Rightarrow>
                                let l = new_layer FCLayer (px @ ''FC_id_embedder'') cnt (PInt edim)
                                          (Some ''lambda x: x'')
                                in Inr (Some l, edim, add_param X l opts [])))) of
             Inl e \<Rightarrow> (Inl e, w)
           | Inr (emb, add, ps0) \<Rightarrow>
               (case opt_int opts ''net_depth'' of
                  Inl e \<Rightarrow> (Inl e, w)
                | Inr D \<Rightarrow>
                    if \<not> 0 < D then (Inl AssertionError, w)
                    else
                      (case stack_layers X opts px add 0 (nat D) [] ps0 of
                         Inl e \<Rightarrow> (Inl e, w)
                       | Inr (ls, ps1) \<Rightarrow>
                           (case opt_int opts ''net_width'' of
                              Inl e \<Rightarrow> (Inl e, w)
                            | Inr width \<Rightarrow>
                                (case od_get opts ''target_dim'' of
                                   Inl e \<Rightarrow> (Inl e, w)
                                 | Inr tdim \<Rightarrow>
                                     let l = new_layer FCLayer (px @ ''FC_output'')
                                               (PInt (add + width)) tdim (Some ''lambda x: x'');
                                         ps2 = add_param X l opts ps1
                                     in (case load_from of
                                           None \<Rightarrow> (Inr (emb, ls @ [l], ps2), w)
                                         | Some lf \<Rightarrow>
                                             (case np_load w (lf @ ''/params.npz'') of
                                                (Inl e, w') \<Rightarrow> (Inl e, w')
                                              | (Inr loaded, w') \<Rightarrow>
                                                  (case overlay (length px) loaded (map fst ps2) ps2 of
                                                     Inl e \<Rightarrow> (Inl e, w')
                                                   | Inr ps3 \<Rightarrow> (Inr (emb, ls @ [l], ps3), w'))))))))))"

subsection \<open>\<^verbatim>\<open>_init_shared_variables\<close>\<close>

text \<open>\<^verbatim>\<open>th.shared(v)\<close> for every entry of a dictionary, under the given constructor.\<close>

definition share_all :: "(string \<Rightarrow> vref) \<Rightarrow> 'a tensor odict \<Rightarrow> 'a store \<Rightarrow> 'a store" where
  "share_all mk d st = write_all st (map (\<lambda>(k, v). (mk k, v)) d)"

text \<open>\<^verbatim>\<open>th.shared(v.get_value() * 0.)\<close> for every variable \<open>src k\<close>, stored under \<open>mk k\<close>.\<close>

fun zero_grads ::
  "(string \<Rightarrow> vref) \<Rightarrow> (string \<Rightarrow> vref) \<Rightarrow> string list \<Rightarrow> 'a::mult_zero store \<Rightarrow> error + 'a store"
where
  "zero_grads mk src [] st = Inr st"
| "zero_grads mk src (k # ks) st =
     (case st (src k) of
        None \<Rightarrow> Inl (KeyError k)
      | Some v \<Rightarrow> zero_grads mk src ks (st(mk k \<mapsto> times_zero v)))"

record 'a shared_vars =
  sv_v_params :: "string list"
  sv_v_params_wo_init :: "string list"
  sv_v_prev_states :: "string list"
  sv_v_grads :: "vref list"
  sv_v_params_for_init :: "string list"
  sv_v_grads_for_init :: "vref list"
  sv_store :: "'a store"

definition init_shared_variables ::
  "'a::mult_zero ext \<Rightarrow> config \<Rightarrow> layer list \<Rightarrow> 'a tensor odict \<Rightarrow> error + 'a shared_vars"
where
  "init_shared_variables X c ls ps =
     (let opts = cfg_options c;
          keys = map fst ps;
          wo_init = filter (\<lambda>k. last4 k \<noteq> ''init'') keys;
          st1 = share_all VParam ps (\<lambda>_. None);
          prevs = foldl (\<lambda>d l. add_v_prev_state X l opts d) [] ls;
          st2 = share_all VPrev prevs st1;
          base = \<lparr>sv_v_params = keys, sv_v_params_wo_init = wo_init,
                  sv_v_prev_states = map fst prevs, sv_v_grads = [],
                  sv_v_params_for_init = [], sv_v_grads_for_init = [], sv_store = st2\<rparr>
      in if \<not> is_training c then Inr base
         else
           (case zero_grads VGrad VParam wo_init st2 of
              Inl e \<Rightarrow> Inl e
            | Inr st3 \<Rightarrow>
                (case od_get opts ''learn_init_states'' of
                   Inl e \<Rightarrow> Inl e
                 | Inr flag \<Rightarrow>
                     if \<not> truthy flag
                     then Inr (base\<lparr>sv_v_grads := map VGrad wo_init, sv_store := st3\<rparr>)
                     else
                       (case zero_grads VGradInit VPrev (map fst prevs) st3 of
                          Inl e \<Rightarrow> Inl e
                        | Inr st4 \<Rightarrow>
                            Inr (base\<lparr>sv_v_grads := map VGrad wo_init,
                                      sv_v_params_for_init := filter (\<lambda>k. last4 k = ''init'') keys,
                                      sv_v_grads_for_init := map VGradInit (map fst prevs),
                                      sv_store := st4\<rparr>)))))"

subsection \<open>\<^verbatim>\<open>_setup_forward_graph\<close>\<close>

text \<open>The vertical stack: each layer consumes \<open>cat\<close> of the output below it.\<close>

fun stack_graph ::
  "'a ext \<Rightarrow> options \<Rightarrow> (sym \<Rightarrow> sym) \<Rightarrow> sym option \<Rightarrow> sym \<Rightarrow> string list \<Rightarrow> string list
     \<Rightarrow> layer list \<Rightarrow> sym \<Rightarrow> update list \<Rightarrow> sym \<times> update list"
where
  "stack_graph X opts cat tm tap vp vs [] below ups = (below, ups)"
| "stack_graph X opts cat tm tap vp vs (l # ls) below ups =
     (case setup_graph X l opts (cat below) tm tap vp vs of
        (out, u) \<Rightarrow>
          stack_graph X opts cat tm tap vp vs ls out
            (case u of None \<Rightarrow> ups | Some x \<Rightarrow> ups @ [x]))"

definition setup_forward_graph ::
  "'a ext \<Rightarrow> options \<Rightarrow> layer option \<Rightarrow> layer list \<Rightarrow> sym \<Rightarrow> sym \<Rightarrow> sym \<Rightarrow> sym
     \<Rightarrow> string list \<Rightarrow> string list \<Rightarrow> error + (sym \<times> update list)"
where
  "setup_forward_graph X opts emb ls s_input s_time s_id_idx s_last_tap vp vs =
     (case od_get opts ''learn_id_embedding'' of
        Inl e \<Rightarrow> Inl e
      | Inr flag \<Rightarrow>
          (case (if \<not> truthy flag then Inr (\<lambda>s_below. s_below)
                 else (case emb of
                         None \<Rightarrow> Inl (AttributeError ''_id_embedder'')
                       | Some l \<Rightarrow>
                           (case od_get opts ''id_count'' of
                              Inl e \<Rightarrow> Inl e
                            | Inr cnt \<Rightarrow>
                                let s_id_emb = fst (setup_graph X l opts (SToOneHot s_id_idx cnt)
                                                      None s_last_tap vp vs)
                                in Inr (\<lambda>s_below. SConcat2 s_below (STileTime s_id_emb s_input))))) of
             Inl e \<Rightarrow> Inl e
           | Inr cat \<Rightarrow>
               (case opt_int opts ''net_depth'' of
                  Inl e \<Rightarrow> Inl e
                | Inr D \<Rightarrow>
                    (case od_get opts ''learn_clock_params'' of
                       Inl e \<Rightarrow> Inl e
                     | Inr clock \<Rightarrow>
                         if int (length ls) < D + 1 then Inl IndexError
                         else Inr (stack_graph X opts cat
                                     (if truthy clock then Some s_time else None)
                                     s_last_tap vp vs (take (nat (D + 1)) ls) s_input [])))))"

subsection \<open>Loss, gradients and parameter updates\<close>

definition setup_loss_graph :: "sym \<Rightarrow> sym \<Rightarrow> sym \<Rightarrow> sym" where
  "setup_loss_graph s_output s_target s_loss_tap =
     SMSE (SSliceFrom s_output s_loss_tap) (SSliceFrom s_target s_loss_tap)"

text \<open>
  \<^verbatim>\<open>tt.grad(s_loss, wrt = v_wrt)\<close> gives one gradient per variable and refuses a variable
  the loss is not connected to.  The new gradients, clipped if the option is present, are
  paired with the accumulators.
\<close>

definition setup_grad_updates_graph ::
  "options \<Rightarrow> sym \<Rightarrow> vref list \<Rightarrow> vref list \<Rightarrow> error + update list"
where
  "setup_grad_updates_graph opts s_loss v_wrt v_grads' =
     (if length v_wrt \<noteq> length v_grads' then Inl AssertionError
      else if \<exists>v \<in> set v_wrt. v \<notin> set (svars s_loss) then Inl DisconnectedInputError
      else
        let s_new_grads = map (SGrad s_loss) v_wrt in
        (case map_of opts ''grad_norm_clip'' of
           None \<Rightarrow> Inr (zip v_grads' s_new_grads)
         | Some c \<Rightarrow> Inr (zip v_grads' (map (\<lambda>s_grad. SClipNorm s_grad c) s_new_grads))))"

definition setup_param_updates_graph ::
  "'a ext \<Rightarrow> options \<Rightarrow> 'a store \<Rightarrow> sym \<Rightarrow> vref list \<Rightarrow> sym list
     \<Rightarrow> error + ('a store \<times> update list \<times> update list)"
where
  "setup_param_updates_graph X opts st s_lr v_params' v_grads' =
     (if length v_params' \<noteq> length v_grads' then Inl AssertionError
      else
        (case opt_str opts ''force_type'' of
           Inl e \<Rightarrow> Inl e
         | Inr ft \<Rightarrow>
             if ft \<notin> set force_names then Inl (NameError (ft @ ''_force''))
             else
               (case force X ft opts st s_lr v_grads' of
                  (allocs_f, optim_f_inits, optim_f_updates, s_forces) \<Rightarrow>
                    if length v_params' \<noteq> length s_forces then Inl AssertionError
                    else
                      (case opt_str opts ''update_type'' of
                         Inl e \<Rightarrow> Inl e
                       | Inr ut \<Rightarrow>
                           if ut \<notin> set update_names then Inl (NameError (ut @ ''_update''))
                           else
                             (case update X ut opts (write_all st allocs_f) v_params' s_forces of
                                (allocs_u, optim_u_inits, optim_u_param_updates) \<Rightarrow>
                                  Inr (write_all (write_all st allocs_f) allocs_u,
                                       optim_f_inits @ optim_u_inits,
                                       optim_f_updates @ optim_u_param_updates))))))"

subsection \<open>\<^verbatim>\<open>_setup_inference_graph\<close>, \<^verbatim>\<open>_setup_training_graph\<close> and \<^verbatim>\<open>__init__\<close>\<close>

definition base_net ::
  "config \<Rightarrow> layer option \<Rightarrow> layer list \<Rightarrow> 'a tensor odict \<Rightarrow> 'a shared_vars \<Rightarrow> 'a net"
where
  "base_net c emb ls ps sv =
     \<lparr>is_training = is_training c, cfg_options = cfg_options c, save_to = save_to c, pfx = pfx c,
      params = ps, id_embedder = emb, layers = ls,
      v_params = sv_v_params sv, v_params_wo_init = sv_v_params_wo_init sv,
      v_prev_states = sv_v_prev_states sv, v_grads = sv_v_grads sv,
      v_params_for_init = sv_v_params_for_init sv, v_grads_for_init = sv_v_grads_for_init sv,
      port_o_output = None, port_o_loss = None, prev_state_updates = [], grad_updates = [],
      optim_state_inits = [], param_updates = [], grad_updates_for_init = [],
      param_updates_for_init = []\<rparr>"

text \<open>The tap of inference is \<^verbatim>\<open>_port_i_input_tbi.shape[0] - 1\<close>, the last time step.\<close>

definition setup_inference_graph :: "'a ext \<Rightarrow> 'a net \<Rightarrow> error + 'a net" where
  "setup_inference_graph X n =
     (case setup_forward_graph X (cfg_options n) (id_embedder n) (layers n)
             (SPort port_i_input) (SPort port_i_time) (SPort port_i_id_idx)
             (SLastIndex (SPort port_i_input)) (v_params n) (v_prev_states n) of
        Inl e \<Rightarrow> Inl e
      | Inr (out, ups) \<Rightarrow> Inr (n\<lparr>port_o_output := Some out, prev_state_updates := ups\<rparr>))"

text \<open>
  The second pair of graphs, built under \<^verbatim>\<open>learn_init_states\<close>: gradients with respect to
  the previous-state variables go to \<^verbatim>\<open>_v_grads_for_init\<close>, and the update graph of the
  \<open>init\<close> parameters is fed the mean over the first axis of those accumulators.
\<close>

definition setup_init_graphs ::
  "'a ext \<Rightarrow> 'a net \<Rightarrow> 'a store \<Rightarrow> sym \<Rightarrow> error + ('a net \<times> 'a store)"
where
  "setup_init_graphs X n st s_loss =
     (case setup_grad_updates_graph (cfg_options n) s_loss (map VPrev (v_prev_states n))
             (v_grads_for_init n) of
        Inl e \<Rightarrow> Inl e
      | Inr gu \<Rightarrow>
          let s_grads_for_init_flattened = map (\<lambda>v. SMean0 (SShared v)) (v_grads_for_init n) in
          (case setup_param_updates_graph X (cfg_options n) st (SPort port_i_lr)
                  (map VParam (v_params_for_init n)) s_grads_for_init_flattened of
             Inl e \<Rightarrow> Inl e
           | Inr (st', optim_state_inits_for_init, pu) \<Rightarrow>
               Inr (n\<lparr>grad_updates_for_init := gu,
                      param_updates_for_init := pu,
                      optim_state_inits := optim_state_inits n @ optim_state_inits_for_init\<rparr>,
                    st')))"

definition setup_training_graph ::
  "'a ext \<Rightarrow> 'a net \<Rightarrow> 'a store \<Rightarrow> error + ('a net \<times> 'a store)"
where
  "setup_training_graph X n st =
     (case setup_forward_graph X (cfg_options n) (id_embedder n) (layers n)
             (SPort port_i_input) (SPort port_i_time) (SPort port_i_id_idx)
             (SPort port_i_last_tap) (v_params n) (v_prev_states n) of
        Inl e \<Rightarrow> Inl e
      | Inr (s_output, ups) \<Rightarrow>
          let s_loss = setup_loss_graph s_output (SPort port_i_target) (SPort port_i_loss_tap) in
          (case setup_grad_updates_graph (cfg_options n) s_loss
                  (map VParam (v_params_wo_init n)) (v_grads n) of
             Inl e \<Rightarrow> Inl e
           | Inr gu \<Rightarrow>
               (case setup_param_updates_graph X (cfg_options n) st (SPort port_i_lr)
                       (map VParam (v_params_wo_init n)) (map SShared (v_grads n)) of
                  Inl e \<Rightarrow> Inl e
                | Inr (st', inits, pu) \<Rightarrow>
                    let n' = n\<lparr>prev_state_updates := ups, port_o_loss := Some s_loss,
                               grad_updates := gu, optim_state_inits := inits,
                               param_updates := pu\<rparr>
                    in (case od_get (cfg_options n) ''learn_init_states'' of
                          Inl e \<Rightarrow> Inl e
                        | Inr flag \<Rightarrow>
                            if truthy flag then setup_init_graphs X n' st' s_loss
                            else Inr (n', st')))))"

text \<open>\<^verbatim>\<open>Net.__init__\<close>: configuration, parameters, shared variables, then the graph of the mode.\<close>

definition Net_init ::
  "'a::mult_zero ext \<Rightarrow> 'a world \<Rightarrow> options option \<Rightarrow> string option \<Rightarrow> string option
     \<Rightarrow> (error + ('a net \<times> 'a store)) \<times> 'a world"
where
  "Net_init X w opts save load_from =
     (case configure w opts save load_from of
        (Inl e, w1) \<Rightarrow> (Inl e, w1)
      | (Inr c, w1) \<Rightarrow>
          (case init_params X w1 c load_from of
             (Inl e, w2) \<Rightarrow> (Inl e, w2)
           | (Inr (emb, ls, ps), w2) \<Rightarrow>
               (case init_shared_variables X c ls ps of
                  Inl e \<Rightarrow> (Inl e, w2)
                | Inr sv \<Rightarrow>
                    if is_training c
                    then (setup_training_graph X (base_net c emb ls ps sv) (sv_store sv), w2)
                    else (case setup_inference_graph X (base_net c emb ls ps sv) of
                            Inl e \<Rightarrow> (Inl e, w2)
                          | Inr n \<Rightarrow> (Inr (n, sv_store sv), w2)))))"

section \<open>The compiled entry points\<close>

text \<open>Reading an attribute that \<^verbatim>\<open>__init__\<close> did not set is an \<^verbatim>\<open>AttributeError\<close>.\<close>

definition attr :: "string \<Rightarrow> 'b option \<Rightarrow> error + 'b" where
  "attr nm x = (case x of None \<Rightarrow> Inl (AttributeError nm) | Some y \<Rightarrow> Inr y)"

text \<open>
  The repetition count of \<^verbatim>\<open>tt.tile\<close> is handed the option as it is: an integer is
  accepted, every other value (a bool included) is refused when the graph is built.
\<close>

definition tile_reps :: "pyval \<Rightarrow> error + int" where
  "tile_reps v = (case v of PInt b \<Rightarrow> Inr b | _ \<Rightarrow> Inl TypeError)"

text \<open>
  \<^verbatim>\<open>compile_f_initialize_states\<close>.  Each element of the second comprehension looks the
  \<open>init\<close> parameter up (a \<^verbatim>\<open>KeyError\<close> if it is missing) and reads \<^verbatim>\<open>batch_size\<close>.
\<close>

fun tile_updates :: "options \<Rightarrow> string list \<Rightarrow> string list \<Rightarrow> error + update list" where
  "tile_updates opts vp [] = Inr []"
| "tile_updates opts vp (k # ks) =
     (if to_init k \<notin> set vp then Inl (KeyError (to_init k))
      else (case od_get opts ''batch_size'' of
              Inl e \<Rightarrow> Inl e
            | Inr v \<Rightarrow>
                (case tile_reps v of
                   Inl e \<Rightarrow> Inl e
                 | Inr b \<Rightarrow>
                     (case tile_updates opts vp ks of
                        Inl e \<Rightarrow> Inl e
                      | Inr us \<Rightarrow>
                          Inr ((VPrev k, STileRows (SShared (VParam (to_init k))) b) # us)))))"

definition zero_updates :: "string list \<Rightarrow> update list" where
  "zero_updates vs = map (\<lambda>k. (VPrev k, SZerosLike (SShared (VPrev k)))) vs"

definition compile_f_initialize_states :: "'a net \<Rightarrow> error + fn" where
  "compile_f_initialize_states n =
     (case od_get (cfg_options n) ''learn_init_states'' of
        Inl e \<Rightarrow> Inl e
      | Inr flag \<Rightarrow>
          if \<not> truthy flag
          then th_function [] [] (zero_updates (v_prev_states n)) Raise
          else
            (case tile_updates (cfg_options n) (v_params n) (v_prev_states n) of
               Inl e \<Rightarrow> Inl e
             | Inr us \<Rightarrow> th_function [] [] us Raise))"

text \<open>The policy \<^verbatim>\<open>'raise' if learn_clock_params or learn_id_embedding else 'ignore'\<close>.\<close>

definition unused_input_policy :: "options \<Rightarrow> error + unused_policy" where
  "unused_input_policy opts =
     (case od_get opts ''learn_clock_params'' of
        Inl e \<Rightarrow> Inl e
      | Inr clock \<Rightarrow>
          if truthy clock then Inr Raise
          else (case od_get opts ''learn_id_embedding'' of
                  Inl e \<Rightarrow> Inl e
                | Inr emb \<Rightarrow> Inr (if truthy emb then Raise else Ignore)))"

definition training_inputs :: "string list" where
  "training_inputs = [port_i_input, port_i_target, port_i_time, port_i_id_idx,
                      port_i_last_tap, port_i_loss_tap]"

definition inference_inputs :: "string list" where
  "inference_inputs = [port_i_input, port_i_time, port_i_id_idx]"

text \<open>The common shape of the propagating functions: one output, updates, the policy.\<close>

definition propagate_fn ::
  "options \<Rightarrow> string list \<Rightarrow> string \<Rightarrow> sym option \<Rightarrow> update list \<Rightarrow> error + fn"
where
  "propagate_fn opts ins nm out ups =
     (case attr nm out of
        Inl e \<Rightarrow> Inl e
      | Inr s_out \<Rightarrow>
          (case unused_input_policy opts of
             Inl e \<Rightarrow> Inl e
           | Inr pol \<Rightarrow> th_function ins [s_out] ups pol))"

definition compile_f_fwd_propagate :: "'a net \<Rightarrow> error + fn" where
  "compile_f_fwd_propagate n =
     (if is_training n
      then propagate_fn (cfg_options n) training_inputs ''_port_o_loss'' (port_o_loss n)
             (prev_state_updates n)
      else propagate_fn (cfg_options n) inference_inputs ''_port_o_output'' (port_o_output n)
             (prev_state_updates n))"

definition compile_f_fwd_bwd_propagate :: "'a net \<Rightarrow> error + fn" where
  "compile_f_fwd_bwd_propagate n =
     (if \<not> is_training n then Inl AssertionError
      else propagate_fn (cfg_options n) training_inputs ''_port_o_loss'' (port_o_loss n)
             (grad_updates n @ prev_state_updates n))"

definition compile_f_update_v_params :: "'a net \<Rightarrow> error + fn" where
  "compile_f_update_v_params n =
     (if \<not> is_training n then Inl AssertionError
      else th_function [port_i_lr] [] (param_updates n) Raise)"

definition learn_init_states_on :: "'a net \<Rightarrow> error + bool" where
  "learn_init_states_on n =
     (case od_get (cfg_options n) ''learn_init_states'' of
        Inl e \<Rightarrow> Inl e
      | Inr flag \<Rightarrow> Inr (truthy flag))"

definition compile_f_fwd_bwd_for_init :: "'a net \<Rightarrow> error + fn" where
  "compile_f_fwd_bwd_for_init n =
     (if \<not> is_training n then Inl AssertionError
      else (case learn_init_states_on n of
              Inl e \<Rightarrow> Inl e
            | Inr on \<Rightarrow>
                if \<not> on then Inl AssertionError
                else propagate_fn (cfg_options n) training_inputs ''_port_o_loss'' (port_o_loss n)
                       (grad_updates n @ prev_state_updates n @ grad_updates_for_init n)))"

definition compile_f_update_init_states :: "'a net \<Rightarrow> error + fn" where
  "compile_f_update_init_states n =
     (if \<not> is_training n then Inl AssertionError
      else (case learn_init_states_on n of
              Inl e \<Rightarrow> Inl e
            | Inr on \<Rightarrow>
                if \<not> on then Inl AssertionError
                else th_function [port_i_lr] [] (param_updates_for_init n) Raise))"

definition compile_f_initialize_optimizer :: "'a net \<Rightarrow> error + fn" where
  "compile_f_initialize_optimizer n =
     (if \<not> is_training n then Inl AssertionError
      else th_function [] [] (optim_state_inits n) Raise)"

section \<open>Workspace snapshots and export\<close>

definition default_name :: "string option \<Rightarrow> string" where
  "default_name name = (case name of None \<Rightarrow> ''params'' | Some s \<Rightarrow> s)"

definition workspace_path :: "string \<Rightarrow> string option \<Rightarrow> string" where
  "workspace_path dir name = dir @ ''/'' @ default_name name @ ''.npz''"

text \<open>\<^verbatim>\<open>self._params[k] = v_param.get_value()\<close> for every parameter variable.\<close>

fun pull_params :: "'a store \<Rightarrow> string list \<Rightarrow> 'a tensor odict \<Rightarrow> error + 'a tensor odict" where
  "pull_params st [] ps = Inr ps"
| "pull_params st (k # ks) ps =
     (case st (VParam k) of
        None \<Rightarrow> Inl RuntimeError
      | Some v \<Rightarrow> pull_params st ks (od_set ps k v))"

definition save_v_params_to_workspace ::
  "'a net \<Rightarrow> 'a store \<Rightarrow> 'a world \<Rightarrow> string option \<Rightarrow> (error + 'a net) \<times> 'a world"
where
  "save_v_params_to_workspace n st w name =
     (if \<not> is_training n then (Inl AssertionError, w)
      else (case pull_params st (v_params n) (params n) of
              Inl e \<Rightarrow> (Inl e, w)
            | Inr ps \<Rightarrow>
                (case save_to n of
                   None \<Rightarrow> (Inl TypeError, w)
                 | Some dir \<Rightarrow>
                     (case np_savez w (workspace_path dir name) ps of
                        (Inl e, w') \<Rightarrow> (Inl e, w')
                      | (Inr _, w') \<Rightarrow> (Inr (n\<lparr>params := ps\<rparr>), w')))))"

text \<open>
  \<^verbatim>\<open>v_param.set_value(params[k])\<close> for every parameter variable, in order; a key missing
  from the archive stops the loop with the earlier variables already written.
\<close>

fun push_params :: "'a tensor odict \<Rightarrow> string list \<Rightarrow> 'a store \<Rightarrow> (error + unit) \<times> 'a store" where
  "push_params loaded [] st = (Inr (), st)"
| "push_params loaded (k # ks) st =
     (case od_get loaded k of
        Inl e \<Rightarrow> (Inl e, st)
      | Inr v \<Rightarrow> push_params loaded ks (st(VParam k \<mapsto> v)))"

definition load_v_params_from_workspace ::
  "'a net \<Rightarrow> 'a store \<Rightarrow> 'a world \<Rightarrow> string option \<Rightarrow> (error + unit) \<times> 'a store \<times> 'a world"
where
  "load_v_params_from_workspace n st w name =
     (if \<not> is_training n then (Inl AssertionError, st, w)
      else (case save_to n of
              None \<Rightarrow> (Inl TypeError, st, w)
            | Some dir \<Rightarrow>
                (case np_load w (workspace_path dir name) of
                   (Inl e, w') \<Rightarrow> (Inl e, st, w')
                 | (Inr loaded, w') \<Rightarrow>
                     (case push_params loaded (v_params n) st of
                        (r, st') \<Rightarrow> (r, st', w')))))"

definition remove_params_file_from_workspace ::
  "'a net \<Rightarrow> 'a world \<Rightarrow> string option \<Rightarrow> (error + unit) \<times> 'a world"
where
  "remove_params_file_from_workspace n w name =
     (if \<not> is_training n then (Inl AssertionError, w)
      else (case save_to n of
              None \<Rightarrow> (Inl TypeError, w)
            | Some dir \<Rightarrow> os_remove w (workspace_path dir name)))"

definition dimensions :: "'a net \<Rightarrow> error + (pyval \<times> pyval)" where
  "dimensions n =
     (case od_get (cfg_options n) ''input_dim'' of
        Inl e \<Rightarrow> Inl e
      | Inr i \<Rightarrow>
          (case od_get (cfg_options n) ''target_dim'' of
             Inl e \<Rightarrow> Inl e
           | Inr t \<Rightarrow> Inr (i, t)))"

definition save_param :: "'a net \<Rightarrow> 'a world \<Rightarrow> string \<Rightarrow> string \<Rightarrow> (error + unit) \<times> 'a world" where
  "save_param n w param_name filename =
     (if \<not> (\<not> is_training n \<and> od_in (pfx n @ param_name) (params n)) then (Inl AssertionError, w)
      else (case od_get (params n) (pfx n @ param_name) of
              Inl e \<Rightarrow> (Inl e, w)
            | Inr v \<Rightarrow> np_savez w filename [(param_name, v)]))"

section \<open>The claim about the loss, in the words of the specification\<close>

text \<open>
  The restriction of a sequence to the time steps whose index is at or after \<open>k\<close>, the
  index compared as a number.
\<close>

definition steps_at_or_after :: "int \<Rightarrow> 'b list \<Rightarrow> 'b list" where
  "steps_at_or_after k xs = map snd (filter (\<lambda>(i, x). k \<le> int i) (enumerate 0 xs))"

text \<open>
  Modelled from the spec: \<^verbatim>\<open>MSE_loss\<close> of \<^verbatim>\<open>utils.py\<close>, a module that is not at hand.
  The specification calls it the mean-squared error: the mean of the squared differences
  of corresponding elements.  It is taken over the rationals; operands of different sizes
  and the empty mean have no value.
\<close>

fun elems :: "rat tensor \<Rightarrow> rat list" where
  "elems (Flt x) = [x]"
| "elems (Int32 i) = [of_int i]"
| "elems (Arr xs) = concat (map elems xs)"

definition mean_squared_error :: "rat tensor \<Rightarrow> rat tensor \<Rightarrow> rat tensor option" where
  "mean_squared_error a b =
     (if length (elems a) \<noteq> length (elems b) \<or> elems a = [] then None
      else Some (Flt (sum_list (map (\<lambda>(x, y). (x - y) * (x - y)) (zip (elems a) (elems b)))
                        / of_nat (length (elems a)))))"

section \<open>A small instance\<close>

text \<open>
  One recurrent layer of width two under the output layer, batch size two, learnable
  initial states, no identity embedding and no clock parameters.  The layers of the
  instance connect their output to the input below, the tap, every parameter that is not
  an initial state and every previous state; the optimizer scales the gradients by the
  learning rate and subtracts them.
\<close>

definition demo_opts :: options where
  "demo_opts = [(''learn_id_embedding'', PBool False), (''learn_clock_params'', PBool False),
     (''learn_init_states'', PBool True), (''net_depth'', PInt 1), (''unit_type'', PStr ''GRU''),
     (''net_width'', PInt 2), (''input_dim'', PInt 1), (''target_dim'', PInt 1),
     (''batch_size'', PInt 2), (''force_type'', PStr ''vanilla''), (''update_type'', PStr ''sgd'')]"

definition demo_ext :: "rat ext" where
  "demo_ext = \<lparr>
     add_param = (\<lambda>l opts ps.
        case l_class l of
          FCLayer \<Rightarrow> od_set ps (l_name l @ ''_W'') (Arr [Arr [Flt 1, Flt 2]])
        | _ \<Rightarrow> od_set (od_set ps (l_name l @ ''_W'') (Arr [Arr [Flt 3, Flt 4]]))
                 (l_name l @ ''_init'') (Arr [Flt 5, Flt 7])),
     add_v_prev_state = (\<lambda>l opts d.
        case l_class l of
          FCLayer \<Rightarrow> d
        | _ \<Rightarrow> od_set d (l_name l @ ''_prev'') (Arr [Arr [Flt 0, Flt 0], Arr [Flt 0, Flt 0]])),
     setup_graph = (\<lambda>l opts below tm tap vp vs.
        (SExt (l_name l)
           (below # tap # map (\<lambda>k. SShared (VParam k)) (filter (\<lambda>k. last4 k \<noteq> ''init'') vp)
              @ map (\<lambda>k. SShared (VPrev k)) vs),
         case l_class l of
           FCLayer \<Rightarrow> None
         | _ \<Rightarrow> Some (VPrev (l_name l @ ''_prev''), SExt (l_name l @ ''_state'') [below, tap]))),
     force = (\<lambda>ft opts st lr grads. ([], [], [], map (\<lambda>g. SExt ''scale'' [lr, g]) grads)),
     update = (\<lambda>ut opts st vps forces.
        ([], [], zip vps (map (\<lambda>(v, f). SExt ''minus'' [SShared v, f]) (zip vps forces))))\<rparr>"

text \<open>An empty workspace, and a directory that holds a finished run.\<close>

definition demo_world :: "rat world" where
  "demo_world = \<lparr>files = (\<lambda>_. None), writable = (\<lambda>_. True), log = [],
                  rand_strings = (\<lambda>_. ''abc''), rand_pos = 0\<rparr>"

definition demo_saved_world :: "rat world" where
  "demo_saved_world =
     \<lparr>files = [''run/options.pkl'' \<mapsto> OptionsPkl demo_opts,
               ''run/params.npz'' \<mapsto> ParamsNpz [(''GRU_0_W'', Arr [Arr [Flt 30, Flt 40]]),
                                                  (''GRU_0_init'', Arr [Flt 50, Flt 70]),
                                                  (''FC_output_W'', Arr [Arr [Flt 10, Flt 20]])]],
      writable = (\<lambda>_. True), log = [], rand_strings = (\<lambda>_. ''abc''), rand_pos = 0\<rparr>"

text \<open>
  The training network of the instance as \<^verbatim>\<open>__init__\<close> builds it in the empty workspace,
  its output and loss, its store, and the workspace afterwards.
\<close>

definition demo_output :: sym where
  "demo_output =
     SExt ''FC_output''
       [SExt ''GRU_0'' [SPort port_i_input, SPort port_i_last_tap, SShared (VParam ''GRU_0_W''),
                        SShared (VParam ''FC_output_W''), SShared (VPrev ''GRU_0_prev'')],
        SPort port_i_last_tap, SShared (VParam ''GRU_0_W''), SShared (VParam ''FC_output_W''),
        SShared (VPrev ''GRU_0_prev'')]"

definition demo_loss :: sym where
  "demo_loss = SMSE (SSliceFrom demo_output (SPort port_i_loss_tap))
                    (SSliceFrom (SPort port_i_target) (SPort port_i_loss_tap))"

definition demo_net :: "rat net" where
  "demo_net =
     \<lparr>is_training = True, cfg_options = demo_opts, save_to = Some ''ws'', pfx = [],
      params = [(''GRU_0_W'', Arr [Arr [Flt 3, Flt 4]]),
                (''GRU_0_init'', Arr [Flt 5, Flt 7]),
                (''FC_output_W'', Arr [Arr [Flt 1, Flt 2]])],
      id_embedder = None,
      layers = [\<lparr>l_class = GRULayer, l_name = ''GRU_0'', l_n_in = PInt 1,
                  l_n_out = PInt 2, l_act = None\<rparr>,
                \<lparr>l_class = FCLayer, l_name = ''FC_output'', l_n_in = PInt 2,
                  l_n_out = PInt 1, l_act = Some ''lambda x: x''\<rparr>],
      v_params = [''GRU_0_W'', ''GRU_0_init'', ''FC_output_W''],
      v_params_wo_init = [''GRU_0_W'', ''FC_output_W''],
      v_prev_states = [''GRU_0_prev''],
      v_grads = [VGrad ''GRU_0_W'', VGrad ''FC_output_W''],
      v_params_for_init = [''GRU_0_init''],
      v_grads_for_init = [VGradInit ''GRU_0_prev''],
      port_o_output = None,
      port_o_loss = Some demo_loss,
      prev_state_updates =
        [(VPrev ''GRU_0_prev'', SExt ''GRU_0_state'' [SPort port_i_input, SPort port_i_last_tap])],
      grad_updates =
        [(VGrad ''GRU_0_W'', SGrad demo_loss (VParam ''GRU_0_W'')),
         (VGrad ''FC_output_W'', SGrad demo_loss (VParam ''FC_output_W''))],
      optim_state_inits = [],
      param_updates =
        [(VParam ''GRU_0_W'',
          SExt ''minus'' [SShared (VParam ''GRU_0_W''),
                          SExt ''scale'' [SPort port_i_lr, SShared (VGrad ''GRU_0_W'')]]),
         (VParam ''FC_output_W'',
          SExt ''minus'' [SShared (VParam ''FC_output_W''),
                          SExt ''scale'' [SPort port_i_lr, SShared (VGrad ''FC_output_W'')]])],
      grad_updates_for_init =
        [(VGradInit ''GRU_0_prev'', SGrad demo_loss (VPrev ''GRU_0_prev''))],
      param_updates_for_init =
        [(VParam ''GRU_0_init'',
          SExt ''minus'' [SShared (VParam ''GRU_0_init''),
                          SExt ''scale'' [SPort port_i_lr,
                                          SMean0 (SShared (VGradInit ''GRU_0_prev''))]])]\<rparr>"

definition demo_store :: "rat store" where
  "demo_store =
     [VParam ''GRU_0_W'' \<mapsto> Arr [Arr [Flt 3, Flt 4]],
      VParam ''GRU_0_init'' \<mapsto> Arr [Flt 5, Flt 7],
      VParam ''FC_output_W'' \<mapsto> Arr [Arr [Flt 1, Flt 2]],
      VPrev ''GRU_0_prev'' \<mapsto> Arr [Arr [Flt 0, Flt 0], Arr [Flt 0, Flt 0]],
      VGrad ''GRU_0_W'' \<mapsto> Arr [Arr [Flt 0, Flt 0]],
      VGrad ''FC_output_W'' \<mapsto> Arr [Arr [Flt 0, Flt 0]],
      VGradInit ''GRU_0_prev'' \<mapsto> Arr [Arr [Flt 0, Flt 0], Arr [Flt 0, Flt 0]]]"

definition demo_world_after :: "rat world" where
  "demo_world_after =
     \<lparr>files = [''ws/options.pkl'' \<mapsto> OptionsPkl demo_opts], writable = (\<lambda>_. True),
      log = [OpenWrite ''ws/options.pkl''], rand_strings = (\<lambda>_. ''abc''), rand_pos = 0\<rparr>"

text \<open>The inference network built from the finished run with batch size three.\<close>

definition demo_inference_output :: sym where
  "demo_inference_output =
     SExt ''abc_FC_output''
       [SExt ''abc_GRU_0'' [SPort port_i_input, SLastIndex (SPort port_i_input),
                            SShared (VParam ''abc_GRU_0_W''), SShared (VParam ''abc_FC_output_W''),
                            SShared (VPrev ''abc_GRU_0_prev'')],
        SLastIndex (SPort port_i_input), SShared (VParam ''abc_GRU_0_W''),
        SShared (VParam ''abc_FC_output_W''), SShared (VPrev ''abc_GRU_0_prev'')]"

definition demo_inference_net :: "rat net" where
  "demo_inference_net =
     \<lparr>is_training = False,
      cfg_options = AList.update ''batch_size'' (PInt 3) demo_opts,
      save_to = None, pfx = ''abc_'',
      params = [(''abc_GRU_0_W'', Arr [Arr [Flt 30, Flt 40]]),
                (''abc_GRU_0_init'', Arr [Flt 50, Flt 70]),
                (''abc_FC_output_W'', Arr [Arr [Flt 10, Flt 20]])],
      id_embedder = None,
      layers = [\<lparr>l_class = GRULayer, l_name = ''abc_GRU_0'', l_n_in = PInt 1,
                  l_n_out = PInt 2, l_act = None\<rparr>,
                \<lparr>l_class = FCLayer, l_name = ''abc_FC_output'', l_n_in = PInt 2,
                  l_n_out = PInt 1, l_act = Some ''lambda x: x''\<rparr>],
      v_params = [''abc_GRU_0_W'', ''abc_GRU_0_init'', ''abc_FC_output_W''],
      v_params_wo_init = [''abc_GRU_0_W'', ''abc_FC_output_W''],
      v_prev_states = [''abc_GRU_0_prev''],
      v_grads = [],
      v_params_for_init = [],
      v_grads_for_init = [],
      port_o_output = Some demo_inference_output,
      port_o_loss = None,
      prev_state_updates =
        [(VPrev ''abc_GRU_0_prev'',
          SExt ''abc_GRU_0_state'' [SPort port_i_input, SLastIndex (SPort port_i_input)])],
      grad_updates = [], optim_state_inits = [], param_updates = [],
      grad_updates_for_init = [], param_updates_for_init = []\<rparr>"

definition demo_inference_store :: "rat store" where
  "demo_inference_store =
     [VParam ''abc_GRU_0_W'' \<mapsto> Arr [Arr [Flt 30, Flt 40]],
      VParam ''abc_GRU_0_init'' \<mapsto> Arr [Flt 50, Flt 70],
      VParam ''abc_FC_output_W'' \<mapsto> Arr [Arr [Flt 10, Flt 20]],
      VPrev ''abc_GRU_0_prev'' \<mapsto> Arr [Arr [Flt 0, Flt 0], Arr [Flt 0, Flt 0]]]"

text \<open>
  A backend for the instance: an external node passes its first operand through, the
  gradient with respect to a connected variable is read off that variable, clipping,
  averaging, encoding and concatenation pass their operand through, and the loss is the
  mean-squared error.
\<close>

definition demo_sem :: "rat sem" where
  "demo_sem = \<lparr>
     ext_op = (\<lambda>f args. case args of [] \<Rightarrow> None | x # _ \<Rightarrow> Some x),
     grad_op = (\<lambda>e v st inp. if v \<in> set (svars e) then st v else None),
     clip_norm = (\<lambda>x c. Some x),
     mean0 = (\<lambda>x. Some x),
     MSE_loss = mean_squared_error,
     to_one_hot = (\<lambda>x c. Some x),
     concat2 = (\<lambda>a b. Some a)\<rparr>"

text \<open>Two time steps of one sample, with the loss tap \<open>k\<close>.\<close>

definition demo_args :: "int \<Rightarrow> string \<Rightarrow> rat tensor option" where
  "demo_args k =
     [port_i_input \<mapsto> Arr [Arr [Arr [Flt 1]], Arr [Arr [Flt 0]]],
      port_i_target \<mapsto> Arr [Arr [Arr [Flt 0]], Arr [Arr [Flt 0]]],
      port_i_time \<mapsto> Arr [Flt 0, Flt 1],
      port_i_id_idx \<mapsto> Arr [Int32 0],
      port_i_last_tap \<mapsto> Int32 1,
      port_i_loss_tap \<mapsto> Int32 k]"

section \<open>What a successful construction establishes\<close>

lemma Net_init_InrD:
  assumes "Net_init X w opts save lf = (Inr (n, st), w')"
  shows "\<exists>c w1 emb ls ps sv.
           configure w opts save lf = (Inr c, w1)
         \<and> init_params X w1 c lf = (Inr (emb, ls, ps), w')
         \<and> init_shared_variables X c ls ps = Inr sv
         \<and> (if is_training c
              then setup_training_graph X (base_net c emb ls ps sv) (sv_store sv) = Inr (n, st)
              else setup_inference_graph X (base_net c emb ls ps sv) = Inr n \<and> st = sv_store sv)"
  using assms
  by (auto simp: Net_init_def split: prod.splits sum.splits if_splits)

lemma setup_init_graphs_InrD:
  assumes "setup_init_graphs X n0 st0 s_loss = Inr (n, st)"
  shows "\<exists>gu inits pu.
           setup_grad_updates_graph (cfg_options n0) s_loss (map VPrev (v_prev_states n0))
             (v_grads_for_init n0) = Inr gu
         \<and> setup_param_updates_graph X (cfg_options n0) st0 (SPort port_i_lr)
             (map VParam (v_params_for_init n0))
             (map (\<lambda>v. SMean0 (SShared v)) (v_grads_for_init n0)) = Inr (st, inits, pu)
         \<and> n = n0\<lparr>grad_updates_for_init := gu, param_updates_for_init := pu,
                   optim_state_inits := optim_state_inits n0 @ inits\<rparr>"
  using assms
  by (auto simp: setup_init_graphs_def Let_def split: prod.splits sum.splits if_splits)

lemma setup_training_graph_InrD:
  assumes "setup_training_graph X n0 st0 = Inr (n, st)"
  shows "\<exists>s_output ups gu st1 inits pu flag.
           setup_forward_graph X (cfg_options n0) (id_embedder n0) (layers n0)
             (SPort port_i_input) (SPort port_i_time) (SPort port_i_id_idx)
             (SPort port_i_last_tap) (v_params n0) (v_prev_states n0) = Inr (s_output, ups)
         \<and> setup_grad_updates_graph (cfg_options n0)
              (setup_loss_graph s_output (SPort port_i_target) (SPort port_i_loss_tap))
              (map VParam (v_params_wo_init n0)) (v_grads n0) = Inr gu
         \<and> setup_param_updates_graph X (cfg_options n0) st0 (SPort port_i_lr)
              (map VParam (v_params_wo_init n0)) (map SShared (v_grads n0)) = Inr (st1, inits, pu)
         \<and> od_get (cfg_options n0) ''learn_init_states'' = Inr flag
         \<and> (if truthy flag
              then setup_init_graphs X
                     (n0\<lparr>prev_state_updates := ups,
                         port_o_loss := Some (setup_loss_graph s_output (SPort port_i_target)
                                                (SPort port_i_loss_tap)),
                         grad_updates := gu, optim_state_inits := inits, param_updates := pu\<rparr>)
                     st1 (setup_loss_graph s_output (SPort port_i_target) (SPort port_i_loss_tap))
                   = Inr (n, st)
              else n = n0\<lparr>prev_state_updates := ups,
                         port_o_loss := Some (setup_loss_graph s_output (SPort port_i_target)
                                                (SPort port_i_loss_tap)),
                         grad_updates := gu, optim_state_inits := inits, param_updates := pu\<rparr>
                   \<and> st = st1)"
  using assms
  by (auto simp: setup_training_graph_def Let_def split: prod.splits sum.splits if_splits)

lemma init_shared_variables_InrD:
  assumes "init_shared_variables X c ls ps = Inr sv"
  shows "sv_v_params sv = map fst ps
       \<and> sv_v_params_wo_init sv = filter (\<lambda>k. last4 k \<noteq> ''init'') (map fst ps)
       \<and> sv_v_prev_states sv = map fst (foldl (\<lambda>d l. add_v_prev_state X l (cfg_options c) d) [] ls)
       \<and> (is_training c \<longrightarrow> sv_v_grads sv = map VGrad (sv_v_params_wo_init sv))
       \<and> (is_training c \<longrightarrow> (\<exists>flag. od_get (cfg_options c) ''learn_init_states'' = Inr flag
              \<and> (truthy flag \<longrightarrow>
                    sv_v_params_for_init sv = filter (\<lambda>k. last4 k = ''init'') (map fst ps)
                  \<and> sv_v_grads_for_init sv = map VGradInit (sv_v_prev_states sv))))"
  using assms
  by (auto simp: init_shared_variables_def Let_def split: sum.splits if_splits)


lemma configure_training_InrD:
  assumes "configure w opts (Some s) lf = (Inr c, w1)"
  shows "is_training c \<and> opts = Some (cfg_options c) \<and> save_to c = Some s \<and> pfx c = []"
  using assms
  by (auto simp: configure_def split: option.splits prod.splits sum.splits if_splits)

lemma configure_inference_InrD:
  assumes "configure w opts None lf = (Inr c, w1)"
  shows "\<not> is_training c \<and> save_to c = None"
  using assms
  by (auto simp: configure_def split: option.splits prod.splits sum.splits if_splits)

lemma Net_init_training_wiring:
  assumes "Net_init X w opts (Some s) lf = (Inr (n, st), w')"
  shows "is_training n \<and> opts = Some (cfg_options n) \<and> save_to n = Some s
       \<and> v_params n = map fst (params n)
       \<and> v_params_wo_init n = filter (\<lambda>k. last4 k \<noteq> ''init'') (v_params n)
       \<and> v_grads n = map VGrad (v_params_wo_init n)
       \<and> (\<exists>s_output.
            port_o_loss n = Some (setup_loss_graph s_output (SPort port_i_target)
                                    (SPort port_i_loss_tap))
          \<and> setup_forward_graph X (cfg_options n) (id_embedder n) (layers n)
               (SPort port_i_input) (SPort port_i_time) (SPort port_i_id_idx)
               (SPort port_i_last_tap) (v_params n) (v_prev_states n)
              = Inr (s_output, prev_state_updates n)
          \<and> setup_grad_updates_graph (cfg_options n)
               (setup_loss_graph s_output (SPort port_i_target) (SPort port_i_loss_tap))
               (map VParam (v_params_wo_init n)) (v_grads n) = Inr (grad_updates n)
          \<and> (\<exists>st0 st1 inits.
                setup_param_updates_graph X (cfg_options n) st0 (SPort port_i_lr)
                  (map VParam (v_params_wo_init n)) (map SShared (v_grads n))
                 = Inr (st1, inits, param_updates n))
          \<and> (\<exists>flag. od_get (cfg_options n) ''learn_init_states'' = Inr flag
               \<and> (truthy flag \<longrightarrow>
                     v_params_for_init n = filter (\<lambda>k. last4 k = ''init'') (v_params n)
                   \<and> v_grads_for_init n = map VGradInit (v_prev_states n)
                   \<and> setup_grad_updates_graph (cfg_options n)
                        (setup_loss_graph s_output (SPort port_i_target) (SPort port_i_loss_tap))
                        (map VPrev (v_prev_states n)) (v_grads_for_init n)
                       = Inr (grad_updates_for_init n)
                   \<and> (\<exists>st1 st2 inits'.
                         setup_param_updates_graph X (cfg_options n) st1 (SPort port_i_lr)
                           (map VParam (v_params_for_init n))
                           (map (\<lambda>v. SMean0 (SShared v)) (v_grads_for_init n))
                          = Inr (st2, inits', param_updates_for_init n)))))"
proof -
  from Net_init_InrD [OF assms] obtain c w1 emb ls ps sv where
    cfg: "configure w opts (Some s) lf = (Inr c, w1)" and
    sv: "init_shared_variables X c ls ps = Inr sv" and
    gr: "if is_training c
         then setup_training_graph X (base_net c emb ls ps sv) (sv_store sv) = Inr (n, st)
         else setup_inference_graph X (base_net c emb ls ps sv) = Inr n \<and> st = sv_store sv"
    by blast
  from configure_training_InrD [OF cfg] have c: "is_training c" "opts = Some (cfg_options c)"
    "save_to c = Some s" by simp_all
  from gr c have tg: "setup_training_graph X (base_net c emb ls ps sv) (sv_store sv) = Inr (n, st)"
    by simp
  note svf = init_shared_variables_InrD [OF sv]
  from setup_training_graph_InrD [OF tg] obtain s_output ups gu st1 inits pu flag where
    fw: "setup_forward_graph X (cfg_options (base_net c emb ls ps sv))
           (id_embedder (base_net c emb ls ps sv)) (layers (base_net c emb ls ps sv))
           (SPort port_i_input) (SPort port_i_time) (SPort port_i_id_idx)
           (SPort port_i_last_tap) (v_params (base_net c emb ls ps sv))
           (v_prev_states (base_net c emb ls ps sv)) = Inr (s_output, ups)" and
    gu: "setup_grad_updates_graph (cfg_options (base_net c emb ls ps sv))
           (setup_loss_graph s_output (SPort port_i_target) (SPort port_i_loss_tap))
           (map VParam (v_params_wo_init (base_net c emb ls ps sv)))
           (v_grads (base_net c emb ls ps sv)) = Inr gu" and
    pu: "setup_param_updates_graph X (cfg_options (base_net c emb ls ps sv)) (sv_store sv)
           (SPort port_i_lr) (map VParam (v_params_wo_init (base_net c emb ls ps sv)))
           (map SShared (v_grads (base_net c emb ls ps sv))) = Inr (st1, inits, pu)" and
    fl: "od_get (cfg_options (base_net c emb ls ps sv)) ''learn_init_states'' = Inr flag" and
    rest: "if truthy flag
           then setup_init_graphs X
                  ((base_net c emb ls ps sv)\<lparr>prev_state_updates := ups,
                      port_o_loss := Some (setup_loss_graph s_output (SPort port_i_target)
                                             (SPort port_i_loss_tap)),
                      grad_updates := gu, optim_state_inits := inits, param_updates := pu\<rparr>)
                  st1 (setup_loss_graph s_output (SPort port_i_target) (SPort port_i_loss_tap))
                = Inr (n, st)
           else n = (base_net c emb ls ps sv)\<lparr>prev_state_updates := ups,
                      port_o_loss := Some (setup_loss_graph s_output (SPort port_i_target)
                                             (SPort port_i_loss_tap)),
                      grad_updates := gu, optim_state_inits := inits, param_updates := pu\<rparr>
                \<and> st = st1"
    by blast
  show ?thesis
  proof (cases "truthy flag")
    case False
    with rest have n: "n = (base_net c emb ls ps sv)\<lparr>prev_state_updates := ups,
                      port_o_loss := Some (setup_loss_graph s_output (SPort port_i_target)
                                             (SPort port_i_loss_tap)),
                      grad_updates := gu, optim_state_inits := inits, param_updates := pu\<rparr>"
      by simp
    show ?thesis
      using c svf fw gu pu fl False unfolding n
      by (auto simp: base_net_def)
  next
    case True
    with rest have ig: "setup_init_graphs X
                  ((base_net c emb ls ps sv)\<lparr>prev_state_updates := ups,
                      port_o_loss := Some (setup_loss_graph s_output (SPort port_i_target)
                                             (SPort port_i_loss_tap)),
                      grad_updates := gu, optim_state_inits := inits, param_updates := pu\<rparr>)
                  st1 (setup_loss_graph s_output (SPort port_i_target) (SPort port_i_loss_tap))
                = Inr (n, st)"
      by simp
    from setup_init_graphs_InrD [OF ig] obtain gu' inits' pu' where
      gu': "setup_grad_updates_graph (cfg_options c)
              (setup_loss_graph s_output (SPort port_i_target) (SPort port_i_loss_tap))
              (map VPrev (sv_v_prev_states sv)) (sv_v_grads_for_init sv) = Inr gu'" and
      pu': "setup_param_updates_graph X (cfg_options c) st1 (SPort port_i_lr)
              (map VParam (sv_v_params_for_init sv))
              (map (\<lambda>v. SMean0 (SShared v)) (sv_v_grads_for_init sv)) = Inr (st, inits', pu')" and
      n: "n = (base_net c emb ls ps sv)\<lparr>prev_state_updates := ups,
                      port_o_loss := Some (setup_loss_graph s_output (SPort port_i_target)
                                             (SPort port_i_loss_tap)),
                      grad_updates := gu, optim_state_inits := inits, param_updates := pu,
                      grad_updates_for_init := gu', param_updates_for_init := pu',
                      optim_state_inits := inits @ inits'\<rparr>"
      by (auto simp: base_net_def)
    show ?thesis
      using c svf fw gu pu fl True gu' pu' unfolding n
      by (auto simp: base_net_def)
  qed
qed

lemma Net_init_config:
  assumes "Net_init X w opts save lf = (Inr (n, st), w')"
  shows "\<exists>c w1. configure w opts save lf = (Inr c, w1)
               \<and> is_training n = is_training c \<and> cfg_options n = cfg_options c
               \<and> save_to n = save_to c \<and> pfx n = pfx c"
proof -
  from Net_init_InrD [OF assms] obtain c w1 emb ls ps sv where
    cfg: "configure w opts save lf = (Inr c, w1)" and
    gr: "if is_training c
         then setup_training_graph X (base_net c emb ls ps sv) (sv_store sv) = Inr (n, st)
         else setup_inference_graph X (base_net c emb ls ps sv) = Inr n \<and> st = sv_store sv"
    by blast
  have "is_training n = is_training c \<and> cfg_options n = cfg_options c
        \<and> save_to n = save_to c \<and> pfx n = pfx c"
  proof (cases "is_training c")
    case True
    with gr have tg: "setup_training_graph X (base_net c emb ls ps sv) (sv_store sv) = Inr (n, st)"
      by simp
    from setup_training_graph_InrD [OF tg] show ?thesis
      by (auto simp: base_net_def split: if_splits dest!: setup_init_graphs_InrD)
  next
    case False
    with gr have "setup_inference_graph X (base_net c emb ls ps sv) = Inr n" by simp
    then show ?thesis
      by (auto simp: setup_inference_graph_def base_net_def split: sum.splits)
  qed
  with cfg show ?thesis by blast
qed

section \<open>The instance, evaluated\<close>

lemmas demo_simps =
  Net_init_def configure_def check_loaded_options_def pk_dump_def pk_load_def np_load_def
  get_random_string_def logged_def demo_world_def demo_saved_world_def demo_opts_def
  init_params_def od_get_def opt_int_def opt_str_def str_nat.simps overlay.simps
  layer_class_of_def new_layer_def demo_ext_def od_set_def init_shared_variables_def
  share_all_def last4_def setup_training_graph_def setup_inference_graph_def base_net_def
  setup_forward_graph_def setup_loss_graph_def setup_grad_updates_graph_def
  setup_param_updates_graph_def force_names_def update_names_def setup_init_graphs_def
  digit_char_def Let_def

lemma demo_training_result:
  "Net_init demo_ext demo_world (Some demo_opts) (Some ''ws'') None
     = (Inr (demo_net, demo_store), demo_world_after)"
  by (simp add: demo_simps demo_net_def demo_store_def demo_world_after_def demo_loss_def
        demo_output_def)

lemma demo_inference_result:
  "\<exists>w'. Net_init demo_ext demo_saved_world (Some [(''batch_size'', PInt 3)]) None (Some ''run'')
          = (Inr (demo_inference_net, demo_inference_store), w')"
  by (simp add: demo_simps demo_inference_net_def demo_inference_store_def
        demo_inference_output_def)

section \<open>Claims about configuration and modes\<close>

text \<open>
  C6.  In inference mode (no \<^verbatim>\<open>save_to\<close>, a \<^verbatim>\<open>load_from\<close> whose option file loads) the option
  set of the object is the loaded one with \<^verbatim>\<open>batch_size\<close> replaced by the caller's value:
  \<^verbatim>\<open>_configure\<close> returns exactly that, every constructed network carries it, every other
  key reads as in the loaded set, and construction fails with an assertion (or, for
  \<^verbatim>\<open>options = None\<close>, a type error) when the supplied options have no \<^verbatim>\<open>batch_size\<close>.
\<close>

theorem inference_options_override_batch_size_only:
  assumes "files w (l @ ''/options.pkl'') = Some (OptionsPkl loaded)"
  shows "(\<forall>d b. map_of d ''batch_size'' = Some b \<longrightarrow>
            (\<exists>w1. configure w (Some d) None (Some l)
                     = (Inr \<lparr>is_training = False,
                             cfg_options = AList.update ''batch_size'' b loaded,
                             save_to = None,
                             pfx = rand_strings w (rand_pos w) @ ''_''\<rparr>, w1)))
       \<and> (\<forall>n st w'. Net_init X w opts None (Some l) = (Inr (n, st), w') \<longrightarrow>
            (\<exists>d b. opts = Some d \<and> map_of d ''batch_size'' = Some b
                  \<and> cfg_options n = AList.update ''batch_size'' b loaded
                  \<and> map_of (cfg_options n) ''batch_size'' = Some b
                  \<and> (\<forall>k. k \<noteq> ''batch_size'' \<longrightarrow> map_of (cfg_options n) k = map_of loaded k)))
       \<and> ((\<forall>d. opts = Some d \<longrightarrow> map_of d ''batch_size'' = None) \<longrightarrow>
            (\<exists>e w'. Net_init X w opts None (Some l) = (Inl e, w')
                   \<and> (e = AssertionError \<or> e = TypeError)))"
proof (intro conjI allI impI)
  fix d :: options and b assume "map_of d ''batch_size'' = Some b"
  with assms show "\<exists>w1. configure w (Some d) None (Some l)
                     = (Inr \<lparr>is_training = False,
                             cfg_options = AList.update ''batch_size'' b loaded,
                             save_to = None,
                             pfx = rand_strings w (rand_pos w) @ ''_''\<rparr>, w1)"
    by (simp add: configure_def get_random_string_def pk_load_def od_set_def)
next
  fix n st w' assume ok: "Net_init X w opts None (Some l) = (Inr (n, st), w')"
  from Net_init_config [OF ok] obtain c w1 where
    cfg: "configure w opts None (Some l) = (Inr c, w1)" and o: "cfg_options n = cfg_options c"
    by blast
  from cfg assms obtain d b where "opts = Some d" "map_of d ''batch_size'' = Some b"
    "cfg_options c = AList.update ''batch_size'' b loaded"
    by (auto simp: configure_def get_random_string_def pk_load_def od_set_def
             split: option.splits)
  with o show "\<exists>d b. opts = Some d \<and> map_of d ''batch_size'' = Some b
                  \<and> cfg_options n = AList.update ''batch_size'' b loaded
                  \<and> map_of (cfg_options n) ''batch_size'' = Some b
                  \<and> (\<forall>k. k \<noteq> ''batch_size'' \<longrightarrow> map_of (cfg_options n) k = map_of loaded k)"
    by (auto simp: update_conv')
next
  assume "\<forall>d. opts = Some d \<longrightarrow> map_of d ''batch_size'' = None"
  with assms show "\<exists>e w'. Net_init X w opts None (Some l) = (Inl e, w')
                   \<and> (e = AssertionError \<or> e = TypeError)"
    by (cases opts) (auto simp: Net_init_def configure_def get_random_string_def pk_load_def)
qed

theorem inference_options_override_batch_size_only_witness:
  "files demo_saved_world (''run'' @ ''/options.pkl'') = Some (OptionsPkl demo_opts)
   \<and> (\<exists>w1. configure demo_saved_world (Some [(''batch_size'', PInt 3)]) None (Some ''run'')
              = (Inr \<lparr>is_training = False,
                      cfg_options = AList.update ''batch_size'' (PInt 3) demo_opts,
                      save_to = None, pfx = ''abc_''\<rparr>, w1))
   \<and> cfg_options demo_inference_net = AList.update ''batch_size'' (PInt 3) demo_opts
   \<and> map_of (cfg_options demo_inference_net) ''batch_size'' = Some (PInt 3)
   \<and> map_of (cfg_options demo_inference_net) ''net_width'' = map_of demo_opts ''net_width''
   \<and> (\<exists>e w'. Net_init demo_ext demo_saved_world (Some []) None (Some ''run'') = (Inl e, w')
             \<and> (e = AssertionError \<or> e = TypeError))"
proof -
  have f: "files demo_saved_world (''run'' @ ''/options.pkl'') = Some (OptionsPkl demo_opts)"
    by (simp add: demo_saved_world_def)
  note t1 = inference_options_override_batch_size_only
              [OF f, of demo_ext "Some [(''batch_size'', PInt 3)]"]
  note t2 = inference_options_override_batch_size_only [OF f, of demo_ext "Some []"]
  from t1 have a: "\<exists>w1. configure demo_saved_world (Some [(''batch_size'', PInt 3)]) None (Some ''run'')
              = (Inr \<lparr>is_training = False,
                      cfg_options = AList.update ''batch_size'' (PInt 3) demo_opts,
                      save_to = None, pfx = ''abc_''\<rparr>, w1)"
    by (simp add: demo_saved_world_def)
  from demo_inference_result obtain w' where
    "Net_init demo_ext demo_saved_world (Some [(''batch_size'', PInt 3)]) None (Some ''run'')
       = (Inr (demo_inference_net, demo_inference_store), w')" ..
  with t1 have b: "cfg_options demo_inference_net = AList.update ''batch_size'' (PInt 3) demo_opts
      \<and> map_of (cfg_options demo_inference_net) ''batch_size'' = Some (PInt 3)
      \<and> map_of (cfg_options demo_inference_net) ''net_width'' = map_of demo_opts ''net_width''"
    by fastforce
  from t2 have c: "\<exists>e w'. Net_init demo_ext demo_saved_world (Some []) None (Some ''run'') = (Inl e, w')
             \<and> (e = AssertionError \<or> e = TypeError)"
    by simp
  from f a b c show ?thesis by blast
qed

text \<open>
  C2.  In training mode with a resume path whose persisted options differ from the
  supplied ones, \<^verbatim>\<open>_configure\<close> fails with an assertion, and so does construction, whatever
  the layers and optimizers are.  The workspace afterwards differs from the one before
  only by its log, which has gained the read of \<^verbatim>\<open>options.pkl\<close> and the printed message:
  no parameter archive has been read and nothing has been written.
\<close>

theorem resume_with_mismatching_options_fails:
  assumes "files w (l @ ''/options.pkl'') = Some (OptionsPkl loaded)"
      and "\<not> od_eq d loaded"
  shows "configure w (Some d) (Some s) (Some l)
           = (Inl AssertionError,
              w\<lparr>log := log w @ [OpenRead (l @ ''/options.pkl''),
                                Print ''[Error] Mismatching options in loaded model'']\<rparr>)
       \<and> Net_init X w (Some d) (Some s) (Some l)
           = (Inl AssertionError,
              w\<lparr>log := log w @ [OpenRead (l @ ''/options.pkl''),
                                Print ''[Error] Mismatching options in loaded model'']\<rparr>)"
  using assms
  by (simp add: Net_init_def configure_def check_loaded_options_def pk_load_def logged_def)

theorem resume_with_mismatching_options_fails_witness:
  "files demo_saved_world (''run'' @ ''/options.pkl'') = Some (OptionsPkl demo_opts)
   \<and> \<not> od_eq [(''net_depth'', PInt 2)] demo_opts
   \<and> Net_init demo_ext demo_saved_world (Some [(''net_depth'', PInt 2)]) (Some ''ws'') (Some ''run'')
       = (Inl AssertionError,
          demo_saved_world\<lparr>log := [OpenRead ''run/options.pkl'',
                                    Print ''[Error] Mismatching options in loaded model'']\<rparr>)"
proof -
  have f: "files demo_saved_world (''run'' @ ''/options.pkl'') = Some (OptionsPkl demo_opts)"
    by (simp add: demo_saved_world_def)
  have d: "\<not> od_eq [(''net_depth'', PInt 2)] demo_opts"
    by (simp add: demo_opts_def)
  from resume_with_mismatching_options_fails [OF f d, of "''ws''" demo_ext] f d
  show ?thesis by (simp add: demo_saved_world_def)
qed

text \<open>
  C9.  On a network in inference mode, compiling the forward-backward function, the
  parameter update, the two functions of the learnable initial states and the optimizer
  initialisation, and saving, loading or removing a workspace snapshot, each fail with an
  assertion and leave store and workspace as they were; \<^verbatim>\<open>save_param\<close> does so on a network
  in training mode.
\<close>

theorem mode_violations_fail_fast:
  "(\<not> is_training n \<longrightarrow>
       compile_f_fwd_bwd_propagate n = Inl AssertionError
     \<and> compile_f_update_v_params n = Inl AssertionError
     \<and> compile_f_fwd_bwd_for_init n = Inl AssertionError
     \<and> compile_f_update_init_states n = Inl AssertionError
     \<and> compile_f_initialize_optimizer n = Inl AssertionError
     \<and> save_v_params_to_workspace n st w name = (Inl AssertionError, w)
     \<and> load_v_params_from_workspace n st w name = (Inl AssertionError, st, w)
     \<and> remove_params_file_from_workspace n w name = (Inl AssertionError, w))
   \<and> (is_training n \<longrightarrow> save_param n w param_name filename = (Inl AssertionError, w))"
  by (simp add: compile_f_fwd_bwd_propagate_def compile_f_update_v_params_def
        compile_f_fwd_bwd_for_init_def compile_f_update_init_states_def
        compile_f_initialize_optimizer_def save_v_params_to_workspace_def
        load_v_params_from_workspace_def remove_params_file_from_workspace_def save_param_def)

theorem mode_violations_fail_fast_witness:
  "\<not> is_training demo_inference_net
   \<and> compile_f_fwd_bwd_propagate demo_inference_net = Inl AssertionError
   \<and> compile_f_update_v_params demo_inference_net = Inl AssertionError
   \<and> compile_f_fwd_bwd_for_init demo_inference_net = Inl AssertionError
   \<and> compile_f_update_init_states demo_inference_net = Inl AssertionError
   \<and> compile_f_initialize_optimizer demo_inference_net = Inl AssertionError
   \<and> save_v_params_to_workspace demo_inference_net demo_inference_store demo_saved_world None
       = (Inl AssertionError, demo_saved_world)
   \<and> load_v_params_from_workspace demo_inference_net demo_inference_store demo_saved_world None
       = (Inl AssertionError, demo_inference_store, demo_saved_world)
   \<and> remove_params_file_from_workspace demo_inference_net demo_saved_world None
       = (Inl AssertionError, demo_saved_world)
   \<and> is_training demo_net
   \<and> save_param demo_net demo_world_after ''GRU_0_W'' ''exported''
       = (Inl AssertionError, demo_world_after)"
  using mode_violations_fail_fast
          [of demo_inference_net demo_inference_store demo_saved_world None]
        mode_violations_fail_fast [of demo_net _ demo_world_after _ "''GRU_0_W''" "''exported''"]
  by (simp add: demo_inference_net_def demo_net_def)

section \<open>Claims about the compiled functions and the workspace\<close>

subsection \<open>Compilation\<close>

lemma th_function_Ignore_not_unused:
  "th_function ins outs ups Ignore \<noteq> Inl (UnusedInputError p)"
  by (simp add: th_function_def split: list.splits)

lemma th_function_Ignore_accepts:
  assumes "set (graph_ports outs ups) \<subseteq> set ins" and "distinct (map fst ups)"
  shows "th_function ins outs ups Ignore
           = Inr \<lparr>f_inputs = ins, f_outputs = outs, f_updates = ups, on_unused_input = Ignore\<rparr>"
proof -
  from assms(1) have "filter (\<lambda>p. p \<notin> set ins) (graph_ports outs ups) = []"
    by (auto simp: filter_empty_conv)
  with assms(2) show ?thesis
    by (simp add: th_function_def split: list.splits)
qed

lemma th_function_InrD:
  "th_function ins outs ups pol = Inr f \<Longrightarrow>
     f = \<lparr>f_inputs = ins, f_outputs = outs, f_updates = ups, on_unused_input = pol\<rparr>
   \<and> distinct (map fst ups) \<and> set (graph_ports outs ups) \<subseteq> set ins"
  by (auto simp: th_function_def filter_empty_conv split: list.splits if_splits)

lemma call_not_unused: "call S f st args \<noteq> Inl (UnusedInputError p)"
  by (simp add: call_def Let_def split: option.splits prod.splits)

lemma policy_ignore:
  assumes "od_get opts ''learn_clock_params'' = Inr c" "\<not> truthy c"
      and "od_get opts ''learn_id_embedding'' = Inr e" "\<not> truthy e"
  shows "unused_input_policy opts = Inr Ignore"
  using assms by (simp add: unused_input_policy_def)

lemma propagate_fn_Ignore:
  assumes "unused_input_policy opts = Inr Ignore"
  shows "propagate_fn opts ins nm out ups \<noteq> Inl (UnusedInputError p)
       \<and> (\<forall>f. propagate_fn opts ins nm out ups = Inr f \<longrightarrow>
              f_inputs f = ins \<and> on_unused_input f = Ignore)
       \<and> (\<forall>e. out = Some e \<and> set (graph_ports [e] ups) \<subseteq> set ins \<and> distinct (map fst ups) \<longrightarrow>
              propagate_fn opts ins nm out ups
                = Inr \<lparr>f_inputs = ins, f_outputs = [e], f_updates = ups,
                       on_unused_input = Ignore\<rparr>)"
  using assms
  by (auto simp: propagate_fn_def attr_def th_function_Ignore_not_unused
        th_function_Ignore_accepts split: option.splits dest: th_function_InrD)

text \<open>
  C7.  With \<^verbatim>\<open>learn_clock_params\<close> and \<^verbatim>\<open>learn_id_embedding\<close> both false, neither
  \<^verbatim>\<open>compile_f_fwd_propagate\<close> nor \<^verbatim>\<open>compile_f_fwd_bwd_propagate\<close> fails because of an unused
  input.  A function they return declares the time port and the identity-index port, has
  the policy \<^verbatim>\<open>'ignore'\<close>, and no call of it fails because of an unused input.  When the
  graph is connected to neither port (and otherwise compiles), compilation succeeds with
  the two ports among the inputs.
\<close>

theorem unused_ports_tolerated:
  assumes "od_get (cfg_options n) ''learn_clock_params'' = Inr c" and "\<not> truthy c"
      and "od_get (cfg_options n) ''learn_id_embedding'' = Inr e" and "\<not> truthy e"
  shows "compile_f_fwd_propagate n \<noteq> Inl (UnusedInputError p)
       \<and> compile_f_fwd_bwd_propagate n \<noteq> Inl (UnusedInputError p)
       \<and> (\<forall>f. compile_f_fwd_propagate n = Inr f \<or> compile_f_fwd_bwd_propagate n = Inr f \<longrightarrow>
              on_unused_input f = Ignore
            \<and> port_i_time \<in> set (f_inputs f) \<and> port_i_id_idx \<in> set (f_inputs f)
            \<and> (\<forall>S st args q. call S f st args \<noteq> Inl (UnusedInputError q)))
       \<and> (\<forall>s_loss. is_training n \<and> port_o_loss n = Some s_loss
              \<and> set (graph_ports [s_loss] (grad_updates n @ prev_state_updates n))
                  \<subseteq> set training_inputs - {port_i_time, port_i_id_idx}
              \<and> distinct (map fst (grad_updates n @ prev_state_updates n)) \<longrightarrow>
              compile_f_fwd_propagate n
                = Inr \<lparr>f_inputs = training_inputs, f_outputs = [s_loss],
                       f_updates = prev_state_updates n, on_unused_input = Ignore\<rparr>
            \<and> compile_f_fwd_bwd_propagate n
                = Inr \<lparr>f_inputs = training_inputs, f_outputs = [s_loss],
                       f_updates = grad_updates n @ prev_state_updates n,
                       on_unused_input = Ignore\<rparr>)
       \<and> (\<forall>s_out. \<not> is_training n \<and> port_o_output n = Some s_out
              \<and> set (graph_ports [s_out] (prev_state_updates n))
                  \<subseteq> set inference_inputs - {port_i_time, port_i_id_idx}
              \<and> distinct (map fst (prev_state_updates n)) \<longrightarrow>
              compile_f_fwd_propagate n
                = Inr \<lparr>f_inputs = inference_inputs, f_outputs = [s_out],
                       f_updates = prev_state_updates n, on_unused_input = Ignore\<rparr>)"
proof -
  note pol = policy_ignore [OF assms]
  note pf = propagate_fn_Ignore [OF pol]
  have a: "compile_f_fwd_propagate n \<noteq> Inl (UnusedInputError p)"
    using pf by (simp add: compile_f_fwd_propagate_def)
  have b: "compile_f_fwd_bwd_propagate n \<noteq> Inl (UnusedInputError p)"
    using pf by (simp add: compile_f_fwd_bwd_propagate_def)
  have c: "\<forall>f. compile_f_fwd_propagate n = Inr f \<or> compile_f_fwd_bwd_propagate n = Inr f \<longrightarrow>
              on_unused_input f = Ignore
            \<and> port_i_time \<in> set (f_inputs f) \<and> port_i_id_idx \<in> set (f_inputs f)
            \<and> (\<forall>S st args q. call S f st args \<noteq> Inl (UnusedInputError q))"
    using pf
    by (auto simp: compile_f_fwd_propagate_def compile_f_fwd_bwd_propagate_def
          training_inputs_def inference_inputs_def call_not_unused split: if_splits)
  have d: "\<forall>s_loss. is_training n \<and> port_o_loss n = Some s_loss
              \<and> set (graph_ports [s_loss] (grad_updates n @ prev_state_updates n))
                  \<subseteq> set training_inputs - {port_i_time, port_i_id_idx}
              \<and> distinct (map fst (grad_updates n @ prev_state_updates n)) \<longrightarrow>
              compile_f_fwd_propagate n
                = Inr \<lparr>f_inputs = training_inputs, f_outputs = [s_loss],
                       f_updates = prev_state_updates n, on_unused_input = Ignore\<rparr>
            \<and> compile_f_fwd_bwd_propagate n
                = Inr \<lparr>f_inputs = training_inputs, f_outputs = [s_loss],
                       f_updates = grad_updates n @ prev_state_updates n,
                       on_unused_input = Ignore\<rparr>"
  proof (intro allI impI, elim conjE)
    fix s_loss
    assume t: "is_training n" and l: "port_o_loss n = Some s_loss"
      and sub: "set (graph_ports [s_loss] (grad_updates n @ prev_state_updates n))
                  \<subseteq> set training_inputs - {port_i_time, port_i_id_idx}"
      and dis: "distinct (map fst (grad_updates n @ prev_state_updates n))"
    from sub have s1: "set (graph_ports [s_loss] (prev_state_updates n)) \<subseteq> set training_inputs"
      and s2: "set (graph_ports [s_loss] (grad_updates n @ prev_state_updates n))
                 \<subseteq> set training_inputs"
      by (auto simp: graph_ports_def)
    from dis have d1: "distinct (map fst (prev_state_updates n))" by simp
    show "compile_f_fwd_propagate n
                = Inr \<lparr>f_inputs = training_inputs, f_outputs = [s_loss],
                       f_updates = prev_state_updates n, on_unused_input = Ignore\<rparr>
            \<and> compile_f_fwd_bwd_propagate n
                = Inr \<lparr>f_inputs = training_inputs, f_outputs = [s_loss],
                       f_updates = grad_updates n @ prev_state_updates n,
                       on_unused_input = Ignore\<rparr>"
      using pf t l s1 s2 d1 dis
      by (simp add: compile_f_fwd_propagate_def compile_f_fwd_bwd_propagate_def)
  qed
  have e: "\<forall>s_out. \<not> is_training n \<and> port_o_output n = Some s_out
              \<and> set (graph_ports [s_out] (prev_state_updates n))
                  \<subseteq> set inference_inputs - {port_i_time, port_i_id_idx}
              \<and> distinct (map fst (prev_state_updates n)) \<longrightarrow>
              compile_f_fwd_propagate n
                = Inr \<lparr>f_inputs = inference_inputs, f_outputs = [s_out],
                       f_updates = prev_state_updates n, on_unused_input = Ignore\<rparr>"
  proof (intro allI impI, elim conjE)
    fix s_out
    assume t: "\<not> is_training n" and l: "port_o_output n = Some s_out"
      and sub: "set (graph_ports [s_out] (prev_state_updates n))
                  \<subseteq> set inference_inputs - {port_i_time, port_i_id_idx}"
      and dis: "distinct (map fst (prev_state_updates n))"
    from sub have s1: "set (graph_ports [s_out] (prev_state_updates n)) \<subseteq> set inference_inputs"
      by auto
    show "compile_f_fwd_propagate n
                = Inr \<lparr>f_inputs = inference_inputs, f_outputs = [s_out],
                       f_updates = prev_state_updates n, on_unused_input = Ignore\<rparr>"
      using pf t l s1 dis by (simp add: compile_f_fwd_propagate_def)
  qed
  from a b c d e show ?thesis by blast
qed

theorem unused_ports_tolerated_witness:
  "od_get (cfg_options demo_net) ''learn_clock_params'' = Inr (PBool False)
   \<and> \<not> truthy (PBool False)
   \<and> od_get (cfg_options demo_net) ''learn_id_embedding'' = Inr (PBool False)
   \<and> port_i_time \<notin> set (graph_ports [demo_loss] (grad_updates demo_net @ prev_state_updates demo_net))
   \<and> port_i_id_idx \<notin> set (graph_ports [demo_loss] (grad_updates demo_net @ prev_state_updates demo_net))
   \<and> compile_f_fwd_propagate demo_net
       = Inr \<lparr>f_inputs = training_inputs, f_outputs = [demo_loss],
              f_updates = prev_state_updates demo_net, on_unused_input = Ignore\<rparr>
   \<and> compile_f_fwd_bwd_propagate demo_net
       = Inr \<lparr>f_inputs = training_inputs, f_outputs = [demo_loss],
              f_updates = grad_updates demo_net @ prev_state_updates demo_net,
              on_unused_input = Ignore\<rparr>
   \<and> port_i_time \<in> set training_inputs \<and> port_i_id_idx \<in> set training_inputs"
proof -
  have c: "od_get (cfg_options demo_net) ''learn_clock_params'' = Inr (PBool False)"
    and e: "od_get (cfg_options demo_net) ''learn_id_embedding'' = Inr (PBool False)"
    by (simp_all add: demo_net_def demo_opts_def od_get_def)
  have t: "\<not> truthy (PBool False)" by simp
  have gp: "set (graph_ports [demo_loss] (grad_updates demo_net @ prev_state_updates demo_net))
              = {port_i_input, port_i_last_tap, port_i_loss_tap, port_i_target}"
    by (auto simp: graph_ports_def demo_net_def demo_loss_def demo_output_def)
  have sub: "set (graph_ports [demo_loss] (grad_updates demo_net @ prev_state_updates demo_net))
               \<subseteq> set training_inputs - {port_i_time, port_i_id_idx}"
    unfolding gp by (simp add: training_inputs_def)
  have dis: "distinct (map fst (grad_updates demo_net @ prev_state_updates demo_net))"
    by (simp add: demo_net_def)
  have tr: "is_training demo_net" and pl: "port_o_loss demo_net = Some demo_loss"
    by (simp_all add: demo_net_def)
  from unused_ports_tolerated [OF c t e t] tr pl sub dis
  have "compile_f_fwd_propagate demo_net
          = Inr \<lparr>f_inputs = training_inputs, f_outputs = [demo_loss],
                 f_updates = prev_state_updates demo_net, on_unused_input = Ignore\<rparr>
      \<and> compile_f_fwd_bwd_propagate demo_net
          = Inr \<lparr>f_inputs = training_inputs, f_outputs = [demo_loss],
                 f_updates = grad_updates demo_net @ prev_state_updates demo_net,
                 on_unused_input = Ignore\<rparr>"
    by blast
  with c t e gp show ?thesis by (simp add: training_inputs_def)
qed

subsection \<open>Snapshots\<close>

lemma npz_name_workspace_path: "npz_name (workspace_path dir name) = workspace_path dir name"
  by (simp add: npz_name_def workspace_path_def)

lemma pull_params_map_of:
  "pull_params st ks ps = Inr ps' \<Longrightarrow>
     map_of ps' k = (if k \<in> set ks then st (VParam k) else map_of ps k)"
proof (induction ks arbitrary: ps)
  case Nil
  then show ?case by simp
next
  case (Cons k0 ks)
  then show ?case
    by (auto simp: od_set_def update_conv' split: option.splits)
qed

lemma pull_params_allocated:
  "pull_params st ks ps = Inr ps' \<Longrightarrow> k \<in> set ks \<Longrightarrow> st (VParam k) \<noteq> None"
  by (induction ks arbitrary: ps) (auto split: option.splits)

lemma push_params_ok:
  "\<forall>k \<in> set ks. map_of loaded k \<noteq> None \<Longrightarrow>
     push_params loaded ks st
       = (Inr (), \<lambda>v. case v of VParam k \<Rightarrow> if k \<in> set ks then map_of loaded k else st v
                              | _ \<Rightarrow> st v)"
proof (induction ks arbitrary: st)
  case Nil
  then show ?case by (auto simp: fun_eq_iff split: vref.splits)
next
  case (Cons k0 ks)
  then show ?case
    by (auto simp: od_get_def fun_eq_iff split: vref.splits option.splits)
qed

text \<open>
  C8.  If \<^verbatim>\<open>save_v_params_to_workspace(name)\<close> succeeds, then a later
  \<^verbatim>\<open>load_v_params_from_workspace(name)\<close>, whatever the shared variables hold by then and as
  long as the snapshot file is still the one written, succeeds and leaves every parameter
  variable with exactly the value it had when the snapshot was taken; no other shared
  variable is changed by the load.
\<close>

theorem workspace_round_trip:
  assumes saved: "save_v_params_to_workspace n st w name = (Inr n', w')"
      and dir: "save_to n = Some dir"
      and kept: "files w2 (workspace_path dir name) = files w' (workspace_path dir name)"
  shows "\<exists>st3 w3. load_v_params_from_workspace n' st2 w2 name = (Inr (), st3, w3)
                \<and> (\<forall>k \<in> set (v_params n). st3 (VParam k) = st (VParam k))
                \<and> (\<forall>v. v \<notin> VParam ` set (v_params n) \<longrightarrow> st3 v = st2 v)"
proof -
  from saved dir obtain ps where tr: "is_training n"
    and pull: "pull_params st (v_params n) (params n) = Inr ps"
    and sv: "np_savez w (workspace_path dir name) ps = (Inr (), w')"
    and n': "n' = n\<lparr>params := ps\<rparr>"
    by (auto simp: save_v_params_to_workspace_def split: if_splits sum.splits prod.splits)
  from sv have "files w' (workspace_path dir name) = Some (ParamsNpz ps)"
    by (auto simp: np_savez_def npz_name_workspace_path logged_def split: if_splits)
  with kept have f2: "files w2 (workspace_path dir name) = Some (ParamsNpz ps)" by simp
  have all: "\<forall>k \<in> set (v_params n). map_of ps k \<noteq> None"
    using pull_params_map_of [OF pull] pull_params_allocated [OF pull] by auto
  have "load_v_params_from_workspace n' st2 w2 name
          = (Inr (), (\<lambda>v. case v of VParam k \<Rightarrow> if k \<in> set (v_params n) then map_of ps k else st2 v
                                   | _ \<Rightarrow> st2 v),
             logged (OpenRead (workspace_path dir name)) w2)"
    using tr dir f2 push_params_ok [OF all, of st2]
    by (simp add: load_v_params_from_workspace_def n' np_load_def)
  moreover have "\<forall>k \<in> set (v_params n). map_of ps k = st (VParam k)"
    using pull_params_map_of [OF pull] by auto
  ultimately show ?thesis
    by (auto split: vref.splits)
qed

theorem workspace_round_trip_witness:
  "\<exists>n' w' st3 w3.
      save_v_params_to_workspace demo_net demo_store demo_world_after None = (Inr n', w')
    \<and> save_to demo_net = Some ''ws''
    \<and> load_v_params_from_workspace n'
         (demo_store(VParam ''GRU_0_W'' \<mapsto> Arr [Arr [Flt 9, Flt 9]])) w' None
        = (Inr (), st3, w3)
    \<and> st3 (VParam ''GRU_0_W'') = Some (Arr [Arr [Flt 3, Flt 4]])
    \<and> st3 (VParam ''GRU_0_init'') = Some (Arr [Flt 5, Flt 7])
    \<and> st3 (VParam ''FC_output_W'') = Some (Arr [Arr [Flt 1, Flt 2]])"
proof -
  obtain n' w' where
    saved: "save_v_params_to_workspace demo_net demo_store demo_world_after None = (Inr n', w')"
    by (simp add: save_v_params_to_workspace_def demo_net_def demo_store_def
          demo_world_after_def od_set_def np_savez_def od_in_def npz_name_def workspace_path_def
          default_name_def)
  have dir: "save_to demo_net = Some ''ws''" by (simp add: demo_net_def)
  from workspace_round_trip [OF saved dir refl,
         of "demo_store(VParam ''GRU_0_W'' \<mapsto> Arr [Arr [Flt 9, Flt 9]])"]
  obtain st3 w3 where
    l: "load_v_params_from_workspace n'
          (demo_store(VParam ''GRU_0_W'' \<mapsto> Arr [Arr [Flt 9, Flt 9]])) w' None = (Inr (), st3, w3)"
    and v: "\<forall>k \<in> set (v_params demo_net). st3 (VParam k) = demo_store (VParam k)"
    by blast
  from v have "st3 (VParam ''GRU_0_W'') = Some (Arr [Arr [Flt 3, Flt 4]])
    \<and> st3 (VParam ''GRU_0_init'') = Some (Arr [Flt 5, Flt 7])
    \<and> st3 (VParam ''FC_output_W'') = Some (Arr [Arr [Flt 1, Flt 2]])"
    by (simp add: demo_net_def demo_store_def)
  with saved dir l show ?thesis by blast
qed

subsection \<open>Calls that only update shared variables\<close>

lemma write_all_distinct:
  "distinct (map fst ws) \<Longrightarrow> write_all st ws = st ++ map_of ws"
proof (induction ws arbitrary: st)
  case Nil
  then show ?case by simp
next
  case (Cons p ws)
  obtain v x where p: "p = (v, x)" by (cases p)
  from Cons.prems p have "v \<notin> dom (map_of ws)" and "distinct (map fst ws)"
    by (auto simp: dom_map_of_conv_image_fst)
  then have "write_all (st(v \<mapsto> x)) ws = st(v \<mapsto> x) ++ map_of ws"
    by (intro Cons.IH)
  also have "\<dots> = st ++ map_of ((v, x) # ws)"
    using \<open>v \<notin> dom (map_of ws)\<close>
    by (auto simp: fun_eq_iff map_add_def split: option.splits)
  finally show ?case unfolding p by (simp only: write_all.simps)
qed

lemma those_map_Some:
  "(\<And>x. x \<in> set xs \<Longrightarrow> f x = Some (g x)) \<Longrightarrow> those (map f xs) = Some (map g xs)"
  by (induction xs) auto

lemma th_function_no_ports:
  assumes "\<forall>u \<in> set ups. sports (snd u) = []" and "distinct (map fst ups)"
  shows "th_function [] [] ups Raise
           = Inr \<lparr>f_inputs = [], f_outputs = [], f_updates = ups, on_unused_input = Raise\<rparr>"
proof -
  from assms(1) have "graph_ports [] ups = []"
    by (induction ups) (auto simp: graph_ports_def)
  with assms(2) show ?thesis by (simp add: th_function_def)
qed

lemma call_updates_only:
  assumes "\<And>u. u \<in> set ups \<Longrightarrow> eval S st (\<lambda>p. None) (snd u) = Some (val u)"
      and "distinct (map fst ups)"
  shows "call S \<lparr>f_inputs = [], f_outputs = [], f_updates = ups, on_unused_input = pol\<rparr> st args
           = Inr ([], st ++ map_of (map (\<lambda>u. (fst u, val u)) ups))"
proof -
  have "those (map (\<lambda>(v, e). map_option (Pair v) (eval S st (\<lambda>p. None) e)) ups)
          = Some (map (\<lambda>u. (fst u, val u)) ups)"
    by (rule those_map_Some) (auto simp: assms(1) split: prod.splits dest: assms(1))
  moreover have "distinct (map fst (map (\<lambda>u. (fst u, val u)) ups))"
    using assms(2) by (simp add: comp_def)
  ultimately show ?thesis
    by (simp add: call_def write_all_distinct)
qed

lemma tile_updates_ok:
  assumes "od_get opts ''batch_size'' = Inr (PInt b)" and "\<forall>k \<in> set vs. to_init k \<in> set vp"
  shows "tile_updates opts vp vs
           = Inr (map (\<lambda>k. (VPrev k, STileRows (SShared (VParam (to_init k))) b)) vs)"
  using assms by (induction vs) (auto simp: tile_reps_def)

lemma tile_rows_vector: "0 \<le> b \<Longrightarrow> is_vector x \<Longrightarrow> tile_rows x b = Some (Arr (replicate (nat b) x))"
  by (cases x) (auto simp: tile_rows_def)

lemma tile_rows_defined:
  "0 \<le> b \<Longrightarrow> is_vector x \<or> is_matrix x \<Longrightarrow> tile_rows x b \<noteq> None"
  by (cases x) (auto simp: tile_rows_def)

lemma store_after_updates:
  "(st ++ map_of (map (\<lambda>k. (VPrev k, g k)) ks)) (VPrev k)
     = (if k \<in> set ks then Some (g k) else st (VPrev k))"
  "v \<notin> VPrev ` set ks \<Longrightarrow> (st ++ map_of (map (\<lambda>k. (VPrev k, g k)) ks)) v = st v"
  by (induction ks) (auto simp: map_add_def)

lemma map_of_map_key:
  "inj mk \<Longrightarrow> map_of (map (\<lambda>k. (mk k, g k)) ks) (mk k) = (if k \<in> set ks then Some (g k) else None)"
  by (induction ks) (auto dest: injD)

lemma map_of_map_other:
  "v \<notin> mk ` set ks \<Longrightarrow> map_of (map (\<lambda>k. (mk k, g k)) ks) v = None"
  by (induction ks) auto

text \<open>
  C1.  Take a network whose previous-state variables are allocated (their keys distinct,
  as the keys of a dictionary are).  If \<^verbatim>\<open>learn_init_states\<close> is false,
  \<^verbatim>\<open>compile_f_initialize_states\<close> compiles, and calling the function sets every
  previous-state variable to the all-zero tensor of its shape.  If the option is true, the
  batch size is a non-negative Python int and every previous state \<open>k\<close> has its parameter
  \<^verbatim>\<open>k[:-4] + 'init'\<close> (a vector or a matrix), the function compiles, and calling it sets
  every previous-state variable to that parameter tiled \<^verbatim>\<open>batch_size\<close> times along a new
  first axis: for a vector parameter, \<^verbatim>\<open>batch_size\<close> rows that are each the parameter.
  In both cases every shared variable that is not a previous state keeps its value.
\<close>

theorem initialize_states_resets:
  assumes dis: "distinct (v_prev_states n)"
      and flag: "od_get (cfg_options n) ''learn_init_states'' = Inr flag"
      and alloc: "\<forall>k \<in> set (v_prev_states n). st (VPrev k) \<noteq> None"
  shows "(\<not> truthy flag \<longrightarrow>
            (\<exists>f st'. compile_f_initialize_states n = Inr f
                   \<and> call S f st args = Inr ([], st')
                   \<and> (\<forall>k \<in> set (v_prev_states n).
                         st' (VPrev k) = map_option zeros_like (st (VPrev k)))
                   \<and> (\<forall>v. v \<notin> VPrev ` set (v_prev_states n) \<longrightarrow> st' v = st v)))
       \<and> (truthy flag \<and> od_get (cfg_options n) ''batch_size'' = Inr (PInt b) \<and> 0 \<le> b
            \<and> (\<forall>k \<in> set (v_prev_states n). to_init k \<in> set (v_params n)
                   \<and> (\<exists>x. st (VParam (to_init k)) = Some x \<and> (is_vector x \<or> is_matrix x))) \<longrightarrow>
            (\<exists>f st'. compile_f_initialize_states n = Inr f
                   \<and> call S f st args = Inr ([], st')
                   \<and> (\<forall>k \<in> set (v_prev_states n). \<forall>x. st (VParam (to_init k)) = Some x \<longrightarrow>
                         st' (VPrev k) = tile_rows x b
                       \<and> (is_vector x \<longrightarrow> st' (VPrev k) = Some (Arr (replicate (nat b) x))))
                   \<and> (\<forall>v. v \<notin> VPrev ` set (v_prev_states n) \<longrightarrow> st' v = st v)))"
proof (intro conjI impI)
  assume nf: "\<not> truthy flag"
  let ?ups = "zero_updates (v_prev_states n)"
  let ?f = "\<lparr>f_inputs = [], f_outputs = [], f_updates = ?ups, on_unused_input = Raise\<rparr>"
  have d: "distinct (map fst ?ups)"
    using dis by (simp add: zero_updates_def comp_def distinct_map inj_on_def)
  have c: "compile_f_initialize_states n = Inr ?f"
    using flag nf d
    by (simp add: compile_f_initialize_states_def th_function_no_ports zero_updates_def)
  have ev: "\<And>u. u \<in> set ?ups \<Longrightarrow>
              eval S st (\<lambda>p. None) (snd u) = Some (zeros_like (the (st (fst u))))"
    using alloc by (auto simp: zero_updates_def)
  have r: "call S ?f st args
             = Inr ([], st ++ map_of (map (\<lambda>u. (fst u, zeros_like (the (st (fst u))))) ?ups))"
    by (rule call_updates_only [OF ev d])
  have m: "map (\<lambda>u. (fst u, zeros_like (the (st (fst u))))) ?ups
             = map (\<lambda>k. (VPrev k, zeros_like (the (st (VPrev k))))) (v_prev_states n)"
    by (simp add: zero_updates_def comp_def)
  have inj: "inj VPrev" by (simp add: inj_def)
  let ?st' = "st ++ map_of (map (\<lambda>k. (VPrev k, zeros_like (the (st (VPrev k))))) (v_prev_states n))"
  have "call S ?f st args = Inr ([], ?st')"
    using r unfolding m .
  moreover have "\<forall>k \<in> set (v_prev_states n). ?st' (VPrev k) = map_option zeros_like (st (VPrev k))"
    using alloc by (auto simp: store_after_updates(1))
  moreover have "\<forall>v. v \<notin> VPrev ` set (v_prev_states n) \<longrightarrow> ?st' v = st v"
    by (simp add: store_after_updates(2))
  ultimately show "\<exists>f st'. compile_f_initialize_states n = Inr f
                   \<and> call S f st args = Inr ([], st')
                   \<and> (\<forall>k \<in> set (v_prev_states n).
                         st' (VPrev k) = map_option zeros_like (st (VPrev k)))
                   \<and> (\<forall>v. v \<notin> VPrev ` set (v_prev_states n) \<longrightarrow> st' v = st v)"
    using c by blast
next
  assume h: "truthy flag \<and> od_get (cfg_options n) ''batch_size'' = Inr (PInt b) \<and> 0 \<le> b
            \<and> (\<forall>k \<in> set (v_prev_states n). to_init k \<in> set (v_params n)
                   \<and> (\<exists>x. st (VParam (to_init k)) = Some x \<and> (is_vector x \<or> is_matrix x)))"
  let ?ups = "map (\<lambda>k. (VPrev k, STileRows (SShared (VParam (to_init k))) b)) (v_prev_states n)"
  let ?f = "\<lparr>f_inputs = [], f_outputs = [], f_updates = ?ups, on_unused_input = Raise\<rparr>"
  let ?val = "\<lambda>k. the (tile_rows (the (st (VParam (to_init k)))) b)"
  have d: "distinct (map fst ?ups)"
    using dis by (simp add: comp_def distinct_map inj_on_def)
  have tu: "tile_updates (cfg_options n) (v_params n) (v_prev_states n) = Inr ?ups"
    using h by (intro tile_updates_ok) auto
  have c: "compile_f_initialize_states n = Inr ?f"
    using flag h d tu
    by (simp add: compile_f_initialize_states_def th_function_no_ports)
  have ev: "\<And>u. u \<in> set ?ups \<Longrightarrow>
              eval S st (\<lambda>p. None) (snd u)
                = Some (the (tile_rows (the (st (VParam (to_init (case fst u of VPrev k \<Rightarrow> k))))) b))"
    using h tile_rows_defined [of b] by fastforce
  have r: "call S ?f st args
             = Inr ([], st ++ map_of (map (\<lambda>u. (fst u,
                 the (tile_rows (the (st (VParam (to_init (case fst u of VPrev k \<Rightarrow> k))))) b))) ?ups))"
    by (rule call_updates_only [OF ev d])
  have m: "map (\<lambda>u. (fst u,
             the (tile_rows (the (st (VParam (to_init (case fst u of VPrev k \<Rightarrow> k))))) b))) ?ups
             = map (\<lambda>k. (VPrev k, ?val k)) (v_prev_states n)"
    by (simp add: comp_def)
  have inj: "inj VPrev" by (simp add: inj_def)
  have v: "\<forall>k \<in> set (v_prev_states n). \<forall>x. st (VParam (to_init k)) = Some x \<longrightarrow>
             Some (?val k) = tile_rows x b
           \<and> (is_vector x \<longrightarrow> Some (?val k) = Some (Arr (replicate (nat b) x)))"
  proof (intro ballI allI impI)
    fix k x assume k: "k \<in> set (v_prev_states n)" and x: "st (VParam (to_init k)) = Some x"
    from h k x have "is_vector x \<or> is_matrix x" by auto
    with h have "tile_rows x b \<noteq> None" by (intro tile_rows_defined) auto
    then have "Some (the (tile_rows x b)) = tile_rows x b" by auto
    moreover have "is_vector x \<longrightarrow> tile_rows x b = Some (Arr (replicate (nat b) x))"
      using h by (simp add: tile_rows_vector)
    ultimately show "Some (?val k) = tile_rows x b
           \<and> (is_vector x \<longrightarrow> Some (?val k) = Some (Arr (replicate (nat b) x)))"
      using x by simp
  qed
  let ?st' = "st ++ map_of (map (\<lambda>k. (VPrev k, ?val k)) (v_prev_states n))"
  have "call S ?f st args = Inr ([], ?st')"
    using r unfolding m .
  moreover have "\<forall>k \<in> set (v_prev_states n). \<forall>x. st (VParam (to_init k)) = Some x \<longrightarrow>
                         ?st' (VPrev k) = tile_rows x b
                       \<and> (is_vector x \<longrightarrow> ?st' (VPrev k) = Some (Arr (replicate (nat b) x)))"
    using v by (simp add: store_after_updates(1))
  moreover have "\<forall>v. v \<notin> VPrev ` set (v_prev_states n) \<longrightarrow> ?st' v = st v"
    by (simp add: store_after_updates(2))
  ultimately show "\<exists>f st'. compile_f_initialize_states n = Inr f
                   \<and> call S f st args = Inr ([], st')
                   \<and> (\<forall>k \<in> set (v_prev_states n). \<forall>x. st (VParam (to_init k)) = Some x \<longrightarrow>
                         st' (VPrev k) = tile_rows x b
                       \<and> (is_vector x \<longrightarrow> st' (VPrev k) = Some (Arr (replicate (nat b) x))))
                   \<and> (\<forall>v. v \<notin> VPrev ` set (v_prev_states n) \<longrightarrow> st' v = st v)"
    using c by blast
qed

theorem initialize_states_resets_witness:
  "distinct (v_prev_states demo_net)
   \<and> od_get (cfg_options demo_net) ''learn_init_states'' = Inr (PBool True)
   \<and> truthy (PBool True)
   \<and> od_get (cfg_options demo_net) ''batch_size'' = Inr (PInt 2)
   \<and> to_init ''GRU_0_prev'' = ''GRU_0_init''
   \<and> (\<exists>f st'. compile_f_initialize_states demo_net = Inr f
          \<and> call demo_sem f (demo_store(VPrev ''GRU_0_prev'' \<mapsto> Arr [Arr [Flt 1, Flt 2], Arr [Flt 3, Flt 4]]))
               (\<lambda>_. None) = Inr ([], st')
          \<and> st' (VPrev ''GRU_0_prev'') = Some (Arr [Arr [Flt 5, Flt 7], Arr [Flt 5, Flt 7]])
          \<and> st' (VParam ''GRU_0_init'') = Some (Arr [Flt 5, Flt 7])
          \<and> st' (VGrad ''GRU_0_W'') = demo_store (VGrad ''GRU_0_W''))
   \<and> od_get (cfg_options (demo_net\<lparr>cfg_options := AList.update ''learn_init_states'' (PBool False) demo_opts\<rparr>))
        ''learn_init_states'' = Inr (PBool False)
   \<and> (\<exists>f st'. compile_f_initialize_states
                 (demo_net\<lparr>cfg_options := AList.update ''learn_init_states'' (PBool False) demo_opts\<rparr>)
               = Inr f
          \<and> call demo_sem f (demo_store(VPrev ''GRU_0_prev'' \<mapsto> Arr [Arr [Flt 1, Flt 2], Arr [Flt 3, Flt 4]]))
               (\<lambda>_. None) = Inr ([], st')
          \<and> st' (VPrev ''GRU_0_prev'') = Some (Arr [Arr [Flt 0, Flt 0], Arr [Flt 0, Flt 0]])
          \<and> st' (VParam ''GRU_0_init'') = Some (Arr [Flt 5, Flt 7]))"
proof -
  let ?st = "demo_store(VPrev ''GRU_0_prev'' \<mapsto> Arr [Arr [Flt 1, Flt 2], Arr [Flt 3, Flt 4]])"
  let ?n0 = "demo_net\<lparr>cfg_options := AList.update ''learn_init_states'' (PBool False) demo_opts\<rparr>"
  have dis: "distinct (v_prev_states demo_net)" "distinct (v_prev_states ?n0)"
    by (simp_all add: demo_net_def)
  have fl: "od_get (cfg_options demo_net) ''learn_init_states'' = Inr (PBool True)"
    and fl0: "od_get (cfg_options ?n0) ''learn_init_states'' = Inr (PBool False)"
    and bs: "od_get (cfg_options demo_net) ''batch_size'' = Inr (PInt 2)"
    by (simp_all add: demo_net_def demo_opts_def od_get_def)
  have ti: "to_init ''GRU_0_prev'' = ''GRU_0_init''" by (simp add: to_init_def)
  have al: "\<forall>k \<in> set (v_prev_states demo_net). ?st (VPrev k) \<noteq> None"
    and al0: "\<forall>k \<in> set (v_prev_states ?n0). ?st (VPrev k) \<noteq> None"
    by (simp_all add: demo_net_def)
  have pre: "truthy (PBool True) \<and> od_get (cfg_options demo_net) ''batch_size'' = Inr (PInt 2) \<and> (0::int) \<le> 2
            \<and> (\<forall>k \<in> set (v_prev_states demo_net). to_init k \<in> set (v_params demo_net)
                   \<and> (\<exists>x. ?st (VParam (to_init k)) = Some x \<and> (is_vector x \<or> is_matrix x)))"
    using bs by (simp add: demo_net_def demo_store_def ti)
  from initialize_states_resets [OF dis(1) fl al, where b = 2 and S = demo_sem and args = "\<lambda>_. None"] pre
  obtain f st' where a: "compile_f_initialize_states demo_net = Inr f"
    "call demo_sem f ?st (\<lambda>_. None) = Inr ([], st')"
    "\<forall>k \<in> set (v_prev_states demo_net). \<forall>x. ?st (VParam (to_init k)) = Some x \<longrightarrow>
        st' (VPrev k) = tile_rows x 2
      \<and> (is_vector x \<longrightarrow> st' (VPrev k) = Some (Arr (replicate (nat 2) x)))"
    "\<forall>v. v \<notin> VPrev ` set (v_prev_states demo_net) \<longrightarrow> st' v = ?st v"
    by blast
  from a(3) have a3: "st' (VPrev ''GRU_0_prev'') = Some (Arr [Arr [Flt 5, Flt 7], Arr [Flt 5, Flt 7]])"
    by (simp add: demo_net_def demo_store_def ti numeral_2_eq_2 tile_rows_def)
  from a(4) have a4: "st' (VParam ''GRU_0_init'') = Some (Arr [Flt 5, Flt 7])"
    "st' (VGrad ''GRU_0_W'') = demo_store (VGrad ''GRU_0_W'')"
    by (auto simp: demo_net_def demo_store_def)
  have nt: "\<not> truthy (PBool False)" by simp
  from initialize_states_resets [OF dis(2) fl0 al0, where b = 0 and S = demo_sem and args = "\<lambda>_. None"] nt
  obtain f0 st0' where b: "compile_f_initialize_states ?n0 = Inr f0"
    "call demo_sem f0 ?st (\<lambda>_. None) = Inr ([], st0')"
    "\<forall>k \<in> set (v_prev_states ?n0). st0' (VPrev k) = map_option zeros_like (?st (VPrev k))"
    "\<forall>v. v \<notin> VPrev ` set (v_prev_states ?n0) \<longrightarrow> st0' v = ?st v"
    by blast
  from b(3) have b3: "st0' (VPrev ''GRU_0_prev'') = Some (Arr [Arr [Flt 0, Flt 0], Arr [Flt 0, Flt 0]])"
    by (simp add: demo_net_def)
  from b(4) have b4: "st0' (VParam ''GRU_0_init'') = Some (Arr [Flt 5, Flt 7])"
    by (auto simp: demo_net_def demo_store_def)
  from dis fl fl0 bs ti a(1,2) a3 a4 b(1,2) b3 b4 show ?thesis
    by (intro conjI exI [of _ f] exI [of _ st'] exI [of _ f0] exI [of _ st0']) simp_all
qed

section \<open>Claims about the training graph\<close>

subsection \<open>What a call writes\<close>

lemma eval_cong_store:
  assumes local: "\<And>e v st st' inp. (\<forall>u \<in> set (svars e). st u = st' u)
                     \<Longrightarrow> grad_op S e v st inp = grad_op S e v st' inp"
  shows "(\<forall>u \<in> set (svars e). st u = st' u) \<Longrightarrow> eval S st inp e = eval S st' inp e"
proof (induction e)
  case (SGrad e v)
  then show ?case using local [of e st st' v inp] by simp
next
  case (SExt f es)
  have "map (eval S st inp) es = map (eval S st' inp) es"
    using SExt by (intro map_cong) auto
  then show ?case by (simp only: eval.simps)
qed auto

lemma those_map_SomeD:
  "those (map f xs) = Some ys \<Longrightarrow> ys = map (the \<circ> f) xs \<and> (\<forall>x \<in> set xs. f x \<noteq> None)"
  by (induction xs arbitrary: ys) (auto split: option.splits)

lemma call_InrD:
  assumes "call S f st args = Inr (outs, st')" and "distinct (map fst (f_updates f))"
  shows "\<forall>u \<in> set (f_updates f).
           st' (fst u) = eval S st (\<lambda>p. if p \<in> set (f_inputs f) then args p else None) (snd u)
         \<and> st' (fst u) \<noteq> None"
    and "\<forall>v. v \<notin> fst ` set (f_updates f) \<longrightarrow> st' v = st v"
proof -
  let ?inp = "\<lambda>p. if p \<in> set (f_inputs f) then args p else None"
  let ?h = "\<lambda>(v, e). map_option (Pair v) (eval S st ?inp e)"
  from assms(1) obtain ws where ws: "those (map ?h (f_updates f)) = Some ws"
    and st': "st' = write_all st ws"
    by (auto simp: call_def Let_def split: if_splits option.splits)
  from those_map_SomeD [OF ws] have wsm: "ws = map (the \<circ> ?h) (f_updates f)"
    and def: "\<forall>x \<in> set (f_updates f). ?h x \<noteq> None" by simp_all
  have fst_ws: "map fst ws = map fst (f_updates f)"
    unfolding wsm using def by (fastforce split: prod.splits)
  with assms(2) have d: "distinct (map fst ws)" by simp
  have st'': "st' = st ++ map_of ws" using st' write_all_distinct [OF d] by simp
  show "\<forall>u \<in> set (f_updates f). st' (fst u) = eval S st ?inp (snd u) \<and> st' (fst u) \<noteq> None"
  proof
    fix u assume u: "u \<in> set (f_updates f)"
    obtain v e where ve: "u = (v, e)" by (cases u)
    from def u ve obtain x where x: "eval S st ?inp e = Some x" by auto
    with u ve have "(v, x) \<in> set ws" unfolding wsm by force
    with d have "map_of ws v = Some x" by simp
    with x ve show "st' (fst u) = eval S st ?inp (snd u) \<and> st' (fst u) \<noteq> None"
      by (simp add: st'' map_add_def)
  qed
  show "\<forall>v. v \<notin> fst ` set (f_updates f) \<longrightarrow> st' v = st v"
  proof (intro allI impI)
    fix v assume "v \<notin> fst ` set (f_updates f)"
    with fst_ws have "v \<notin> fst ` set ws" by (metis set_map)
    then have "map_of ws v = None" by (simp add: map_of_eq_None_iff)
    then show "st' v = st v" by (simp add: st'' map_add_def)
  qed
qed

lemma setup_grad_updates_graph_InrD:
  assumes "setup_grad_updates_graph opts s_loss (map mk ks) (map mg ks) = Inr gu"
  shows "gu = map (\<lambda>k. (mg k, case map_of opts ''grad_norm_clip'' of
                                  None \<Rightarrow> SGrad s_loss (mk k)
                                | Some c \<Rightarrow> SClipNorm (SGrad s_loss (mk k)) c)) ks"
    and "\<forall>k \<in> set ks. mk k \<in> set (svars s_loss)"
  using assms
  by (auto simp: setup_grad_updates_graph_def Let_def zip_map_map map_idI split: option.splits if_splits
           intro!: nth_equalityI)

lemma propagate_fn_InrD:
  "propagate_fn opts ins nm out ups = Inr f \<Longrightarrow>
     f_inputs f = ins \<and> f_updates f = ups \<and> distinct (map fst ups) \<and> (\<exists>e. out = Some e \<and> f_outputs f = [e])"
  by (auto simp: propagate_fn_def attr_def split: option.splits sum.splits dest: th_function_InrD)

lemma demo_fwd_bwd_compiles:
  "compile_f_fwd_bwd_propagate demo_net
     = Inr \<lparr>f_inputs = training_inputs, f_outputs = [demo_loss],
            f_updates = grad_updates demo_net @ prev_state_updates demo_net,
            on_unused_input = Ignore\<rparr>"
  by (simp add: compile_f_fwd_bwd_propagate_def propagate_fn_def attr_def
        unused_input_policy_def od_get_def th_function_def graph_ports_def training_inputs_def
        demo_net_def demo_opts_def demo_loss_def demo_output_def)

lemma demo_call_fwd_bwd:
  assumes "st (VParam ''GRU_0_W'') = Some a" and "st (VParam ''FC_output_W'') = Some b"
      and "st (VPrev ''GRU_0_prev'') = Some c"
  shows "call demo_sem
           \<lparr>f_inputs = training_inputs, f_outputs = [demo_loss],
            f_updates = grad_updates demo_net @ prev_state_updates demo_net,
            on_unused_input = Ignore\<rparr> st (demo_args 0)
         = Inr ([Flt (1 / 2)],
                st(VGrad ''GRU_0_W'' \<mapsto> a, VGrad ''FC_output_W'' \<mapsto> b,
                   VPrev ''GRU_0_prev'' \<mapsto> Arr [Arr [Arr [Flt 1]], Arr [Arr [Flt 0]]]))"
  using assms
  by (simp add: call_def training_inputs_def demo_args_def demo_net_def demo_loss_def
        demo_output_def demo_sem_def those2_def slice_from_def slice_start_def
        mean_squared_error_def)

text \<open>
  C3.  Take a network constructed in training mode, a backend whose gradients depend only
  on the shared variables the differentiated expression is connected to, and a loss that
  is not connected to the gradient accumulators.  The accumulators are the variables
  created for the parameters whose names do not end in \<open>init\<close>.  A call of the function
  compiled by \<^verbatim>\<open>compile_f_fwd_bwd_propagate\<close> leaves in the accumulator of each such parameter
  the gradient of the loss with respect to that parameter, clipped if \<^verbatim>\<open>grad_norm_clip\<close> is
  set, evaluated at the store before the call and the inputs of the call.  Two calls with
  the same inputs from stores that differ only in the accumulators leave the same values
  in the accumulators: nothing is added to what an accumulator held.
\<close>

theorem fwd_bwd_overwrites_gradients:
  assumes init: "Net_init X w opts (Some s) lf = (Inr (n, st0), w')"
      and local: "\<And>e v st st' inp. (\<forall>u \<in> set (svars e). st u = st' u)
                     \<Longrightarrow> grad_op S e v st inp = grad_op S e v st' inp"
      and noacc: "\<forall>s_loss. port_o_loss n = Some s_loss \<longrightarrow> set (svars s_loss) \<inter> set (v_grads n) = {}"
      and cf: "compile_f_fwd_bwd_propagate n = Inr f"
      and c1: "call S f st1 args = Inr (o1, st1')"
      and c2: "call S f st2 args = Inr (o2, st2')"
      and agree: "\<forall>v. v \<notin> set (v_grads n) \<longrightarrow> st1 v = st2 v"
  shows "v_grads n = map VGrad (filter (\<lambda>k. last4 k \<noteq> ''init'') (v_params n))
       \<and> (\<forall>g \<in> set (v_grads n). st1' g = st2' g)
       \<and> (\<exists>s_loss. port_o_loss n = Some s_loss
            \<and> (\<forall>k \<in> set (v_params n). last4 k \<noteq> ''init'' \<longrightarrow>
                  st1' (VGrad k)
                    = eval S st1 (\<lambda>p. if p \<in> set training_inputs then args p else None)
                        (case map_of (cfg_options n) ''grad_norm_clip'' of
                           None \<Rightarrow> SGrad s_loss (VParam k)
                         | Some c \<Rightarrow> SClipNorm (SGrad s_loss (VParam k)) c)))"
proof -
  from Net_init_training_wiring [OF init] obtain s_output where
    wo: "v_params_wo_init n = filter (\<lambda>k. last4 k \<noteq> ''init'') (v_params n)" and
    vg: "v_grads n = map VGrad (v_params_wo_init n)" and
    loss: "port_o_loss n = Some (setup_loss_graph s_output (SPort port_i_target)
                                  (SPort port_i_loss_tap))" and
    gu: "setup_grad_updates_graph (cfg_options n)
           (setup_loss_graph s_output (SPort port_i_target) (SPort port_i_loss_tap))
           (map VParam (v_params_wo_init n)) (v_grads n) = Inr (grad_updates n)" and
    tr: "is_training n"
    by blast
  let ?loss = "setup_loss_graph s_output (SPort port_i_target) (SPort port_i_loss_tap)"
  let ?E = "\<lambda>k. case map_of (cfg_options n) ''grad_norm_clip'' of
                   None \<Rightarrow> SGrad ?loss (VParam k)
                 | Some c \<Rightarrow> SClipNorm (SGrad ?loss (VParam k)) c"
  let ?inp = "\<lambda>p. if p \<in> set training_inputs then args p else None"
  from gu have gu': "grad_updates n = map (\<lambda>k. (VGrad k, ?E k)) (v_params_wo_init n)"
    unfolding vg by (rule setup_grad_updates_graph_InrD(1))
  from cf tr have pf: "propagate_fn (cfg_options n) training_inputs ''_port_o_loss'' (port_o_loss n)
                         (grad_updates n @ prev_state_updates n) = Inr f"
    by (simp add: compile_f_fwd_bwd_propagate_def)
  from propagate_fn_InrD [OF pf] have fi: "f_inputs f = training_inputs"
    and fu: "f_updates f = grad_updates n @ prev_state_updates n"
    and d: "distinct (map fst (f_updates f))" by simp_all
  have val: "st' (VGrad k) = eval S st ?inp (?E k)"
    if "call S f st args = Inr (outs, st')" and "k \<in> set (v_params_wo_init n)" for st st' outs k
  proof -
    from that(2) have "(VGrad k, ?E k) \<in> set (f_updates f)"
      unfolding fu gu' by auto
    with call_InrD(1) [OF that(1) d] show ?thesis
      unfolding fi by fastforce
  qed
  have sv: "svars (?E k) = svars ?loss" for k
    by (simp split: option.splits)
  have same: "eval S st1 ?inp (?E k) = eval S st2 ?inp (?E k)" for k
  proof (rule eval_cong_store [OF local])
    show "\<forall>u \<in> set (svars (?E k)). st1 u = st2 u"
      unfolding sv using noacc loss agree by auto
  qed
  have "\<forall>g \<in> set (v_grads n). st1' g = st2' g"
    unfolding vg using val [OF c1] val [OF c2] same by auto
  moreover have "\<forall>k \<in> set (v_params n). last4 k \<noteq> ''init'' \<longrightarrow> st1' (VGrad k) = eval S st1 ?inp (?E k)"
    using val [OF c1] unfolding wo by auto
  ultimately show ?thesis
    using vg wo loss by auto
qed

theorem fwd_bwd_overwrites_gradients_witness:
  "\<exists>f o1 st1' o2 st2'.
      Net_init demo_ext demo_world (Some demo_opts) (Some ''ws'') None
        = (Inr (demo_net, demo_store), demo_world_after)
    \<and> port_o_loss demo_net = Some demo_loss
    \<and> set (svars demo_loss) \<inter> set (v_grads demo_net) = {}
    \<and> compile_f_fwd_bwd_propagate demo_net = Inr f
    \<and> call demo_sem f demo_store (demo_args 0) = Inr (o1, st1')
    \<and> call demo_sem f (demo_store(VGrad ''GRU_0_W'' \<mapsto> Arr [Arr [Flt 9, Flt 9]])) (demo_args 0)
        = Inr (o2, st2')
    \<and> (\<forall>g \<in> set (v_grads demo_net). st1' g = st2' g)
    \<and> st2' (VGrad ''GRU_0_W'') = Some (Arr [Arr [Flt 3, Flt 4]])"
proof -
  let ?st2 = "demo_store(VGrad ''GRU_0_W'' \<mapsto> Arr [Arr [Flt 9, Flt 9]])"
  let ?f = "\<lparr>f_inputs = training_inputs, f_outputs = [demo_loss],
             f_updates = grad_updates demo_net @ prev_state_updates demo_net,
             on_unused_input = Ignore\<rparr>"
  have local: "\<And>e v st st' inp. (\<forall>u \<in> set (svars e). st u = st' u)
                 \<Longrightarrow> grad_op demo_sem e v st inp = grad_op demo_sem e v st' inp"
    by (simp add: demo_sem_def)
  have pl: "port_o_loss demo_net = Some demo_loss" by (simp add: demo_net_def)
  have na: "set (svars demo_loss) \<inter> set (v_grads demo_net) = {}"
    by (simp add: demo_net_def demo_loss_def demo_output_def)
  from pl na have noacc: "\<forall>s_loss. port_o_loss demo_net = Some s_loss
                            \<longrightarrow> set (svars s_loss) \<inter> set (v_grads demo_net) = {}"
    by simp
  obtain o1 st1' where c1: "call demo_sem ?f demo_store (demo_args 0) = Inr (o1, st1')"
    using demo_call_fwd_bwd [of demo_store] by (simp add: demo_store_def)
  obtain o2 st2' where c2: "call demo_sem ?f ?st2 (demo_args 0) = Inr (o2, st2')"
    and v2: "st2' (VGrad ''GRU_0_W'') = Some (Arr [Arr [Flt 3, Flt 4]])"
    using demo_call_fwd_bwd [of ?st2] by (simp add: demo_store_def)
  have agree: "\<forall>v. v \<notin> set (v_grads demo_net) \<longrightarrow> demo_store v = ?st2 v"
    by (simp add: demo_net_def)
  from fwd_bwd_overwrites_gradients
         [OF demo_training_result local noacc demo_fwd_bwd_compiles c1 c2 agree]
  have "\<forall>g \<in> set (v_grads demo_net). st1' g = st2' g" by blast
  with demo_training_result pl na demo_fwd_bwd_compiles c1 c2 v2 show ?thesis by blast
qed

subsection \<open>The loss\<close>

lemma steps_enumerate:
  "map snd (filter (\<lambda>(i, x). int m \<le> int i) (enumerate j xs)) = drop (m - j) xs"
proof (induction xs arbitrary: j)
  case Nil
  then show ?case by simp
next
  case (Cons x xs)
  show ?case
  proof (cases "m \<le> j")
    case True
    with Cons [of "Suc j"] show ?thesis by simp
  next
    case False
    then have "m - j = Suc (m - Suc j)" by simp
    with False Cons [of "Suc j"] show ?thesis by simp
  qed
qed

lemma steps_at_or_after_nat: "0 \<le> k \<Longrightarrow> steps_at_or_after k xs = drop (nat k) xs"
  using steps_enumerate [of "nat k" 0 xs] by (simp add: steps_at_or_after_def)

lemma steps_at_or_after_neg: "k \<le> 0 \<Longrightarrow> steps_at_or_after k xs = xs"
proof -
  assume "k \<le> 0"
  then have "filter (\<lambda>(i, x). k \<le> int i) (enumerate 0 xs) = enumerate 0 xs"
    by (intro filter_True) auto
  then show ?thesis by (simp add: steps_at_or_after_def)
qed

lemma slice_start_steps:
  "drop (slice_start k (length xs)) xs
     = steps_at_or_after (if k < 0 then max 0 (int (length xs) + k) else k) xs"
proof (cases "k < 0")
  case True
  then show ?thesis
    using steps_at_or_after_nat [of "max 0 (int (length xs) + k)" xs]
    by (simp add: slice_start_def)
next
  case False
  then have "drop (min (nat k) (length xs)) xs = drop (nat k) xs"
    by (cases "nat k \<le> length xs") (simp_all add: min_def)
  with False show ?thesis
    using steps_at_or_after_nat [of k xs] by (simp add: slice_start_def)
qed

lemma eval_loss_graph:
  assumes "eval S st inp s_output = Some (Arr os)"
      and "eval S st inp s_target = Some (Arr ts)"
      and "eval S st inp s_loss_tap = Some (Int32 k)"
  shows "eval S st inp (setup_loss_graph s_output s_target s_loss_tap)
           = MSE_loss S (Arr (drop (slice_start k (length os)) os))
                        (Arr (drop (slice_start k (length ts)) ts))"
  using assms by (simp add: setup_loss_graph_def those2_def slice_from_def)

lemma demo_eval_output:
  assumes "inp port_i_input = Some x" and "inp port_i_last_tap = Some t"
  shows "eval demo_sem demo_store inp demo_output = Some x"
  using assms by (simp add: demo_output_def demo_sem_def demo_store_def)

text \<open>
  The loss of a constructed network for any value of the loss-tap port: the slices are
  Python's, so a negative value counts from the end of the time axis.
\<close>

lemma loss_graph_of_constructed_net:
  assumes init: "Net_init X w opts (Some s) lf = (Inr (n, st0), w')"
  shows "\<exists>s_output.
           setup_forward_graph X (cfg_options n) (id_embedder n) (layers n)
             (SPort port_i_input) (SPort port_i_time) (SPort port_i_id_idx)
             (SPort port_i_last_tap) (v_params n) (v_prev_states n)
            = Inr (s_output, prev_state_updates n)
         \<and> port_o_loss n = Some (setup_loss_graph s_output (SPort port_i_target)
                                   (SPort port_i_loss_tap))
         \<and> (\<forall>S st inp os ts k.
               eval S st inp s_output = Some (Arr os) \<and> inp port_i_target = Some (Arr ts)
               \<and> inp port_i_loss_tap = Some (Int32 k) \<longrightarrow>
               eval S st inp (setup_loss_graph s_output (SPort port_i_target)
                                (SPort port_i_loss_tap))
                 = MSE_loss S
                     (Arr (steps_at_or_after
                             (if k < 0 then max 0 (int (length os) + k) else k) os))
                     (Arr (steps_at_or_after
                             (if k < 0 then max 0 (int (length ts) + k) else k) ts)))"
proof -
  from Net_init_training_wiring [OF init] obtain s_output where
    fw: "setup_forward_graph X (cfg_options n) (id_embedder n) (layers n)
             (SPort port_i_input) (SPort port_i_time) (SPort port_i_id_idx)
             (SPort port_i_last_tap) (v_params n) (v_prev_states n)
            = Inr (s_output, prev_state_updates n)" and
    loss: "port_o_loss n = Some (setup_loss_graph s_output (SPort port_i_target)
                                  (SPort port_i_loss_tap))"
    by blast
  have "eval S st inp (setup_loss_graph s_output (SPort port_i_target) (SPort port_i_loss_tap))
          = MSE_loss S
              (Arr (steps_at_or_after (if k < 0 then max 0 (int (length os) + k) else k) os))
              (Arr (steps_at_or_after (if k < 0 then max 0 (int (length ts) + k) else k) ts))"
    if "eval S st inp s_output = Some (Arr os)" "inp port_i_target = Some (Arr ts)"
       "inp port_i_loss_tap = Some (Int32 k)"
    for S :: "'b::zero sem" and st inp os ts k
    using eval_loss_graph [of S st inp s_output os "SPort port_i_target" ts "SPort port_i_loss_tap" k]
      that
    by (simp only: slice_start_steps eval.simps)
  with fw loss show ?thesis by blast
qed

text \<open>
  C5.  The loss of a network constructed in training mode is the loss function applied
  to the output of the forward graph and the target, both sliced from the loss tap.  For
  every loss-tap index \<open>k \<ge> 0\<close> on the time axis, the loss is the mean-squared error of
  the backend between the output and the target restricted to the time steps at or after
  \<open>k\<close>.  Time steps before \<open>k\<close> contribute nothing: two calls whose outputs and whose
  targets agree on the time steps at or after \<open>k\<close> have the same loss.
\<close>

theorem loss_counts_steps_from_loss_tap:
  assumes init: "Net_init X w opts (Some s) lf = (Inr (n, st0), w')"
  shows "\<exists>s_output.
           setup_forward_graph X (cfg_options n) (id_embedder n) (layers n)
             (SPort port_i_input) (SPort port_i_time) (SPort port_i_id_idx)
             (SPort port_i_last_tap) (v_params n) (v_prev_states n)
            = Inr (s_output, prev_state_updates n)
         \<and> port_o_loss n = Some (setup_loss_graph s_output (SPort port_i_target)
                                   (SPort port_i_loss_tap))
         \<and> (\<forall>S st inp os ts k.
               eval S st inp s_output = Some (Arr os) \<and> inp port_i_target = Some (Arr ts)
               \<and> inp port_i_loss_tap = Some (Int32 k) \<and> 0 \<le> k \<longrightarrow>
               eval S st inp (setup_loss_graph s_output (SPort port_i_target)
                                (SPort port_i_loss_tap))
                 = MSE_loss S (Arr (steps_at_or_after k os)) (Arr (steps_at_or_after k ts))
             \<and> (\<forall>st' inp' os' ts'.
                    eval S st' inp' s_output = Some (Arr os')
                  \<and> inp' port_i_target = Some (Arr ts')
                  \<and> inp' port_i_loss_tap = Some (Int32 k)
                  \<and> steps_at_or_after k os' = steps_at_or_after k os
                  \<and> steps_at_or_after k ts' = steps_at_or_after k ts \<longrightarrow>
                    eval S st' inp' (setup_loss_graph s_output (SPort port_i_target)
                                       (SPort port_i_loss_tap))
                      = eval S st inp (setup_loss_graph s_output (SPort port_i_target)
                                         (SPort port_i_loss_tap))))"
proof -
  from loss_graph_of_constructed_net [OF init] obtain s_output where
    fw: "setup_forward_graph X (cfg_options n) (id_embedder n) (layers n)
             (SPort port_i_input) (SPort port_i_time) (SPort port_i_id_idx)
             (SPort port_i_last_tap) (v_params n) (v_prev_states n)
            = Inr (s_output, prev_state_updates n)" and
    loss: "port_o_loss n = Some (setup_loss_graph s_output (SPort port_i_target)
                                  (SPort port_i_loss_tap))" and
    ev: "\<And>(S :: 'b::zero sem) st inp os ts k.
           eval S st inp s_output = Some (Arr os) \<and> inp port_i_target = Some (Arr ts)
           \<and> inp port_i_loss_tap = Some (Int32 k) \<Longrightarrow>
           eval S st inp (setup_loss_graph s_output (SPort port_i_target) (SPort port_i_loss_tap))
             = MSE_loss S
                 (Arr (steps_at_or_after (if k < 0 then max 0 (int (length os) + k) else k) os))
                 (Arr (steps_at_or_after (if k < 0 then max 0 (int (length ts) + k) else k) ts))"
    by blast
  let ?loss = "setup_loss_graph s_output (SPort port_i_target) (SPort port_i_loss_tap)"
  have at: "eval S st inp ?loss
              = MSE_loss S (Arr (steps_at_or_after k os)) (Arr (steps_at_or_after k ts))"
    if "eval S st inp s_output = Some (Arr os)" "inp port_i_target = Some (Arr ts)"
       "inp port_i_loss_tap = Some (Int32 k)" "0 \<le> k"
    for S :: "'b::zero sem" and st inp os ts k
    using ev [of S st inp os ts k] that by simp
  have "eval S st inp ?loss
          = MSE_loss S (Arr (steps_at_or_after k os)) (Arr (steps_at_or_after k ts))
      \<and> (\<forall>st' inp' os' ts'.
             eval S st' inp' s_output = Some (Arr os')
           \<and> inp' port_i_target = Some (Arr ts')
           \<and> inp' port_i_loss_tap = Some (Int32 k)
           \<and> steps_at_or_after k os' = steps_at_or_after k os
           \<and> steps_at_or_after k ts' = steps_at_or_after k ts \<longrightarrow>
             eval S st' inp' ?loss = eval S st inp ?loss)"
    if h: "eval S st inp s_output = Some (Arr os) \<and> inp port_i_target = Some (Arr ts)
           \<and> inp port_i_loss_tap = Some (Int32 k) \<and> 0 \<le> k"
    for S :: "'b::zero sem" and st inp os ts k
  proof -
    from h have a: "eval S st inp ?loss
          = MSE_loss S (Arr (steps_at_or_after k os)) (Arr (steps_at_or_after k ts))"
      by (intro at) simp_all
    have "eval S st' inp' ?loss = eval S st inp ?loss"
      if h': "eval S st' inp' s_output = Some (Arr os')
           \<and> inp' port_i_target = Some (Arr ts')
           \<and> inp' port_i_loss_tap = Some (Int32 k)
           \<and> steps_at_or_after k os' = steps_at_or_after k os
           \<and> steps_at_or_after k ts' = steps_at_or_after k ts"
      for st' inp' os' ts'
    proof -
      from h h' have "eval S st' inp' ?loss
          = MSE_loss S (Arr (steps_at_or_after k os')) (Arr (steps_at_or_after k ts'))"
        by (intro at) simp_all
      with a h' show ?thesis by simp
    qed
    with a show ?thesis by blast
  qed
  with fw loss show ?thesis by blast
qed

theorem loss_counts_steps_from_loss_tap_witness:
  "Net_init demo_ext demo_world (Some demo_opts) (Some ''ws'') None
     = (Inr (demo_net, demo_store), demo_world_after)
   \<and> port_o_loss demo_net
       = Some (setup_loss_graph demo_output (SPort port_i_target) (SPort port_i_loss_tap))
   \<and> eval demo_sem demo_store (demo_args 1) demo_output
       = Some (Arr [Arr [Arr [Flt 1]], Arr [Arr [Flt 0]]])
   \<and> demo_args 1 port_i_target = Some (Arr [Arr [Arr [Flt 0]], Arr [Arr [Flt 0]]])
   \<and> demo_args 1 port_i_loss_tap = Some (Int32 1)
   \<and> (0::int) \<le> 1
   \<and> eval demo_sem demo_store (demo_args 1)
        (setup_loss_graph demo_output (SPort port_i_target) (SPort port_i_loss_tap))
       = MSE_loss demo_sem
           (Arr (steps_at_or_after 1 [Arr [Arr [Flt 1]], Arr [Arr [Flt 0]]]))
           (Arr (steps_at_or_after 1 [Arr [Arr [Flt 0]], Arr [Arr [Flt 0]]]))
   \<and> eval demo_sem demo_store (demo_args 1)
        (setup_loss_graph demo_output (SPort port_i_target) (SPort port_i_loss_tap))
       = Some (Flt 0)
   \<and> eval demo_sem demo_store (demo_args 0)
        (setup_loss_graph demo_output (SPort port_i_target) (SPort port_i_loss_tap))
       = Some (Flt (1 / 2))
   \<and> eval demo_sem demo_store
        ((demo_args 1)(port_i_input \<mapsto> Arr [Arr [Arr [Flt 7]], Arr [Arr [Flt 0]]]))
        (setup_loss_graph demo_output (SPort port_i_target) (SPort port_i_loss_tap))
       = eval demo_sem demo_store (demo_args 1)
           (setup_loss_graph demo_output (SPort port_i_target) (SPort port_i_loss_tap))"
proof -
  let ?loss = "setup_loss_graph demo_output (SPort port_i_target) (SPort port_i_loss_tap)"
  let ?os = "[Arr [Arr [Flt 1]], Arr [Arr [Flt 0]]] :: rat tensor list"
  let ?ts = "[Arr [Arr [Flt 0]], Arr [Arr [Flt 0]]] :: rat tensor list"
  let ?os' = "[Arr [Arr [Flt 7]], Arr [Arr [Flt 0]]] :: rat tensor list"
  let ?inp' = "(demo_args 1)(port_i_input \<mapsto> Arr ?os')"
  have pl: "port_o_loss demo_net = Some ?loss"
    by (simp add: demo_net_def demo_loss_def setup_loss_graph_def)
  from loss_counts_steps_from_loss_tap [OF demo_training_result] obtain s_output where
    l: "port_o_loss demo_net = Some (setup_loss_graph s_output (SPort port_i_target)
                                      (SPort port_i_loss_tap))" and
    e: "\<And>(S :: rat sem) st inp os ts k.
          eval S st inp s_output = Some (Arr os) \<and> inp port_i_target = Some (Arr ts)
          \<and> inp port_i_loss_tap = Some (Int32 k) \<and> 0 \<le> k \<Longrightarrow>
          eval S st inp (setup_loss_graph s_output (SPort port_i_target) (SPort port_i_loss_tap))
            = MSE_loss S (Arr (steps_at_or_after k os)) (Arr (steps_at_or_after k ts))
        \<and> (\<forall>st' inp' os' ts'.
               eval S st' inp' s_output = Some (Arr os')
             \<and> inp' port_i_target = Some (Arr ts')
             \<and> inp' port_i_loss_tap = Some (Int32 k)
             \<and> steps_at_or_after k os' = steps_at_or_after k os
             \<and> steps_at_or_after k ts' = steps_at_or_after k ts \<longrightarrow>
               eval S st' inp' (setup_loss_graph s_output (SPort port_i_target)
                                  (SPort port_i_loss_tap))
                 = eval S st inp (setup_loss_graph s_output (SPort port_i_target)
                                    (SPort port_i_loss_tap)))"
    by blast
  from l pl have s: "s_output = demo_output" by (simp add: setup_loss_graph_def)
  have o: "eval demo_sem demo_store (demo_args k) demo_output = Some (Arr ?os)"
    and t: "demo_args k port_i_target = Some (Arr ?ts)"
    and k: "demo_args k port_i_loss_tap = Some (Int32 k)" for k
    by (simp_all add: demo_eval_output [where t = "Int32 1"] demo_args_def)
  have o': "eval demo_sem demo_store ?inp' demo_output = Some (Arr ?os')"
    and t': "?inp' port_i_target = Some (Arr ?ts)"
    and k': "?inp' port_i_loss_tap = Some (Int32 1)"
    by (simp_all add: demo_eval_output [where t = "Int32 1"] demo_args_def)
  have st: "steps_at_or_after 1 ?os' = steps_at_or_after 1 ?os"
    by (simp add: steps_at_or_after_nat)
  note e1 = e [unfolded s, of demo_sem demo_store "demo_args 1" ?os ?ts 1]
  note e0 = e [unfolded s, of demo_sem demo_store "demo_args 0" ?os ?ts 0]
  from e1 o t k have a1: "eval demo_sem demo_store (demo_args 1) ?loss
       = MSE_loss demo_sem (Arr (steps_at_or_after 1 ?os)) (Arr (steps_at_or_after 1 ?ts))"
    by simp
  have m1: "MSE_loss demo_sem (Arr (steps_at_or_after 1 ?os)) (Arr (steps_at_or_after 1 ?ts))
              = Some (Flt 0)"
    by (simp add: steps_at_or_after_nat demo_sem_def mean_squared_error_def)
  from e0 o t k have a0: "eval demo_sem demo_store (demo_args 0) ?loss
       = MSE_loss demo_sem (Arr (steps_at_or_after 0 ?os)) (Arr (steps_at_or_after 0 ?ts))"
    by simp
  have m0: "MSE_loss demo_sem (Arr (steps_at_or_after 0 ?os)) (Arr (steps_at_or_after 0 ?ts))
              = Some (Flt (1 / 2))"
    by (simp add: steps_at_or_after_neg demo_sem_def mean_squared_error_def)
  from e1 o t k have "\<forall>st' inp' os' ts'.
               eval demo_sem st' inp' demo_output = Some (Arr os')
             \<and> inp' port_i_target = Some (Arr ts')
             \<and> inp' port_i_loss_tap = Some (Int32 1)
             \<and> steps_at_or_after 1 os' = steps_at_or_after 1 ?os
             \<and> steps_at_or_after 1 ts' = steps_at_or_after 1 ?ts \<longrightarrow>
               eval demo_sem st' inp' ?loss = eval demo_sem demo_store (demo_args 1) ?loss"
    by simp
  then have b: "eval demo_sem demo_store ?inp' ?loss = eval demo_sem demo_store (demo_args 1) ?loss"
    using o' t' k' st by blast
  show ?thesis
    using demo_training_result pl o [of 1] t [of 1] k [of 1] a1 a1 [unfolded m1] a0 [unfolded m0] b
    by simp
qed

subsection \<open>The two update paths\<close>

lemma setup_param_updates_graph_InrD:
  assumes "setup_param_updates_graph X opts st s_lr vps gs = Inr (st', inits, ups)"
  shows "\<exists>ft ut af fi fu forces au ui uu.
           opt_str opts ''force_type'' = Inr ft \<and> ft \<in> set force_names
         \<and> force X ft opts st s_lr gs = (af, fi, fu, forces)
         \<and> opt_str opts ''update_type'' = Inr ut \<and> ut \<in> set update_names
         \<and> update X ut opts (write_all st af) vps forces = (au, ui, uu)
         \<and> length vps = length gs \<and> length vps = length forces
         \<and> inits = fi @ ui \<and> ups = fu @ uu"
  using assms
  by (auto simp: setup_param_updates_graph_def split: if_splits sum.splits prod.splits)

lemma last4_init_iff: "last4 k = ''init'' \<longleftrightarrow> (\<exists>p. k = p @ ''init'')"
proof
  assume "last4 k = ''init''"
  then have "k = take (length k - 4) k @ ''init''"
    by (metis append_take_drop_id last4_def)
  then show "\<exists>p. k = p @ ''init''" ..
next
  assume "\<exists>p. k = p @ ''init''"
  then show "last4 k = ''init''" by (auto simp: last4_def)
qed

text \<open>
  C4, as it is stated, on the network of the instance, which learns its initial states.
  The second accumulator is paired with the gradient of the loss with respect to the
  previous-state variable itself, one row per sample; it is not paired with the mean of
  that gradient over the batch.
\<close>

theorem init_state_gradient_counterexample:
  "Net_init demo_ext demo_world (Some demo_opts) (Some ''ws'') None
     = (Inr (demo_net, demo_store), demo_world_after)
   \<and> od_get (cfg_options demo_net) ''learn_init_states'' = Inr (PBool True)
   \<and> v_grads_for_init demo_net = [VGradInit ''GRU_0_prev'']
   \<and> grad_updates_for_init demo_net
       = [(VGradInit ''GRU_0_prev'', SGrad demo_loss (VPrev ''GRU_0_prev''))]
   \<and> grad_updates_for_init demo_net
       \<noteq> [(VGradInit ''GRU_0_prev'', SMean0 (SGrad demo_loss (VPrev ''GRU_0_prev'')))]"
  using demo_training_result
  by (simp add: demo_net_def demo_opts_def od_get_def)

text \<open>
  C4, amended.  In a network constructed in training mode with \<^verbatim>\<open>learn_init_states\<close> true,
  there is one second accumulator per previous-state variable; the second gradient graph
  writes into it the gradient of the loss with respect to that previous-state variable
  (clipped if \<^verbatim>\<open>grad_norm_clip\<close> is set), not averaged.  The second parameter-update graph
  is the one the optimizer builds for the parameters whose names end in \<open>init\<close> when it
  is handed, as gradients, the mean over the first axis of each second accumulator.  The
  function of \<^verbatim>\<open>compile_f_fwd_bwd_for_init\<close> carries the second gradient updates after the
  regular ones, that of \<^verbatim>\<open>compile_f_update_init_states\<close> the second parameter updates.
\<close>

theorem init_state_gradient_path:
  assumes init: "Net_init X w opts (Some s) lf = (Inr (n, st), w')"
      and flag: "od_get (cfg_options n) ''learn_init_states'' = Inr flag"
      and on: "truthy flag"
  shows "v_grads_for_init n = map VGradInit (v_prev_states n)
       \<and> v_params_for_init n = filter (\<lambda>k. last4 k = ''init'') (v_params n)
       \<and> (\<exists>s_loss. port_o_loss n = Some s_loss
            \<and> grad_updates_for_init n
                = map (\<lambda>k. (VGradInit k,
                            case map_of (cfg_options n) ''grad_norm_clip'' of
                              None \<Rightarrow> SGrad s_loss (VPrev k)
                            | Some c \<Rightarrow> SClipNorm (SGrad s_loss (VPrev k)) c))
                    (v_prev_states n))
       \<and> (\<exists>st1 ft ut af fi fu forces au ui uu.
              force X ft (cfg_options n) st1 (SPort port_i_lr)
                (map (\<lambda>k. SMean0 (SShared (VGradInit k))) (v_prev_states n))
               = (af, fi, fu, forces)
            \<and> update X ut (cfg_options n) (write_all st1 af)
                (map VParam (v_params_for_init n)) forces = (au, ui, uu)
            \<and> opt_str (cfg_options n) ''force_type'' = Inr ft
            \<and> opt_str (cfg_options n) ''update_type'' = Inr ut
            \<and> length (v_params_for_init n) = length (v_prev_states n)
            \<and> param_updates_for_init n = fu @ uu)
       \<and> compile_f_fwd_bwd_for_init n
           = propagate_fn (cfg_options n) training_inputs ''_port_o_loss'' (port_o_loss n)
               (grad_updates n @ prev_state_updates n @ grad_updates_for_init n)
       \<and> compile_f_update_init_states n
           = th_function [port_i_lr] [] (param_updates_for_init n) Raise"
proof -
  from Net_init_training_wiring [OF init] flag on obtain s_output st1 st2 inits' where
    tr: "is_training n" and
    loss: "port_o_loss n = Some (setup_loss_graph s_output (SPort port_i_target)
                                  (SPort port_i_loss_tap))" and
    pfi: "v_params_for_init n = filter (\<lambda>k. last4 k = ''init'') (v_params n)" and
    gfi: "v_grads_for_init n = map VGradInit (v_prev_states n)" and
    gu: "setup_grad_updates_graph (cfg_options n)
           (setup_loss_graph s_output (SPort port_i_target) (SPort port_i_loss_tap))
           (map VPrev (v_prev_states n)) (v_grads_for_init n) = Inr (grad_updates_for_init n)" and
    pu: "setup_param_updates_graph X (cfg_options n) st1 (SPort port_i_lr)
           (map VParam (v_params_for_init n))
           (map (\<lambda>v. SMean0 (SShared v)) (v_grads_for_init n))
          = Inr (st2, inits', param_updates_for_init n)"
    by auto
  let ?loss = "setup_loss_graph s_output (SPort port_i_target) (SPort port_i_loss_tap)"
  from gu have a: "grad_updates_for_init n
                = map (\<lambda>k. (VGradInit k,
                            case map_of (cfg_options n) ''grad_norm_clip'' of
                              None \<Rightarrow> SGrad ?loss (VPrev k)
                            | Some c \<Rightarrow> SClipNorm (SGrad ?loss (VPrev k)) c))
                    (v_prev_states n)"
    unfolding gfi by (rule setup_grad_updates_graph_InrD(1))
  have m: "map (\<lambda>v. SMean0 (SShared v)) (v_grads_for_init n)
             = map (\<lambda>k. SMean0 (SShared (VGradInit k))) (v_prev_states n)"
    by (simp add: gfi)
  from setup_param_updates_graph_InrD [OF pu [unfolded m]]
  have b: "\<exists>st1 ft ut af fi fu forces au ui uu.
              force X ft (cfg_options n) st1 (SPort port_i_lr)
                (map (\<lambda>k. SMean0 (SShared (VGradInit k))) (v_prev_states n))
               = (af, fi, fu, forces)
            \<and> update X ut (cfg_options n) (write_all st1 af)
                (map VParam (v_params_for_init n)) forces = (au, ui, uu)
            \<and> opt_str (cfg_options n) ''force_type'' = Inr ft
            \<and> opt_str (cfg_options n) ''update_type'' = Inr ut
            \<and> length (v_params_for_init n) = length (v_prev_states n)
            \<and> param_updates_for_init n = fu @ uu"
    by (auto simp: gfi) blast
  have c: "compile_f_fwd_bwd_for_init n
           = propagate_fn (cfg_options n) training_inputs ''_port_o_loss'' (port_o_loss n)
               (grad_updates n @ prev_state_updates n @ grad_updates_for_init n)"
    and d: "compile_f_update_init_states n
           = th_function [port_i_lr] [] (param_updates_for_init n) Raise"
    using tr flag on
    by (simp_all add: compile_f_fwd_bwd_for_init_def compile_f_update_init_states_def
          learn_init_states_on_def)
  from gfi pfi loss a b c d show ?thesis by blast
qed

theorem init_state_gradient_path_witness:
  "Net_init demo_ext demo_world (Some demo_opts) (Some ''ws'') None
     = (Inr (demo_net, demo_store), demo_world_after)
   \<and> od_get (cfg_options demo_net) ''learn_init_states'' = Inr (PBool True)
   \<and> truthy (PBool True)
   \<and> v_grads_for_init demo_net = map VGradInit (v_prev_states demo_net)
   \<and> v_params_for_init demo_net = [''GRU_0_init'']
   \<and> grad_updates_for_init demo_net
       = [(VGradInit ''GRU_0_prev'', SGrad demo_loss (VPrev ''GRU_0_prev''))]
   \<and> compile_f_update_init_states demo_net
       = th_function [port_i_lr] [] (param_updates_for_init demo_net) Raise"
proof -
  have fl: "od_get (cfg_options demo_net) ''learn_init_states'' = Inr (PBool True)"
    by (simp add: demo_net_def demo_opts_def od_get_def)
  have on: "truthy (PBool True)" by simp
  from init_state_gradient_path [OF demo_training_result fl on]
  have "v_grads_for_init demo_net = map VGradInit (v_prev_states demo_net)"
    and "v_params_for_init demo_net = filter (\<lambda>k. last4 k = ''init'') (v_params demo_net)"
    and "compile_f_update_init_states demo_net
           = th_function [port_i_lr] [] (param_updates_for_init demo_net) Raise"
    by blast+
  moreover have "filter (\<lambda>k. last4 k = ''init'') (v_params demo_net) = [''GRU_0_init'']"
    by (simp add: demo_net_def last4_def)
  moreover have "grad_updates_for_init demo_net
       = [(VGradInit ''GRU_0_prev'', SGrad demo_loss (VPrev ''GRU_0_prev''))]"
    by (simp add: demo_net_def)
  ultimately show ?thesis using demo_training_result fl on by simp
qed

lemma Net_init_shared:
  assumes "Net_init X w opts save lf = (Inr (n, st), w')"
  shows "v_params n = map fst (params n)
       \<and> v_params_wo_init n = filter (\<lambda>k. last4 k \<noteq> ''init'') (v_params n)"
proof -
  from Net_init_InrD [OF assms] obtain c w1 emb ls ps sv where
    sv: "init_shared_variables X c ls ps = Inr sv" and
    gr: "if is_training c
         then setup_training_graph X (base_net c emb ls ps sv) (sv_store sv) = Inr (n, st)
         else setup_inference_graph X (base_net c emb ls ps sv) = Inr n \<and> st = sv_store sv"
    by blast
  note svf = init_shared_variables_InrD [OF sv]
  show ?thesis
  proof (cases "is_training c")
    case True
    with gr have tg: "setup_training_graph X (base_net c emb ls ps sv) (sv_store sv) = Inr (n, st)"
      by simp
    from setup_training_graph_InrD [OF tg] svf show ?thesis
      by (auto simp: base_net_def split: if_splits dest!: setup_init_graphs_InrD)
  next
    case False
    with gr have "setup_inference_graph X (base_net c emb ls ps sv) = Inr n" by simp
    with svf show ?thesis
      by (auto simp: setup_inference_graph_def base_net_def split: sum.splits)
  qed
qed

lemma Net_init_init_wiring:
  assumes init: "Net_init X w opts (Some s) lf = (Inr (n, st), w')"
      and flag: "od_get (cfg_options n) ''learn_init_states'' = Inr flag"
      and on: "truthy flag"
  shows "v_params_for_init n = filter (\<lambda>k. last4 k = ''init'') (v_params n)"
    and "v_grads_for_init n = map VGradInit (v_prev_states n)"
    and "\<exists>st1 st2 inits'.
           setup_param_updates_graph X (cfg_options n) st1 (SPort port_i_lr)
             (map VParam (v_params_for_init n))
             (map (\<lambda>v. SMean0 (SShared v)) (v_grads_for_init n))
            = Inr (st2, inits', param_updates_for_init n)"
  using Net_init_training_wiring [OF init] flag on by auto

lemma param_updates_targets:
  assumes pu: "setup_param_updates_graph X opts st s_lr vps gs = Inr (st', inits, ups)"
      and cf: "\<forall>ft opts st s_lr gs. \<forall>x \<in> set (fst (snd (snd (force X ft opts st s_lr gs)))).
                  fst x \<notin> range VParam"
      and cu: "\<forall>ut opts st vps fs.
                  fst ` set (snd (snd (update X ut opts st vps fs))) \<inter> range VParam \<subseteq> set vps"
  shows "fst ` set ups \<inter> range VParam \<subseteq> set vps"
proof -
  from setup_param_updates_graph_InrD [OF pu] obtain ft ut af fi fu forces au ui uu where
    f: "force X ft opts st s_lr gs = (af, fi, fu, forces)" and
    u: "update X ut opts (write_all st af) vps forces = (au, ui, uu)" and
    p: "ups = fu @ uu"
    by blast
  from cf have "\<forall>x \<in> set (fst (snd (snd (force X ft opts st s_lr gs)))). fst x \<notin> range VParam"
    by blast
  with f have a: "\<forall>x \<in> set fu. fst x \<notin> range VParam" by simp
  from cu have "fst ` set (snd (snd (update X ut opts (write_all st af) vps forces)))
                  \<inter> range VParam \<subseteq> set vps"
    by blast
  with u have b: "fst ` set uu \<inter> range VParam \<subseteq> set vps" by simp
  from a b show ?thesis unfolding p by auto
qed

text \<open>
  C10.  In every constructed network the parameters of the regular path are those whose
  names do not end in \<open>init\<close>, in order; together with the parameters whose names do,
  they make up all parameters, and the two sets are disjoint.  In training mode the
  regular accumulators, the regular gradient updates and the regular parameter-update
  graph are built over exactly the former.  With \<^verbatim>\<open>learn_init_states\<close> true, the second
  parameter-update graph is built over exactly the latter.  If the optimizer writes no
  parameter other than those it is handed, the regular updates write only parameters
  without the suffix, the second updates only parameters with it, and no parameter is
  written by both.
\<close>

theorem update_paths_partition_parameters:
  assumes init: "Net_init X w opts save lf = (Inr (n, st), w')"
  shows "v_params_wo_init n = filter (\<lambda>k. \<not> (\<exists>p. k = p @ ''init'')) (v_params n)
       \<and> set (v_params_wo_init n) \<union> {k \<in> set (v_params n). \<exists>p. k = p @ ''init''}
           = set (v_params n)
       \<and> set (v_params_wo_init n) \<inter> {k \<in> set (v_params n). \<exists>p. k = p @ ''init''} = {}
       \<and> (is_training n \<longrightarrow>
            v_grads n = map VGrad (v_params_wo_init n)
          \<and> (\<exists>s_loss. port_o_loss n = Some s_loss
               \<and> grad_updates n
                   = map (\<lambda>k. (VGrad k,
                               case map_of (cfg_options n) ''grad_norm_clip'' of
                                 None \<Rightarrow> SGrad s_loss (VParam k)
                               | Some c \<Rightarrow> SClipNorm (SGrad s_loss (VParam k)) c))
                       (v_params_wo_init n))
          \<and> (\<exists>st0 st1 inits.
                 setup_param_updates_graph X (cfg_options n) st0 (SPort port_i_lr)
                   (map VParam (v_params_wo_init n)) (map SShared (v_grads n))
                  = Inr (st1, inits, param_updates n)))
       \<and> (is_training n \<and> (\<exists>flag. od_get (cfg_options n) ''learn_init_states'' = Inr flag
                                  \<and> truthy flag) \<longrightarrow>
            v_params_for_init n = filter (\<lambda>k. \<exists>p. k = p @ ''init'') (v_params n)
          \<and> set (v_params_wo_init n) \<inter> set (v_params_for_init n) = {}
          \<and> (\<exists>st1 st2 inits.
                 setup_param_updates_graph X (cfg_options n) st1 (SPort port_i_lr)
                   (map VParam (v_params_for_init n))
                   (map (\<lambda>v. SMean0 (SShared v)) (v_grads_for_init n))
                  = Inr (st2, inits, param_updates_for_init n)))
       \<and> ((\<forall>ft opts st s_lr gs. \<forall>x \<in> set (fst (snd (snd (force X ft opts st s_lr gs)))).
               fst x \<notin> range VParam)
            \<and> (\<forall>ut opts st vps fs.
                  fst ` set (snd (snd (update X ut opts st vps fs))) \<inter> range VParam \<subseteq> set vps)
            \<and> is_training n \<longrightarrow>
            fst ` set (param_updates n) \<inter> range VParam \<subseteq> VParam ` set (v_params_wo_init n)
          \<and> ((\<exists>flag. od_get (cfg_options n) ''learn_init_states'' = Inr flag \<and> truthy flag) \<longrightarrow>
                fst ` set (param_updates_for_init n) \<inter> range VParam
                  \<subseteq> VParam ` set (v_params_for_init n)
              \<and> fst ` set (param_updates n) \<inter> fst ` set (param_updates_for_init n)
                  \<inter> range VParam = {}))"
proof -
  let ?I = "\<lambda>k. \<exists>p. k = p @ ''init''"
  let ?on = "\<exists>flag. od_get (cfg_options n) ''learn_init_states'' = Inr flag \<and> truthy flag"
  from Net_init_shared [OF init]
  have wo: "v_params_wo_init n = filter (\<lambda>k. \<not> ?I k) (v_params n)"
    by (simp add: last4_init_iff)
  have un: "set (v_params_wo_init n) \<union> {k \<in> set (v_params n). ?I k} = set (v_params n)"
    and di: "set (v_params_wo_init n) \<inter> {k \<in> set (v_params n). ?I k} = {}"
    unfolding wo by auto
  have wiring: "\<exists>s. Net_init X w opts (Some s) lf = (Inr (n, st), w')" if "is_training n"
  proof -
    from Net_init_config [OF init] obtain c w1 where
      cfg: "configure w opts save lf = (Inr c, w1)" and tc: "is_training n = is_training c"
      by blast
    from cfg that tc obtain s where "save = Some s"
      by (cases save) (auto dest: configure_inference_InrD)
    with init show ?thesis by blast
  qed
  have reg: "v_grads n = map VGrad (v_params_wo_init n)
          \<and> (\<exists>s_loss. port_o_loss n = Some s_loss
               \<and> grad_updates n
                   = map (\<lambda>k. (VGrad k,
                               case map_of (cfg_options n) ''grad_norm_clip'' of
                                 None \<Rightarrow> SGrad s_loss (VParam k)
                               | Some c \<Rightarrow> SClipNorm (SGrad s_loss (VParam k)) c))
                       (v_params_wo_init n))
          \<and> (\<exists>st0 st1 inits.
                 setup_param_updates_graph X (cfg_options n) st0 (SPort port_i_lr)
                   (map VParam (v_params_wo_init n)) (map SShared (v_grads n))
                  = Inr (st1, inits, param_updates n))"
    if t: "is_training n"
  proof -
    from wiring [OF t] obtain s where i: "Net_init X w opts (Some s) lf = (Inr (n, st), w')" ..
    from Net_init_training_wiring [OF i] obtain s_output st0 st1 inits where
      vg: "v_grads n = map VGrad (v_params_wo_init n)" and
      loss: "port_o_loss n = Some (setup_loss_graph s_output (SPort port_i_target)
                                    (SPort port_i_loss_tap))" and
      gu: "setup_grad_updates_graph (cfg_options n)
             (setup_loss_graph s_output (SPort port_i_target) (SPort port_i_loss_tap))
             (map VParam (v_params_wo_init n)) (v_grads n) = Inr (grad_updates n)" and
      pu: "setup_param_updates_graph X (cfg_options n) st0 (SPort port_i_lr)
             (map VParam (v_params_wo_init n)) (map SShared (v_grads n))
            = Inr (st1, inits, param_updates n)"
      by blast
    from gu have "grad_updates n
                   = map (\<lambda>k. (VGrad k,
                               case map_of (cfg_options n) ''grad_norm_clip'' of
                                 None \<Rightarrow> SGrad (setup_loss_graph s_output (SPort port_i_target)
                                                  (SPort port_i_loss_tap)) (VParam k)
                               | Some c \<Rightarrow> SClipNorm (SGrad (setup_loss_graph s_output
                                              (SPort port_i_target) (SPort port_i_loss_tap))
                                              (VParam k)) c))
                       (v_params_wo_init n)"
      unfolding vg by (rule setup_grad_updates_graph_InrD(1))
    with vg loss pu show ?thesis by blast
  qed
  have ini: "v_params_for_init n = filter ?I (v_params n)
          \<and> set (v_params_wo_init n) \<inter> set (v_params_for_init n) = {}
          \<and> (\<exists>st1 st2 inits.
                 setup_param_updates_graph X (cfg_options n) st1 (SPort port_i_lr)
                   (map VParam (v_params_for_init n))
                   (map (\<lambda>v. SMean0 (SShared v)) (v_grads_for_init n))
                  = Inr (st2, inits, param_updates_for_init n))"
    if t: "is_training n" and on: ?on
  proof -
    from wiring [OF t] obtain s where i: "Net_init X w opts (Some s) lf = (Inr (n, st), w')" ..
    from on obtain flag where fl: "od_get (cfg_options n) ''learn_init_states'' = Inr flag"
      and tf: "truthy flag" by blast
    note iw = Net_init_init_wiring [OF i fl tf]
    note pfi = iw(1)
    from iw(3) obtain st1 st2 inits' where
      pu': "setup_param_updates_graph X (cfg_options n) st1 (SPort port_i_lr)
              (map VParam (v_params_for_init n))
              (map (\<lambda>v. SMean0 (SShared v)) (v_grads_for_init n))
             = Inr (st2, inits', param_updates_for_init n)"
      by blast
    from pfi have pfi': "v_params_for_init n = filter ?I (v_params n)"
      by (simp add: last4_init_iff)
    have "set (v_params_wo_init n) \<inter> set (v_params_for_init n) = {}"
      unfolding wo pfi' by auto
    with pfi' pu' show ?thesis by blast
  qed
  have tg: "fst ` set (param_updates n) \<inter> range VParam \<subseteq> VParam ` set (v_params_wo_init n)
          \<and> (?on \<longrightarrow>
                fst ` set (param_updates_for_init n) \<inter> range VParam
                  \<subseteq> VParam ` set (v_params_for_init n)
              \<and> fst ` set (param_updates n) \<inter> fst ` set (param_updates_for_init n)
                  \<inter> range VParam = {})"
    if cf: "\<forall>ft opts st s_lr gs. \<forall>x \<in> set (fst (snd (snd (force X ft opts st s_lr gs)))).
               fst x \<notin> range VParam"
      and cu: "\<forall>ut opts st vps fs.
                  fst ` set (snd (snd (update X ut opts st vps fs))) \<inter> range VParam \<subseteq> set vps"
      and t: "is_training n"
  proof -
    from reg [OF t] obtain st0 st1 inits where
      pu: "setup_param_updates_graph X (cfg_options n) st0 (SPort port_i_lr)
             (map VParam (v_params_wo_init n)) (map SShared (v_grads n))
            = Inr (st1, inits, param_updates n)"
      by blast
    have a: "fst ` set (param_updates n) \<inter> range VParam \<subseteq> VParam ` set (v_params_wo_init n)"
      using param_updates_targets [OF pu cf cu] by simp
    have b: "fst ` set (param_updates_for_init n) \<inter> range VParam
                  \<subseteq> VParam ` set (v_params_for_init n)
              \<and> fst ` set (param_updates n) \<inter> fst ` set (param_updates_for_init n)
                  \<inter> range VParam = {}"
      if on: ?on
    proof -
      from ini [OF t on] obtain st1 st2 inits where
        dj: "set (v_params_wo_init n) \<inter> set (v_params_for_init n) = {}" and
        pu': "setup_param_updates_graph X (cfg_options n) st1 (SPort port_i_lr)
                (map VParam (v_params_for_init n))
                (map (\<lambda>v. SMean0 (SShared v)) (v_grads_for_init n))
               = Inr (st2, inits, param_updates_for_init n)"
        by blast
      have c: "fst ` set (param_updates_for_init n) \<inter> range VParam
                 \<subseteq> VParam ` set (v_params_for_init n)"
        using param_updates_targets [OF pu' cf cu] by simp
      have "x \<notin> range VParam"
        if x1: "x \<in> fst ` set (param_updates n)"
          and x2: "x \<in> fst ` set (param_updates_for_init n)" for x
      proof
        assume r: "x \<in> range VParam"
        from a x1 r obtain k where k: "x = VParam k" "k \<in> set (v_params_wo_init n)" by blast
        from c x2 r obtain k' where k': "x = VParam k'" "k' \<in> set (v_params_for_init n)"
          by blast
        from k(1) k'(1) have "k = k'" by simp
        with k(2) k'(2) dj show False by blast
      qed
      then have "fst ` set (param_updates n) \<inter> fst ` set (param_updates_for_init n)
                  \<inter> range VParam = {}"
        by blast
      with c show ?thesis ..
    qed
    from a b show ?thesis by blast
  qed
  have c4: "is_training n \<longrightarrow>
            v_grads n = map VGrad (v_params_wo_init n)
          \<and> (\<exists>s_loss. port_o_loss n = Some s_loss
               \<and> grad_updates n
                   = map (\<lambda>k. (VGrad k,
                               case map_of (cfg_options n) ''grad_norm_clip'' of
                                 None \<Rightarrow> SGrad s_loss (VParam k)
                               | Some c \<Rightarrow> SClipNorm (SGrad s_loss (VParam k)) c))
                       (v_params_wo_init n))
          \<and> (\<exists>st0 st1 inits.
                 setup_param_updates_graph X (cfg_options n) st0 (SPort port_i_lr)
                   (map VParam (v_params_wo_init n)) (map SShared (v_grads n))
                  = Inr (st1, inits, param_updates n))"
    using reg by (rule impI)
  have c5: "is_training n \<and> ?on \<longrightarrow>
            v_params_for_init n = filter ?I (v_params n)
          \<and> set (v_params_wo_init n) \<inter> set (v_params_for_init n) = {}
          \<and> (\<exists>st1 st2 inits.
                 setup_param_updates_graph X (cfg_options n) st1 (SPort port_i_lr)
                   (map VParam (v_params_for_init n))
                   (map (\<lambda>v. SMean0 (SShared v)) (v_grads_for_init n))
                  = Inr (st2, inits, param_updates_for_init n))"
  proof
    assume "is_training n \<and> ?on"
    then have "is_training n" and ?on by (rule conjunct1, rule conjunct2)
    then show "v_params_for_init n = filter ?I (v_params n)
          \<and> set (v_params_wo_init n) \<inter> set (v_params_for_init n) = {}
          \<and> (\<exists>st1 st2 inits.
                 setup_param_updates_graph X (cfg_options n) st1 (SPort port_i_lr)
                   (map VParam (v_params_for_init n))
                   (map (\<lambda>v. SMean0 (SShared v)) (v_grads_for_init n))
                  = Inr (st2, inits, param_updates_for_init n))"
      by (rule ini)
  qed
  have c6: "(\<forall>ft opts st s_lr gs. \<forall>x \<in> set (fst (snd (snd (force X ft opts st s_lr gs)))).
               fst x \<notin> range VParam)
            \<and> (\<forall>ut opts st vps fs.
                  fst ` set (snd (snd (update X ut opts st vps fs))) \<inter> range VParam \<subseteq> set vps)
            \<and> is_training n \<longrightarrow>
            fst ` set (param_updates n) \<inter> range VParam \<subseteq> VParam ` set (v_params_wo_init n)
          \<and> (?on \<longrightarrow>
                fst ` set (param_updates_for_init n) \<inter> range VParam
                  \<subseteq> VParam ` set (v_params_for_init n)
              \<and> fst ` set (param_updates n) \<inter> fst ` set (param_updates_for_init n)
                  \<inter> range VParam = {})"
  proof
    assume h: "(\<forall>ft opts st s_lr gs. \<forall>x \<in> set (fst (snd (snd (force X ft opts st s_lr gs)))).
               fst x \<notin> range VParam)
            \<and> (\<forall>ut opts st vps fs.
                  fst ` set (snd (snd (update X ut opts st vps fs))) \<inter> range VParam \<subseteq> set vps)
            \<and> is_training n"
    from h have h1: "\<forall>ft opts st s_lr gs. \<forall>x \<in> set (fst (snd (snd (force X ft opts st s_lr gs)))).
               fst x \<notin> range VParam" by (rule conjunct1)
    from h have h2: "\<forall>ut opts st vps fs.
                  fst ` set (snd (snd (update X ut opts st vps fs))) \<inter> range VParam \<subseteq> set vps"
      by (rule conjunct2 [THEN conjunct1])
    from h have h3: "is_training n" by (rule conjunct2 [THEN conjunct2])
    show "fst ` set (param_updates n) \<inter> range VParam \<subseteq> VParam ` set (v_params_wo_init n)
          \<and> (?on \<longrightarrow>
                fst ` set (param_updates_for_init n) \<inter> range VParam
                  \<subseteq> VParam ` set (v_params_for_init n)
              \<and> fst ` set (param_updates n) \<inter> fst ` set (param_updates_for_init n)
                  \<inter> range VParam = {})"
      by (rule tg [OF h1 h2 h3])
  qed
  show ?thesis
    by (rule conjI [OF wo conjI [OF un conjI [OF di conjI [OF c4 conjI [OF c5 c6]]]]])
qed

theorem update_paths_partition_parameters_witness:
  "Net_init demo_ext demo_world (Some demo_opts) (Some ''ws'') None
     = (Inr (demo_net, demo_store), demo_world_after)
   \<and> is_training demo_net
   \<and> od_get (cfg_options demo_net) ''learn_init_states'' = Inr (PBool True)
   \<and> truthy (PBool True)
   \<and> (\<forall>ft opts st s_lr gs. fst (snd (snd (force demo_ext ft opts st s_lr gs))) = [])
   \<and> (\<forall>ut opts st vps fs.
          map fst (snd (snd (update demo_ext ut opts st vps fs))) = take (length fs) vps)
   \<and> v_params_wo_init demo_net = [''GRU_0_W'', ''FC_output_W'']
   \<and> v_params_wo_init demo_net
       = filter (\<lambda>k. \<not> (\<exists>p. k = p @ ''init'')) (v_params demo_net)
   \<and> v_params_for_init demo_net = [''GRU_0_init'']
   \<and> v_params_for_init demo_net = filter (\<lambda>k. \<exists>p. k = p @ ''init'') (v_params demo_net)
   \<and> fst ` set (param_updates demo_net) \<inter> fst ` set (param_updates_for_init demo_net)
       \<inter> range VParam = {}"
proof -
  have tr: "is_training demo_net"
    and fl: "od_get (cfg_options demo_net) ''learn_init_states'' = Inr (PBool True)"
    and wo: "v_params_wo_init demo_net = [''GRU_0_W'', ''FC_output_W'']"
    and fi: "v_params_for_init demo_net = [''GRU_0_init'']"
    by (simp_all add: demo_net_def demo_opts_def od_get_def)
  have on: "\<exists>flag. od_get (cfg_options demo_net) ''learn_init_states'' = Inr flag \<and> truthy flag"
    using fl by simp
  have cf: "\<forall>ft opts st s_lr gs. \<forall>x \<in> set (fst (snd (snd (force demo_ext ft opts st s_lr gs)))).
              fst x \<notin> range VParam"
    by (simp add: demo_ext_def)
  have cu: "\<forall>ut opts st vps fs.
              fst ` set (snd (snd (update demo_ext ut opts st vps fs))) \<inter> range VParam \<subseteq> set vps"
    by (auto simp: demo_ext_def dest: set_zip_leftD)
  note t = update_paths_partition_parameters [OF demo_training_result]
  from t have a: "v_params_wo_init demo_net
       = filter (\<lambda>k. \<not> (\<exists>p. k = p @ ''init'')) (v_params demo_net)"
    by (rule conjunct1)
  from t tr on have b: "v_params_for_init demo_net
       = filter (\<lambda>k. \<exists>p. k = p @ ''init'') (v_params demo_net)"
    by blast
  from t cf cu tr on have c: "fst ` set (param_updates demo_net)
       \<inter> fst ` set (param_updates_for_init demo_net) \<inter> range VParam = {}"
    by blast
  have cf': "\<forall>ft opts st s_lr gs. fst (snd (snd (force demo_ext ft opts st s_lr gs))) = []"
    by (simp add: demo_ext_def)
  have cu': "\<forall>ut opts st vps fs.
               map fst (snd (snd (update demo_ext ut opts st vps fs))) = take (length fs) vps"
    by (simp add: demo_ext_def map_fst_zip_take min_def)
  from demo_training_result tr fl cf' cu' wo fi a b c show ?thesis by simp
qed

end
